theory Spec2Isabelle
  imports Complex_Main "HOL-Library.Sublist"
begin

section \<open>claudebox: the sandbox launcher, embedded from its JavaScript source\<close>

text \<open>
  The repository holds two variants of the launcher script.  \<^verbatim>\<open>src/src/claudebox.js\<close> has
  three capability flags, a dry-run mode and rebinds the SSH agent socket to a fixed path
  inside the sandbox.  The second variant (\<^verbatim>\<open>src/unnamed/part_001\<close>) has five capability
  flags (adding git configuration and IDE integration), no dry-run mode, and binds the SSH agent
  socket at its original path.  Definitions taken from the first file keep the names of the
  source; definitions taken from the second file carry the suffix \<open>_ide\<close>.  Functions whose
  text is the same in both files are embedded once.

  JavaScript strings are modelled as \<^typ>\<open>string\<close>, one \<^typ>\<open>char\<close> per code unit; a
  value that may be \<^verbatim>\<open>undefined\<close> is an \<^typ>\<open>'a option\<close>.
\<close>

subsection \<open>JavaScript values\<close>

text \<open>The values \<^verbatim>\<open>JSON.parse\<close> can return.  An object is the list of its own
  properties in insertion order.\<close>

datatype json =
    JNull
  | JBool bool
  | JNum real
  | JStr string
  | JArr "json list"
  | JObj "(string \<times> json) list"

text \<open>Truthiness, as \<^verbatim>\<open>if (v)\<close>, \<^verbatim>\<open>v && w\<close> and \<^verbatim>\<open>v || w\<close> test it.\<close>

fun truthy :: "json \<Rightarrow> bool" where
  "truthy JNull = False"
| "truthy (JBool b) = b"
| "truthy (JNum x) = (x \<noteq> 0)"
| "truthy (JStr s) = (s \<noteq> [])"
| "truthy (JArr xs) = True"
| "truthy (JObj kvs) = True"

text \<open>Truthiness of a value that may be \<^verbatim>\<open>undefined\<close>.\<close>

definition truthy_opt :: "json option \<Rightarrow> bool" where
  "truthy_opt v = (case v of None \<Rightarrow> False | Some j \<Rightarrow> truthy j)"

text \<open>\<^verbatim>\<open>a || b\<close> on strings that may be undefined: the first operand unless it is
  undefined or empty.\<close>

definition or_else :: "string option \<Rightarrow> string option \<Rightarrow> string option" where
  "or_else a b = (case a of None \<Rightarrow> b | Some s \<Rightarrow> if s = [] then b else Some s)"

text \<open>Decimal rendering of a natural number, as a template literal renders an index or a
  user id.\<close>

definition digit_char :: "nat \<Rightarrow> char" where
  "digit_char n = ''0123456789'' ! n"

fun string_of_nat :: "nat \<Rightarrow> string" where
  "string_of_nat n =
     (if n < 10 then [digit_char n]
      else string_of_nat (n div 10) @ [digit_char (n mod 10)])"

declare string_of_nat.simps [simp del]

text \<open>The own enumerable properties that object spread \<^verbatim>\<open>{...v}\<close> copies: the
  properties of an object, the indexed elements of an array, the indexed characters of a
  string, nothing for \<^verbatim>\<open>null\<close>, booleans and numbers.\<close>

fun own_props :: "json \<Rightarrow> (string \<times> json) list" where
  "own_props (JObj kvs) = kvs"
| "own_props (JArr xs) = zip (map string_of_nat [0..<length xs]) xs"
| "own_props (JStr s) = zip (map string_of_nat [0..<length s]) (map (\<lambda>c. JStr [c]) s)"
| "own_props _ = []"

text \<open>Object spread into an object under construction: each property is defined in turn, a
  later one replacing an earlier one of the same name.\<close>

definition spread :: "(string \<rightharpoonup> json) \<Rightarrow> (string \<times> json) list \<Rightarrow> (string \<rightharpoonup> json)" where
  "spread obj props = fold (\<lambda>(k, v) m. m(k \<mapsto> v)) props obj"

text \<open>How a function call ends: it returns, it calls \<^verbatim>\<open>process.exit(code)\<close>, or it
  throws an exception nobody catches.\<close>

datatype 'a completion = Return 'a | Exit int | Throw string

text \<open>A line printed by \<^verbatim>\<open>console.log\<close> (standard output) or \<^verbatim>\<open>console.error\<close>.\<close>

datatype out = Log string | Err string

subsection \<open>Paths: Node's \<^verbatim>\<open>path.join\<close> on POSIX\<close>

text \<open>\<^verbatim>\<open>String.prototype.split\<close> on a one-character separator.\<close>

fun split_on :: "char \<Rightarrow> string \<Rightarrow> string list" where
  "split_on c [] = [[]]"
| "split_on c (x # xs) =
     (if x = c then [] # split_on c xs
      else (case split_on c xs of [] \<Rightarrow> [[x]] | s # ss \<Rightarrow> (x # s) # ss))"

text \<open>\<^verbatim>\<open>Array.prototype.join\<close> on strings.\<close>

fun join_with :: "string \<Rightarrow> string list \<Rightarrow> string" where
  "join_with sep [] = []"
| "join_with sep [s] = s"
| "join_with sep (s # t # ss) = s @ sep @ join_with sep (t # ss)"

text \<open>Node's \<^verbatim>\<open>normalizeString\<close>: the segments of a path are pushed on a stack (kept
  reversed here); empty segments and \<^verbatim>\<open>.\<close> are dropped; \<^verbatim>\<open>..\<close> pops the last
  segment unless there is none or it is \<^verbatim>\<open>..\<close> itself, in which case it is kept only
  for a relative path.\<close>

fun normalize_segs :: "bool \<Rightarrow> string list \<Rightarrow> string list \<Rightarrow> string list" where
  "normalize_segs allowAboveRoot acc [] = rev acc"
| "normalize_segs allowAboveRoot acc (s # ss) =
     (if s = [] \<or> s = ''.'' then normalize_segs allowAboveRoot acc ss
      else if s = ''..'' then
        (case acc of
           [] \<Rightarrow> normalize_segs allowAboveRoot (if allowAboveRoot then [''..''] else []) ss
         | a # as \<Rightarrow>
             if a = ''..'' then normalize_segs allowAboveRoot (if allowAboveRoot then ''..'' # acc else acc) ss
             else normalize_segs allowAboveRoot as ss)
      else normalize_segs allowAboveRoot (s # acc) ss)"

definition path_normalize :: "string \<Rightarrow> string" where
  "path_normalize p =
     (if p = [] then ''.''
      else
        let isAbsolute = (hd p = CHR ''/'');
            trailingSeparator = (last p = CHR ''/'');
            q = join_with ''/'' (normalize_segs (\<not> isAbsolute) [] (split_on CHR ''/'' p))
        in if q = [] then (if isAbsolute then ''/'' else if trailingSeparator then ''./'' else ''.'')
           else (if isAbsolute then ''/'' else []) @ q @ (if trailingSeparator then ''/'' else []))"

definition path_join :: "string list \<Rightarrow> string" where
  "path_join parts =
     (case filter (\<lambda>s. s \<noteq> []) parts of
        [] \<Rightarrow> ''.''
      | ps \<Rightarrow> path_normalize (join_with ''/'' ps))"

subsection \<open>The host\<close>

text \<open>What reading and parsing a JSON file gives: the file is missing (\<^verbatim>\<open>ENOENT\<close>), reading
  or parsing fails with a message, or a value.\<close>

datatype read_result = Enoent | Failed string | Parsed json

text \<open>What the program observes of its host: the environment in its order, the user id, the
  platform name, and the answers of the file system.\<close>

record host =
  env :: "(string \<times> string) list"
  uid :: nat
  platform :: string
  fs_access :: "string \<Rightarrow> bool"
  fs_is_dir :: "string \<Rightarrow> bool"
  fs_realpath :: "string \<Rightarrow> string option"
  fs_read :: "string \<Rightarrow> string option"
  fs_read_json :: "string \<Rightarrow> read_result"
  fs_write_ok :: "string \<Rightarrow> bool"

text \<open>Node gives \<^verbatim>\<open>process.env\<close> an interceptor for property names only.  A name that is
  an array index (the decimal numeral, without leading zeros, of a number below \<open>2\<^sup>3\<^sup>2 - 1\<close>)
  is looked up as an element, which the object has not: \<^verbatim>\<open>Object.keys(process.env)\<close> lists
  a variable of such a name, but a property read, the operator \<^verbatim>\<open>in\<close>,
  \<^verbatim>\<open>Object.entries\<close> and the spread syntax do not see it.\<close>

definition index_value :: "string \<Rightarrow> nat" where
  "index_value k = foldl (\<lambda>n ch. 10 * n + (of_char ch - 48)) 0 k"

definition is_array_index :: "string \<Rightarrow> bool" where
  "is_array_index k \<longleftrightarrow>
     k \<noteq> [] \<and> (\<forall>ch \<in> set k. ch \<in> set ''0123456789'')
     \<and> (hd k = CHR ''0'' \<longrightarrow> k = ''0'')
     \<and> index_value k < 4294967295"

text \<open>The variables that \<^verbatim>\<open>Object.entries(process.env)\<close> and \<^verbatim>\<open>{ ...process.env }\<close>
  see.\<close>

definition own_env :: "(string \<times> string) list \<Rightarrow> (string \<times> string) list" where
  "own_env e = filter (\<lambda>(k, v). \<not> is_array_index k) e"

text \<open>\<^verbatim>\<open>process.env.NAME\<close>, for a name that is not an array index.\<close>

definition getenv :: "'a host_scheme \<Rightarrow> string \<Rightarrow> string option" where
  "getenv h k = map_of (env h) k"

definition pathExists :: "'a host_scheme \<Rightarrow> string \<Rightarrow> bool" where
  "pathExists h p = fs_access h p"

definition isDirectory :: "'a host_scheme \<Rightarrow> string \<Rightarrow> bool" where
  "isDirectory h p = fs_is_dir h p"

definition getTmpDir :: "'a host_scheme \<Rightarrow> string" where
  "getTmpDir h =
     (case or_else (getenv h ''TMPDIR'') (or_else (getenv h ''TEMP'') (getenv h ''TMP'')) of
        None \<Rightarrow> ''/tmp''
      | Some s \<Rightarrow> if s = [] then ''/tmp'' else s)"

subsection \<open>Configuration\<close>

definition CONFIG_DEFAULTS :: "string \<rightharpoonup> json" where
  "CONFIG_DEFAULTS =
     [''allowSshAgent'' \<mapsto> JBool False,
      ''allowGpgAgent'' \<mapsto> JBool False,
      ''allowXdgRuntime'' \<mapsto> JBool False]"

definition CONFIG_DEFAULTS_ide :: "string \<rightharpoonup> json" where
  "CONFIG_DEFAULTS_ide =
     [''allowSshAgent'' \<mapsto> JBool False,
      ''allowGpgAgent'' \<mapsto> JBool False,
      ''allowGitConfig'' \<mapsto> JBool False,
      ''allowXdgRuntime'' \<mapsto> JBool False,
      ''allowIde'' \<mapsto> JBool False]"

definition SANDBOX_SSH_SOCK :: string where
  "SANDBOX_SSH_SOCK = ''/tmp/ssh-agent.sock''"

text \<open>\<^verbatim>\<open>path.join(undefined, ...)\<close> throws a \<^verbatim>\<open>TypeError\<close>.\<close>

definition getConfigPath :: "'a host_scheme \<Rightarrow> string completion" where
  "getConfigPath h =
     (case or_else (getenv h ''XDG_CONFIG_HOME'') None of
        Some xdgConfig \<Rightarrow> Return (path_join [xdgConfig, ''claudebox'', ''config.json''])
      | None \<Rightarrow>
          (case getenv h ''HOME'' of
             None \<Rightarrow> Throw ''TypeError''
           | Some home \<Rightarrow>
               Return (path_join [path_join [home, ''.config''], ''claudebox'', ''config.json''])))"

text \<open>\<^verbatim>\<open>loadConfig\<close>, over the defaults of the variant: the warnings printed and the merged
  configuration object.\<close>

definition loadConfig_with ::
  "(string \<rightharpoonup> json) \<Rightarrow> 'a host_scheme \<Rightarrow> (out list \<times> (string \<rightharpoonup> json)) completion" where
  "loadConfig_with defaults h =
     (case getConfigPath h of
        Throw e \<Rightarrow> Throw e
      | Exit c \<Rightarrow> Exit c
      | Return configPath \<Rightarrow>
          (case fs_read_json h configPath of
             Parsed userConfig \<Rightarrow> Return ([], spread defaults (own_props userConfig))
           | Enoent \<Rightarrow> Return ([], defaults)
           | Failed message \<Rightarrow>
               Return ([Err (''Warning: Failed to load config from '' @ configPath @ '': '' @ message)],
                       defaults)))"

definition loadConfig :: "'a host_scheme \<Rightarrow> (out list \<times> (string \<rightharpoonup> json)) completion" where
  "loadConfig = loadConfig_with CONFIG_DEFAULTS"

definition loadConfig_ide :: "'a host_scheme \<Rightarrow> (out list \<times> (string \<rightharpoonup> json)) completion" where
  "loadConfig_ide = loadConfig_with CONFIG_DEFAULTS_ide"

subsection \<open>Command-line parsing\<close>

text \<open>The help texts, line by line; only the path of the configuration file varies.\<close>

definition showHelp_text :: "string \<Rightarrow> string list" where
  \<open>showHelp_text configPath =
     [''Usage: claudebox [OPTIONS]'',
      '''',
      ''Options:'',
      ''  --allow-ssh-agent                       Allow access to SSH agent socket'',
      ''  --allow-gpg-agent                       Allow access to GPG agent socket'',
      ''  --allow-xdg-runtime                     Allow full XDG runtime directory access'',
      ''  --dry-run                               Print sandbox command without executing'',
      ''  -h, --help                              Show this help message'',
      '''',
      ''Configuration:'',
      ''  Settings can be configured in '' @ configPath,
      ''  CLI arguments override config file settings.'',
      '''',
      ''  Example config:'',
      ''    {'',
      ''      "allowSshAgent": false,'',
      ''      "allowGpgAgent": false,'',
      ''      "allowXdgRuntime": false'',
      ''    }'',
      '''',
      ''Security:'',
      ''  By default, claudebox blocks access to /run/user/$UID (XDG runtime directory)'',
      ''  which contains DBus, audio, display, and other sensitive sockets.'',
      ''  Use --allow-* flags to selectively enable access to specific services.'',
      '''',
      ''Examples:'',
      ''  claudebox                               # Run with default settings'',
      ''  claudebox --allow-ssh-agent             # Allow SSH agent for git operations'',
      ''  claudebox --allow-xdg-runtime           # Allow full XDG runtime access'']\<close>

definition showHelp_text_ide :: "string \<Rightarrow> string list" where
  \<open>showHelp_text_ide configPath =
     [''Usage: claudebox [OPTIONS]'',
      '''',
      ''Options:'',
      ''  --allow-ssh-agent                       Allow access to SSH agent socket'',
      ''  --allow-gpg-agent                       Allow access to GPG agent socket'',
      ''  --allow-git-config                      Allow access to user git configuration (read-only)'',
      ''  --allow-xdg-runtime                     Allow full XDG runtime directory access'',
      ''  --allow-ide                             Allow IDE integration (auth token passthrough)'',
      ''  -h, --help                              Show this help message'',
      '''',
      ''Configuration:'',
      ''  Settings can be configured in '' @ configPath,
      ''  CLI arguments override config file settings.'',
      '''',
      ''  Example config:'',
      ''    {'',
      ''      "allowSshAgent": false,'',
      ''      "allowGpgAgent": false,'',
      ''      "allowGitConfig": false,'',
      ''      "allowXdgRuntime": false,'',
      ''      "allowIde": false'',
      ''    }'',
      '''',
      ''Security:'',
      ''  By default, claudebox blocks access to /run/user/$UID (XDG runtime directory)'',
      ''  which contains DBus, audio, display, and other sensitive sockets.'',
      ''  Use --allow-* flags to selectively enable access to specific services.'',
      '''',
      ''Examples:'',
      ''  claudebox                               # Run with default settings'',
      ''  claudebox --allow-ssh-agent             # Allow SSH agent for git operations'',
      ''  claudebox --allow-git-config            # Allow user git config for commits'',
      ''  claudebox --allow-xdg-runtime           # Allow full XDG runtime access'',
      ''  claudebox --allow-ide                  # Allow IDE extension integration'']\<close>

definition showHelp_with :: "(string \<Rightarrow> string list) \<Rightarrow> 'a host_scheme \<Rightarrow> out list completion" where
  "showHelp_with text h =
     (case getConfigPath h of
        Throw e \<Rightarrow> Throw e
      | Exit c \<Rightarrow> Exit c
      | Return configPath \<Rightarrow> Return [Log (join_with [CHR 0x0A] (text configPath))])"

definition showHelp :: "'a host_scheme \<Rightarrow> out list completion" where
  "showHelp = showHelp_with showHelp_text"

definition showHelp_ide :: "'a host_scheme \<Rightarrow> out list completion" where
  "showHelp_ide = showHelp_with showHelp_text_ide"

text \<open>The \<^verbatim>\<open>while\<close> loop of \<^verbatim>\<open>parseArgs\<close> over the arguments not yet read.  The
  overrides are an object whose capability fields start \<^verbatim>\<open>undefined\<close> (absent from the
  map); an option sets its field to \<^verbatim>\<open>true\<close>.  The result pairs what was printed with
  how the loop ended.\<close>

fun parseArgs_loop ::
  "'a host_scheme \<Rightarrow> string list \<Rightarrow> (string \<rightharpoonup> json) \<Rightarrow> out list \<times> (string \<rightharpoonup> json) completion" where
  "parseArgs_loop h [] cliOverrides = ([], Return cliOverrides)"
| "parseArgs_loop h (arg # rest) cliOverrides =
     (if arg = ''--allow-ssh-agent'' then
        parseArgs_loop h rest (cliOverrides(''allowSshAgent'' \<mapsto> JBool True))
      else if arg = ''--allow-gpg-agent'' then
        parseArgs_loop h rest (cliOverrides(''allowGpgAgent'' \<mapsto> JBool True))
      else if arg = ''--allow-xdg-runtime'' then
        parseArgs_loop h rest (cliOverrides(''allowXdgRuntime'' \<mapsto> JBool True))
      else if arg = ''--dry-run'' then
        parseArgs_loop h rest (cliOverrides(''dryRun'' \<mapsto> JBool True))
      else if arg = ''-h'' \<or> arg = ''--help'' then
        (case showHelp h of
           Return printed \<Rightarrow> (printed, Exit 0)
         | Exit c \<Rightarrow> ([], Exit c)
         | Throw e \<Rightarrow> ([], Throw e))
      else
        ([Err (''Unknown option: '' @ arg), Err ''Use --help for usage information''], Exit 1))"

fun parseArgs_loop_ide ::
  "'a host_scheme \<Rightarrow> string list \<Rightarrow> (string \<rightharpoonup> json) \<Rightarrow> out list \<times> (string \<rightharpoonup> json) completion" where
  "parseArgs_loop_ide h [] cliOverrides = ([], Return cliOverrides)"
| "parseArgs_loop_ide h (arg # rest) cliOverrides =
     (if arg = ''--allow-ssh-agent'' then
        parseArgs_loop_ide h rest (cliOverrides(''allowSshAgent'' \<mapsto> JBool True))
      else if arg = ''--allow-gpg-agent'' then
        parseArgs_loop_ide h rest (cliOverrides(''allowGpgAgent'' \<mapsto> JBool True))
      else if arg = ''--allow-git-config'' then
        parseArgs_loop_ide h rest (cliOverrides(''allowGitConfig'' \<mapsto> JBool True))
      else if arg = ''--allow-xdg-runtime'' then
        parseArgs_loop_ide h rest (cliOverrides(''allowXdgRuntime'' \<mapsto> JBool True))
      else if arg = ''--allow-ide'' then
        parseArgs_loop_ide h rest (cliOverrides(''allowIde'' \<mapsto> JBool True))
      else if arg = ''-h'' \<or> arg = ''--help'' then
        (case showHelp_ide h of
           Return printed \<Rightarrow> (printed, Exit 0)
         | Exit c \<Rightarrow> ([], Exit c)
         | Throw e \<Rightarrow> ([], Throw e))
      else
        ([Err (''Unknown option: '' @ arg), Err ''Use --help for usage information''], Exit 1))"

text \<open>\<^verbatim>\<open>cli.f !== undefined ? cli.f : config.f\<close>.\<close>

definition override :: "(string \<rightharpoonup> json) \<Rightarrow> (string \<rightharpoonup> json) \<Rightarrow> string \<Rightarrow> json option" where
  "override cliOverrides config f =
     (case cliOverrides f of Some v \<Rightarrow> Some v | None \<Rightarrow> config f)"

text \<open>The object literal \<^verbatim>\<open>options\<close>: the listed fields, each with the merged value (an
  undefined value is an absent key).\<close>

definition merge_fields ::
  "string list \<Rightarrow> (string \<rightharpoonup> json) \<Rightarrow> (string \<rightharpoonup> json) \<Rightarrow> (string \<rightharpoonup> json)" where
  "merge_fields names cliOverrides config =
     (\<lambda>f. if f \<in> set names then override cliOverrides config f else None)"

definition parseArgs :: "'a host_scheme \<Rightarrow> string list \<Rightarrow> out list \<times> (string \<rightharpoonup> json) completion" where
  "parseArgs h args =
     (case loadConfig h of
        Throw e \<Rightarrow> ([], Throw e)
      | Exit c \<Rightarrow> ([], Exit c)
      | Return (warnings, config) \<Rightarrow>
          (case parseArgs_loop h args [''dryRun'' \<mapsto> JBool False] of
             (printed, Return cliOverrides) \<Rightarrow>
               (warnings @ printed,
                Return ((merge_fields [''allowSshAgent'', ''allowGpgAgent'', ''allowXdgRuntime'']
                           cliOverrides config)
                        (''dryRun'' := cliOverrides ''dryRun'')))
           | (printed, Exit c) \<Rightarrow> (warnings @ printed, Exit c)
           | (printed, Throw e) \<Rightarrow> (warnings @ printed, Throw e)))"

definition parseArgs_ide :: "'a host_scheme \<Rightarrow> string list \<Rightarrow> out list \<times> (string \<rightharpoonup> json) completion" where
  "parseArgs_ide h args =
     (case loadConfig_ide h of
        Throw e \<Rightarrow> ([], Throw e)
      | Exit c \<Rightarrow> ([], Exit c)
      | Return (warnings, config) \<Rightarrow>
          (case parseArgs_loop_ide h args Map.empty of
             (printed, Return cliOverrides) \<Rightarrow>
               (warnings @ printed,
                Return (merge_fields
                          [''allowSshAgent'', ''allowGpgAgent'', ''allowGitConfig'',
                           ''allowXdgRuntime'', ''allowIde'']
                          cliOverrides config))
           | (printed, Exit c) \<Rightarrow> (warnings @ printed, Exit c)
           | (printed, Throw e) \<Rightarrow> (warnings @ printed, Throw e)))"

subsection \<open>The sandbox interface\<close>

text \<open>The configuration object that \<^verbatim>\<open>main\<close> hands to \<^verbatim>\<open>Sandbox.create\<close>.  The paths are
  strings; the capability flags are the resolved options, of any JSON type or undefined.  The
  variant with IDE integration has two more flags.\<close>

record config =
  claudeHome :: string
  claudeConfig :: string
  claudeJson :: string
  shareTree :: string
  repoRoot :: string
  allowSshAgent :: "json option"
  allowGpgAgent :: "json option"
  allowXdgRuntime :: "json option"

record config_ide = config +
  allowGitConfig :: "json option"
  allowIde :: "json option"

text \<open>The result of \<^verbatim>\<open>wrap\<close>.  An argument is undefined where the source takes it from an
  environment variable that is not set.  The environment is \<^verbatim>\<open>process.env\<close> itself, with
  all the variables of the process, or a copy made by the spread syntax.\<close>

record WrapResult =
  cmd :: string
  args :: "string option list"
  wenv :: "(string \<times> string) list"

subsection \<open>Linux: the bubblewrap sandbox\<close>

text \<open>The array literal that opens the argument list in both variants: devices, system
  directories, the selected subdirectories of \<^verbatim>\<open>/run\<close>, and the Nix store.\<close>

definition basic_filesystem :: "string list" where
  "basic_filesystem =
     [''--dev'', ''/dev'',
      ''--proc'', ''/proc'',
      ''--ro-bind-try'', ''/usr'', ''/usr'',
      ''--ro-bind-try'', ''/bin'', ''/bin'',
      ''--ro-bind-try'', ''/lib'', ''/lib'',
      ''--ro-bind-try'', ''/lib64'', ''/lib64'',
      ''--ro-bind'', ''/etc'', ''/etc'',
      ''--ro-bind-try'', ''/run/systemd/resolve'', ''/run/systemd/resolve'',
      ''--ro-bind-try'', ''/run/current-system'', ''/run/current-system'',
      ''--ro-bind-try'', ''/run/booted-system'', ''/run/booted-system'',
      ''--ro-bind-try'', ''/run/opengl-driver'', ''/run/opengl-driver'',
      ''--ro-bind-try'', ''/run/opengl-driver-32'', ''/run/opengl-driver-32'',
      ''--ro-bind-try'', ''/run/nixos'', ''/run/nixos'',
      ''--ro-bind-try'', ''/run/wrappers'', ''/run/wrappers'',
      ''--ro-bind'', ''/nix'', ''/nix'',
      ''--bind'', ''/nix/var/nix/daemon-socket'', ''/nix/var/nix/daemon-socket'']"

text \<open>The sanitised copy of the system \<^verbatim>\<open>ssh_config\<close> bound over the original; any error
  while resolving, reading or writing is caught and leaves the argument list as it was.  The
  copy itself is written into the session directory and is not part of the result.\<close>

definition sanitized_ssh_config :: "'a host_scheme \<Rightarrow> string \<Rightarrow> string list" where
  "sanitized_ssh_config h claudeHome' =
     (let sshConfigPath = ''/etc/ssh/ssh_config'' in
      if pathExists h sshConfigPath then
        (case fs_realpath h sshConfigPath of
           None \<Rightarrow> []
         | Some realSshConfig \<Rightarrow>
             (case fs_read h realSshConfig of
                None \<Rightarrow> []
              | Some content \<Rightarrow>
                  let sanitizedPath = path_join [claudeHome', ''ssh_config'']
                  in if fs_write_ok h sanitizedPath
                     then [''--ro-bind'', sanitizedPath, realSshConfig]
                     else []))
      else [])"

text \<open>\<^verbatim>\<open>process.env.XDG_RUNTIME_DIR || `/run/user/${process.getuid()}`\<close>.\<close>

definition xdgRuntimeDir :: "'a host_scheme \<Rightarrow> string" where
  "xdgRuntimeDir h =
     (case or_else (getenv h ''XDG_RUNTIME_DIR'') None of
        Some d \<Rightarrow> d
      | None \<Rightarrow> ''/run/user/'' @ string_of_nat (uid h))"

text \<open>The socket named by \<^verbatim>\<open>SSH_AUTH_SOCK\<close>, when the flag is truthy, the variable is set
  and not empty, and the path exists.\<close>

definition ssh_sock :: "'a host_scheme \<Rightarrow> json option \<Rightarrow> string option" where
  "ssh_sock h flag =
     (if truthy_opt flag then
        (case or_else (getenv h ''SSH_AUTH_SOCK'') None of
           Some sock \<Rightarrow> if pathExists h sock then Some sock else None
         | None \<Rightarrow> None)
      else None)"

text \<open>The isolated temporary file system and home, the unsharing of namespaces, and the
  environment variables set explicitly.  \<open>home\<close>, \<open>user\<close> and \<open>pathEnv\<close> are the values of
  \<^verbatim>\<open>HOME\<close>, \<^verbatim>\<open>USER\<close> and \<^verbatim>\<open>PATH\<close>; \<open>home'\<close> is \<open>home\<close> where it is known to be set.\<close>

definition isolated_home :: "'b config_scheme \<Rightarrow> string \<Rightarrow> string option list" where
  "isolated_home c home' =
     [Some ''--tmpfs'', Some ''/tmp'',
      Some ''--bind'', Some (claudeHome c), Some home',
      Some ''--bind'', Some (claudeConfig c), Some (path_join [home', ''.claude'']),
      Some ''--bind'', Some (claudeJson c), Some (path_join [home', ''.claude.json''])]"

definition namespaces_and_env :: "string \<Rightarrow> string option \<Rightarrow> string option \<Rightarrow> string option list" where
  "namespaces_and_env home' user pathEnv =
     [Some ''--unshare-all'',
      Some ''--share-net'',
      Some ''--setenv'', Some ''HOME'', Some home',
      Some ''--setenv'', Some ''USER'', user,
      Some ''--setenv'', Some ''PATH'', pathEnv,
      Some ''--setenv'', Some ''TMPDIR'', Some ''/tmp'',
      Some ''--setenv'', Some ''TEMPDIR'', Some ''/tmp'',
      Some ''--setenv'', Some ''TEMP'', Some ''/tmp'',
      Some ''--setenv'', Some ''TMP'', Some ''/tmp'']"

text \<open>The shared tree read-only, unless it is the project root, then the project root
  writable.\<close>

definition project_binds :: "'b config_scheme \<Rightarrow> string option list" where
  "project_binds c =
     (if shareTree c \<noteq> repoRoot c
      then map Some [''--ro-bind'', shareTree c, shareTree c] else [])
     @ map Some [''--bind'', repoRoot c, repoRoot c]"

text \<open>The whole runtime directory, when that flag is truthy and it is a directory.\<close>

definition xdg_runtime_bind :: "'a host_scheme \<Rightarrow> string option list" where
  "xdg_runtime_bind h =
     (let xdg = xdgRuntimeDir h
      in if isDirectory h xdg
         then map Some [''--ro-bind'', xdg, xdg, ''--setenv'', ''XDG_RUNTIME_DIR'', xdg]
         else [])"

text \<open>The directory of the GPG agent sockets, when that flag is truthy and it is a
  directory.\<close>

definition gpg_bind :: "'a host_scheme \<Rightarrow> 'b config_scheme \<Rightarrow> string option list" where
  "gpg_bind h c =
     (if truthy_opt (allowGpgAgent c) then
        (let gpgDir = path_join [xdgRuntimeDir h, ''gnupg'']
         in if isDirectory h gpgDir then map Some [''--ro-bind'', gpgDir, gpgDir] else [])
      else [])"

text \<open>\<^verbatim>\<open>BubblewrapSandbox.wrap\<close> of \<^verbatim>\<open>src/src/claudebox.js\<close>.  \<^verbatim>\<open>path.join(home, ...)\<close>
  throws when \<^verbatim>\<open>HOME\<close> is not set.  The SSH agent socket is bound to the fixed path
  \<^verbatim>\<open>SANDBOX_SSH_SOCK\<close>, whatever the runtime directory flag says, and \<^verbatim>\<open>SSH_AUTH_SOCK\<close> is
  deleted from the copy of the environment that is returned; the copy has the variables that
  the spread syntax sees.\<close>

definition runtime_sockets :: "'a host_scheme \<Rightarrow> 'b config_scheme \<Rightarrow> string option list" where
  "runtime_sockets h c =
     (if truthy_opt (allowXdgRuntime c) then xdg_runtime_bind h else gpg_bind h c)
     @ (case ssh_sock h (allowSshAgent c) of
          Some sock \<Rightarrow>
            map Some [''--bind'', sock, SANDBOX_SSH_SOCK,
                      ''--setenv'', ''SSH_AUTH_SOCK'', SANDBOX_SSH_SOCK]
        | None \<Rightarrow> [])"

definition BubblewrapSandbox_wrap ::
  "'a host_scheme \<Rightarrow> 'b config_scheme \<Rightarrow> string \<Rightarrow> WrapResult completion" where
  "BubblewrapSandbox_wrap h c script =
     (let home = getenv h ''HOME'';
          user = getenv h ''USER'';
          pathEnv = getenv h ''PATH'';
          args1 = map Some (basic_filesystem @ sanitized_ssh_config h (claudeHome c))
      in case home of
           None \<Rightarrow> Throw ''TypeError''
         | Some home' \<Rightarrow>
             let args2 = args1 @ isolated_home c home' @ namespaces_and_env home' user pathEnv;
                 args3 = args2 @ project_binds c;
                 args4 = args3 @ runtime_sockets h c;
                 env' = filter (\<lambda>(k, v). k \<noteq> ''SSH_AUTH_SOCK'') (own_env (env h));
                 args5 = args4 @ map Some [''bash'', ''-c'', script]
             in Return \<lparr> cmd = ''bwrap'', args = args5, wenv = env' \<rparr>)"

text \<open>\<^verbatim>\<open>BubblewrapSandbox.wrap\<close> of the variant with IDE integration
  (\<^verbatim>\<open>src/unnamed/part_001\<close>): no sanitised \<^verbatim>\<open>ssh_config\<close>, optional git configuration, the
  SSH agent socket bound at its own path and only when the whole runtime directory is not
  exposed, the IDE directory, and the environment of the process passed on as it is.\<close>

definition git_config_binds :: "'a host_scheme \<Rightarrow> 'b config_ide_scheme \<Rightarrow> string \<Rightarrow> string option list" where
  "git_config_binds h c home' =
     (let gitconfig = path_join [home', ''.gitconfig''];
          gitdir = path_join [home', ''.config'', ''git'']
      in if truthy_opt (allowGitConfig c) then
           (if pathExists h gitconfig
            then map Some [''--ro-bind'', gitconfig, gitconfig] else [])
           @ (if isDirectory h gitdir
              then map Some [''--ro-bind'', gitdir, gitdir] else [])
         else [])"

definition runtime_sockets_ide :: "'a host_scheme \<Rightarrow> 'b config_scheme \<Rightarrow> string option list" where
  "runtime_sockets_ide h c =
     (if truthy_opt (allowXdgRuntime c) then xdg_runtime_bind h
      else
        (case ssh_sock h (allowSshAgent c) of
           Some sock \<Rightarrow> map Some [''--ro-bind'', sock, sock, ''--setenv'', ''SSH_AUTH_SOCK'', sock]
         | None \<Rightarrow> [])
        @ gpg_bind h c)"

definition ide_bind :: "'a host_scheme \<Rightarrow> 'b config_ide_scheme \<Rightarrow> string \<Rightarrow> string option list" where
  "ide_bind h c home' =
     (let ideDir = path_join [home', ''.claude'', ''ide'']
      in if truthy_opt (allowIde c) \<and> isDirectory h ideDir
         then map Some [''--ro-bind'', ideDir, path_join [home', ''.claude'', ''ide'']]
         else [])"

definition BubblewrapSandbox_wrap_ide ::
  "'a host_scheme \<Rightarrow> 'b config_ide_scheme \<Rightarrow> string \<Rightarrow> WrapResult completion" where
  "BubblewrapSandbox_wrap_ide h c script =
     (let home = getenv h ''HOME'';
          user = getenv h ''USER'';
          pathEnv = getenv h ''PATH''
      in case home of
           None \<Rightarrow> Throw ''TypeError''
         | Some home' \<Rightarrow>
             let args1 = map Some basic_filesystem @ isolated_home c home'
                   @ git_config_binds h c home' @ namespaces_and_env home' user pathEnv;
                 args2 = args1 @ project_binds c;
                 args3 = args2 @ runtime_sockets_ide h c;
                 args4 = args3 @ ide_bind h c home';
                 args5 = args4 @ map Some [''bash'', ''-c'', script]
             in Return \<lparr> cmd = ''bwrap'', args = args5, wenv = env h \<rparr>)"

subsection \<open>macOS: the Seatbelt sandbox\<close>

definition writablePaths :: "string \<Rightarrow> string \<Rightarrow> string list" where
  \<open>writablePaths canonicalTmpdir canonicalSlashTmp =
     [''(subpath (param "PROJECT_DIR"))'', ''(subpath (param "TMPDIR"))'']
     @ (if canonicalTmpdir \<noteq> canonicalSlashTmp
        then [''(subpath (param "SLASH_TMP"))''] else [])\<close>

definition dynamicPolicy :: "string \<Rightarrow> string \<Rightarrow> string" where
  \<open>dynamicPolicy canonicalTmpdir canonicalSlashTmp =
     join_with [CHR 0x0A]
       ['''',
        ''; Allow read-only file operations'',
        ''(allow file-read*)'',
        '''',
        ''; Allow writes to project and temp directories'',
        ''(allow file-write*'',
        ''  '' @ join_with ([CHR 0x0A] @ ''  '') (writablePaths canonicalTmpdir canonicalSlashTmp)
          @ '')'',
        '''',
        ''; Network access for Claude API'',
        ''(allow network-outbound)'',
        ''(allow network-inbound)'',
        ''(allow system-socket)'',
        '''']\<close>

text \<open>\<^verbatim>\<open>SeatbeltSandbox.wrap\<close>, the same in both variants.  A missing profile throws an
  \<^verbatim>\<open>Error\<close>; \<^verbatim>\<open>readFileSync\<close> and \<^verbatim>\<open>realpathSync\<close> throw when they fail.\<close>

definition SeatbeltSandbox_wrap ::
  "'a host_scheme \<Rightarrow> 'b config_scheme \<Rightarrow> string \<Rightarrow> WrapResult completion" where
  "SeatbeltSandbox_wrap h c script =
     (case or_else (getenv h ''CLAUDEBOX_SEATBELT_PROFILE'') None of
        None \<Rightarrow>
          Throw ''Seatbelt profile not found. Set CLAUDEBOX_SEATBELT_PROFILE environment variable.''
      | Some seatbeltProfile \<Rightarrow>
          if \<not> pathExists h seatbeltProfile then
            Throw ''Seatbelt profile not found. Set CLAUDEBOX_SEATBELT_PROFILE environment variable.''
          else
            (case fs_read h seatbeltProfile of
               None \<Rightarrow> Throw ''readFileSync''
             | Some basePolicy \<Rightarrow>
                 (case fs_realpath h (repoRoot c) of
                    None \<Rightarrow> Throw ''realpathSync''
                  | Some canonicalRepoRoot \<Rightarrow>
                      (case fs_realpath h (getTmpDir h) of
                         None \<Rightarrow> Throw ''realpathSync''
                       | Some canonicalTmpdir \<Rightarrow>
                           (case fs_realpath h ''/tmp'' of
                              None \<Rightarrow> Throw ''realpathSync''
                            | Some canonicalSlashTmp \<Rightarrow>
                                let fullPolicy = basePolicy @ [CHR 0x0A]
                                      @ dynamicPolicy canonicalTmpdir canonicalSlashTmp;
                                    args1 = [''-p'', fullPolicy,
                                             ''-DPROJECT_DIR='' @ canonicalRepoRoot,
                                             ''-DTMPDIR='' @ canonicalTmpdir];
                                    args2 = args1 @
                                      (if canonicalTmpdir \<noteq> canonicalSlashTmp
                                       then [''-DSLASH_TMP='' @ canonicalSlashTmp] else []);
                                    args3 = args2 @ [''--'', ''bash'', ''-c'', script]
                                in Return \<lparr> cmd = ''/usr/bin/sandbox-exec'',
                                            args = map Some args3,
                                            wenv = env h \<rparr>)))))"

subsection \<open>Creating a sandbox, and the dry run\<close>

text \<open>The two subclasses of \<^verbatim>\<open>Sandbox\<close>, each holding its configuration.\<close>

datatype sandbox = BubblewrapSandbox config | SeatbeltSandbox config

text \<open>\<^verbatim>\<open>Sandbox.create\<close>: the platform selects the subclass; any other platform throws.\<close>

definition Sandbox_create :: "'a host_scheme \<Rightarrow> config \<Rightarrow> sandbox completion" where
  "Sandbox_create h c =
     (if platform h = ''linux'' then Return (BubblewrapSandbox c)
      else if platform h = ''darwin'' then Return (SeatbeltSandbox c)
      else Throw (''Unsupported platform: '' @ platform h
                  @ ''. Supported: linux, darwin (macOS)''))"

text \<open>The method \<^verbatim>\<open>wrap\<close> of a sandbox object.\<close>

fun Sandbox_wrap :: "'a host_scheme \<Rightarrow> sandbox \<Rightarrow> string \<Rightarrow> WrapResult completion" where
  "Sandbox_wrap h (BubblewrapSandbox c) script = BubblewrapSandbox_wrap h c script"
| "Sandbox_wrap h (SeatbeltSandbox c) script = SeatbeltSandbox_wrap h c script"

text \<open>\<^verbatim>\<open>obj[k] = v\<close> on a plain object kept as the list of its properties in the order
  of their creation: an existing property keeps its place, a new one goes last.\<close>

fun obj_set :: "(string \<times> string) list \<Rightarrow> string \<Rightarrow> string \<Rightarrow> (string \<times> string) list" where
  "obj_set [] k v = [(k, v)]"
| "obj_set ((k', v') # kvs) k v =
     (if k' = k then (k, v) # kvs else (k', v') # obj_set kvs k v)"

text \<open>\<^verbatim>\<open>Object.entries\<close> of such an object: the properties whose names are array indices
  come first, in increasing order of the index, then the others in the order of their
  creation.\<close>

definition object_entries :: "(string \<times> string) list \<Rightarrow> (string \<times> string) list" where
  "object_entries d =
     sort_key (\<lambda>(k, v). index_value k) (filter (\<lambda>(k, v). is_array_index k) d)
     @ filter (\<lambda>(k, v). \<not> is_array_index k) d"

text \<open>The two loops of \<^verbatim>\<open>dryRun\<close> that build \<^verbatim>\<open>diffEnv\<close> from the environment of the
  sandbox and the environment of the process.  The first loop runs over
  \<^verbatim>\<open>Object.entries(env)\<close> and reads \<^verbatim>\<open>process.env[k]\<close> for names that are not array
  indices; the second runs over \<^verbatim>\<open>Object.keys(process.env)\<close>, all the variables of the
  process, and its test \<^verbatim>\<open>k in env\<close> never holds for a name that is an array index.\<close>

definition diffEnv :: "(string \<times> string) list \<Rightarrow> (string \<times> string) list \<Rightarrow> (string \<times> string) list" where
  "diffEnv env' penv =
     (let changed = fold (\<lambda>(k, v) d. if map_of penv k \<noteq> Some v then obj_set d k v else d)
                      (own_env env') []
      in fold (\<lambda>k d. if k \<notin> fst ` set (own_env env') then obj_set d k ''(deleted)'' else d)
           (map fst penv) changed)"

text \<open>The characters that the regular expression \<^verbatim>\<open>/[\s'"]/\<close> matches, among the code
  units below 256: tab, line feed, vertical tab, form feed, carriage return, space,
  no-break space, and the two quotes.\<close>

definition needs_quoting :: "char \<Rightarrow> bool" where
  "needs_quoting ch \<longleftrightarrow>
     ch \<in> set [CHR 0x09, CHR 0x0A, CHR 0x0B, CHR 0x0C, CHR 0x0D, CHR 0x20, CHR 0xA0,
               CHR 0x27, CHR 0x22]"

text \<open>One argument of the printed command line: quoted if it has such a character, every
  single quote in it replaced by quote, backslash, quote, quote.  The test turns an undefined
  argument into the text \<^verbatim>\<open>undefined\<close>, which needs no quoting, and leaves it undefined.\<close>

definition shell_quote :: "string option \<Rightarrow> string option" where
  "shell_quote a =
     (case a of
        None \<Rightarrow> None
      | Some s \<Rightarrow>
          if \<exists>ch \<in> set s. needs_quoting ch then
            Some ([CHR 0x27]
                  @ concat (map (\<lambda>ch. if ch = CHR 0x27
                                       then [CHR 0x27, CHR 0x5C, CHR 0x27, CHR 0x27]
                                       else [ch]) s)
                  @ [CHR 0x27])
          else Some s)"

text \<open>\<^verbatim>\<open>Array.prototype.join\<close> where elements may be undefined: those are rendered as the
  empty string.\<close>

definition join_opt :: "string \<Rightarrow> string option list \<Rightarrow> string" where
  "join_opt sep xs = join_with sep (map (\<lambda>a. case a of None \<Rightarrow> [] | Some s \<Rightarrow> s) xs)"

text \<open>What \<^verbatim>\<open>dryRun\<close> prints for a wrap result: the changes of the environment under a
  heading, if there are any, then the command line, its words separated by space, backslash,
  line feed and two spaces.\<close>

definition dryRun_lines :: "'a host_scheme \<Rightarrow> WrapResult \<Rightarrow> out list" where
  "dryRun_lines h r =
     (let d = object_entries (diffEnv (wenv r) (env h))
      in (if d \<noteq> []
          then Log ''# Environment changes:'' # map (\<lambda>(k, v). Log (''#   '' @ k @ ''='' @ v)) d
          else [])
         @ [Log (join_opt [CHR 0x20, CHR 0x5C, CHR 0x0A, CHR 0x20, CHR 0x20]
                   (map shell_quote (Some (cmd r) # args r)))])"

text \<open>\<^verbatim>\<open>Sandbox.dryRun\<close> (in \<^verbatim>\<open>src/src/claudebox.js\<close> only): an exception of \<^verbatim>\<open>wrap\<close>
  passes through.\<close>

definition Sandbox_dryRun :: "'a host_scheme \<Rightarrow> sandbox \<Rightarrow> string \<Rightarrow> out list completion" where
  "Sandbox_dryRun h sb script =
     (case Sandbox_wrap h sb script of
        Throw e \<Rightarrow> Throw e
      | Exit c \<Rightarrow> Exit c
      | Return r \<Rightarrow> Return (dryRun_lines h r))"

subsection \<open>The session directory and its cleanup\<close>

text \<open>The tree under the session directory.  Each entry records whether the file system lets
  it be removed (permissions, mounts): what the sandboxed process left there is not the
  launcher's choice.\<close>

datatype node = File bool | Dir bool "(string \<times> node) list"

text \<open>Node's \<^verbatim>\<open>fs.rmSync(path, {recursive: true, force: true})\<close> on a tree: the entries of
  a directory are removed in turn, then the directory; the first entry that cannot be removed
  stops the removal with an exception and stays, with all that follows it.  The result is what
  remains, nothing when the removal succeeded.\<close>

fun rm_node :: "node \<Rightarrow> node option"
  and rm_entries :: "(string \<times> node) list \<Rightarrow> (string \<times> node) list" where
  "rm_node (File removable) = (if removable then None else Some (File removable))"
| "rm_node (Dir removable entries) =
     (case rm_entries entries of
        [] \<Rightarrow> if removable then None else Some (Dir removable [])
      | rest \<Rightarrow> Some (Dir removable rest))"
| "rm_entries [] = []"
| "rm_entries ((name, n) # entries) =
     (case rm_node n of
        None \<Rightarrow> rm_entries entries
      | Some n' \<Rightarrow> (name, n') # entries)"

text \<open>\<^verbatim>\<open>fs.rmSync\<close> on the session directory, which may be absent: with \<^verbatim>\<open>force\<close> a
  missing path is not an error.  The result pairs how the call ended with the state left.\<close>

definition rmSync :: "node option \<Rightarrow> unit completion \<times> node option" where
  "rmSync s =
     (case s of
        None \<Rightarrow> (Return (), None)
      | Some n \<Rightarrow>
          (case rm_node n of
             None \<Rightarrow> (Return (), None)
           | Some n' \<Rightarrow> (Throw ''rmSync'', Some n')))"

text \<open>The closure \<^verbatim>\<open>cleanup\<close> of \<^verbatim>\<open>main\<close>: \<^verbatim>\<open>rmSync\<close> in a \<^verbatim>\<open>try\<close> whose
  \<^verbatim>\<open>catch\<close> ignores the error.\<close>

definition cleanup :: "node option \<Rightarrow> unit completion \<times> node option" where
  "cleanup s =
     (case rmSync s of
        (Throw e, s') \<Rightarrow> (Return (), s')
      | (r, s') \<Rightarrow> (r, s'))"

subsection \<open>The process: exit listener and signal handlers\<close>

text \<open>What the launcher does that can be observed, in order.\<close>

datatype event =
    Print out
  | Cleanup
  | Spawn WrapResult
  | Uncaught string
  | ProcessExit int

text \<open>The state of the launcher process: the session directory, whether \<^verbatim>\<open>main\<close> has
  registered its listeners, the events so far, and the exit status once it has exited.\<close>

record proc =
  session :: "node option"
  listening :: bool
  trace :: "event list"
  status :: "int option"

definition emit :: "event list \<Rightarrow> proc \<Rightarrow> proc" where
  "emit es p = p\<lparr>trace := trace p @ es\<rparr>"

text \<open>A call of the closure \<^verbatim>\<open>cleanup\<close>.\<close>

definition run_cleanup :: "proc \<Rightarrow> proc" where
  "run_cleanup p = emit [Cleanup] (p\<lparr>session := snd (cleanup (session p))\<rparr>)"

text \<open>\<^verbatim>\<open>process.exit(code)\<close>: the \<^verbatim>\<open>exit\<close> listener, once registered, runs first.\<close>

definition process_exit :: "int \<Rightarrow> proc \<Rightarrow> proc" where
  "process_exit code p =
     (emit [ProcessExit code] (if listening p then run_cleanup p else p))\<lparr>status := Some code\<rparr>"

text \<open>An exception that nothing catches: Node reports it and exits with status 1.\<close>

definition uncaught :: "string \<Rightarrow> proc \<Rightarrow> proc" where
  "uncaught e p = process_exit 1 (emit [Uncaught e] p)"

text \<open>The handlers that \<^verbatim>\<open>main\<close> registers for \<^verbatim>\<open>SIGINT\<close> and \<^verbatim>\<open>SIGTERM\<close>, and for
  the \<^verbatim>\<open>close\<close> event of the child, whose code is null when a signal ended it.\<close>

definition on_SIGINT :: "proc \<Rightarrow> proc" where
  "on_SIGINT p = process_exit 130 (run_cleanup p)"

definition on_SIGTERM :: "proc \<Rightarrow> proc" where
  "on_SIGTERM p = process_exit 143 (run_cleanup p)"

definition on_close :: "int option \<Rightarrow> proc \<Rightarrow> proc" where
  "on_close code p = process_exit (case code of None \<Rightarrow> 0 | Some c \<Rightarrow> c) p"

subsection \<open>The shared tree\<close>

text \<open>The computation of \<^verbatim>\<open>shareTree\<close> in \<^verbatim>\<open>main\<close>, the same in both variants, from the
  canonical project root and the canonical home: \<^verbatim>\<open>startsWith\<close>, \<^verbatim>\<open>slice\<close>,
  \<^verbatim>\<open>split("/")[0]\<close> and \<^verbatim>\<open>path.join\<close>.\<close>

definition compute_shareTree :: "string \<Rightarrow> string \<Rightarrow> string" where
  "compute_shareTree realRepoRoot realHome =
     (if prefix (realHome @ ''/'') realRepoRoot then
        let relPath = drop (length realHome + 1) realRepoRoot;
            topDir = (case split_on CHR ''/'' relPath of [] \<Rightarrow> [] | t # _ \<Rightarrow> t)
        in path_join [realHome, topDir]
      else realRepoRoot)"

subsection \<open>The main function of \<^verbatim>\<open>src/src/claudebox.js\<close>\<close>

text \<open>What \<^verbatim>\<open>main\<close> observes beyond the host: the working directory, the top level that
  \<^verbatim>\<open>git rev-parse\<close> prints (trimmed) unless it fails, the eight random hexadecimal digits,
  whether a directory can be created, whether the copying of the SSH files (lines 584 to 620,
  entered when \<^verbatim>\<open>~/.ssh\<close> is a directory) runs without an exception, and the tree that
  cleanup finds under the session directory.\<close>

record world = host +
  cwd :: string
  git_toplevel :: "string option"
  random_hex :: string
  fs_mkdir_ok :: "string \<Rightarrow> bool"
  ssh_staging_ok :: bool
  session_tree :: node

definition getRepoRoot :: "'a world_scheme \<Rightarrow> string \<Rightarrow> string" where
  "getRepoRoot w projectDir = (case git_toplevel w of Some toplevel \<Rightarrow> toplevel | None \<Rightarrow> projectDir)"

text \<open>A step of \<^verbatim>\<open>main\<close> either ends the process or goes on with a value.\<close>

datatype 'a step = Stop proc | Go 'a proc

text \<open>Lines 555 to 637: the listeners are registered, the session directory is created, the
  SSH files are staged when the SSH agent is allowed, the configuration directory of Claude is
  created, and a missing \<^verbatim>\<open>.claude.json\<close> is announced.  \<^verbatim>\<open>path.join(home, ...)\<close> throws
  when \<^verbatim>\<open>HOME\<close> is not set.  The step goes on with \<^verbatim>\<open>home\<close>, \<^verbatim>\<open>claudeHome\<close>,
  \<^verbatim>\<open>claudeConfig\<close> and \<^verbatim>\<open>claudeJson\<close>.\<close>

definition session_setup ::
  "'a world_scheme \<Rightarrow> (string \<rightharpoonup> json) \<Rightarrow> proc \<Rightarrow> (string \<times> string \<times> string \<times> string) step" where
  "session_setup w options p =
     (let home = getenv w ''HOME'';
          claudeHome' = path_join [getTmpDir w, ''claudebox-'' @ random_hex w];
          p1 = p\<lparr>listening := True\<rparr>
      in if \<not> fs_mkdir_ok w claudeHome' then Stop (uncaught ''mkdirSync'' p1)
         else
           let p2 = p1\<lparr>session := Some (session_tree w)\<rparr>
           in case home of
                None \<Rightarrow> Stop (uncaught ''TypeError'' p2)
              | Some home' \<Rightarrow>
                  if truthy_opt (options ''allowSshAgent'')
                     \<and> isDirectory w (path_join [home', ''.ssh''])
                     \<and> \<not> ssh_staging_ok w
                  then Stop (uncaught ''ssh staging'' p2)
                  else
                    let claudeConfig' = path_join [home', ''.claude'']
                    in if \<not> fs_mkdir_ok w claudeConfig' then Stop (uncaught ''mkdirSync'' p2)
                       else
                         let claudeJson' = path_join [home', ''.claude.json''];
                             p3 = (if \<not> pathExists w claudeJson'
                                   then emit [Print (Log ''Initializing Claude configuration...'')] p2
                                   else p2)
                         in Go (home', claudeHome', claudeConfig', claudeJson') p3)"

text \<open>Lines 639 to 668: the shared tree from the canonical paths, then the sandbox object; an
  unsupported platform is reported and ends the process with status 1.\<close>

definition sandbox_setup ::
  "'a world_scheme \<Rightarrow> (string \<rightharpoonup> json) \<Rightarrow> string \<Rightarrow> (string \<times> string \<times> string \<times> string) \<Rightarrow> proc
     \<Rightarrow> sandbox step" where
  "sandbox_setup w options repoRoot' paths p =
     (case paths of (home', claudeHome', claudeConfig', claudeJson') \<Rightarrow>
        (case fs_realpath w repoRoot' of
           None \<Rightarrow> Stop (uncaught ''realpathSync'' p)
         | Some realRepoRoot \<Rightarrow>
             (case fs_realpath w home' of
                None \<Rightarrow> Stop (uncaught ''realpathSync'' p)
              | Some realHome \<Rightarrow>
                  (case Sandbox_create w
                          \<lparr> claudeHome = claudeHome',
                            claudeConfig = claudeConfig',
                            claudeJson = claudeJson',
                            shareTree = compute_shareTree realRepoRoot realHome,
                            repoRoot = repoRoot',
                            allowSshAgent = options ''allowSshAgent'',
                            allowGpgAgent = options ''allowGpgAgent'',
                            allowXdgRuntime = options ''allowXdgRuntime'' \<rparr> of
                     Return sb \<Rightarrow> Go sb p
                   | Throw message \<Rightarrow>
                       Stop (process_exit 1 (emit [Print (Err (''Error: '' @ message))] p))
                   | Exit c \<Rightarrow> Stop (process_exit c p)))))"

text \<open>The script that the sandbox runs.\<close>

definition launch_script :: "string \<Rightarrow> string" where
  "launch_script projectDir =
     [CHR 0x0A] @ ''cd '' @ [CHR 0x27] @ projectDir @ [CHR 0x27, CHR 0x0A]
     @ ''exec claude --dangerously-skip-permissions'' @ [CHR 0x0A]"

text \<open>Lines 676 to 683: the dry run prints, cleans up and exits with status 0; otherwise the
  child is spawned and the process waits for it.  An exception of \<^verbatim>\<open>wrap\<close> is caught by
  nobody.\<close>

definition launch :: "'a world_scheme \<Rightarrow> (string \<rightharpoonup> json) \<Rightarrow> sandbox \<Rightarrow> string \<Rightarrow> proc \<Rightarrow> proc" where
  "launch w options sb script p =
     (if truthy_opt (options ''dryRun'') then
        (case Sandbox_dryRun w sb script of
           Return printed \<Rightarrow> process_exit 0 (run_cleanup (emit (map Print printed) p))
         | Throw e \<Rightarrow> uncaught e p
         | Exit c \<Rightarrow> process_exit c p)
      else
        (case Sandbox_wrap w sb script of
           Return r \<Rightarrow> emit [Spawn r] p
         | Throw e \<Rightarrow> uncaught e p
         | Exit c \<Rightarrow> process_exit c p))"

text \<open>The process before \<^verbatim>\<open>main\<close> runs.\<close>

definition initial :: proc where
  "initial = \<lparr> session = None, listening = False, trace = [], status = None \<rparr>"

definition main :: "'a world_scheme \<Rightarrow> string list \<Rightarrow> proc" where
  "main w argv =
     (case parseArgs w argv of
        (printed, Exit c) \<Rightarrow> process_exit c (emit (map Print printed) initial)
      | (printed, Throw e) \<Rightarrow> uncaught e (emit (map Print printed) initial)
      | (printed, Return options) \<Rightarrow>
          let p = emit (map Print printed) initial;
              projectDir = cwd w;
              repoRoot' = getRepoRoot w projectDir
          in case session_setup w options p of
               Stop p' \<Rightarrow> p'
             | Go paths p' \<Rightarrow>
                 (case sandbox_setup w options repoRoot' paths p' of
                    Stop p'' \<Rightarrow> p''
                  | Go sb p'' \<Rightarrow> launch w options sb (launch_script projectDir) p''))"

subsection \<open>The IDE auth token (variant with IDE integration)\<close>

text \<open>For the IDE lock files the program also lists a directory and reads modification times:
  \<^verbatim>\<open>readdirSync\<close> gives the names in a directory unless it throws, \<^verbatim>\<open>statSync\<close> gives
  \<^verbatim>\<open>mtimeMs\<close> unless it throws.\<close>

record world_ide = world +
  fs_readdir :: "string \<Rightarrow> string list option"
  fs_mtime :: "string \<Rightarrow> real option"

text \<open>\<^verbatim>\<open>/^\d+$/\<close> and \<^verbatim>\<open>/^\d+(\.lock)?$/\<close>.\<close>

definition all_digits :: "string \<Rightarrow> bool" where
  "all_digits s \<longleftrightarrow> s \<noteq> [] \<and> (\<forall>ch \<in> set s. ch \<in> set ''0123456789'')"

definition is_lock_name :: "string \<Rightarrow> bool" where
  "is_lock_name f \<longleftrightarrow>
     all_digits f \<or> (suffix ''.lock'' f \<and> all_digits (take (length f - 5) f))"

text \<open>The body of both \<^verbatim>\<open>try\<close> blocks that read a lock file: parse the file, take the
  property \<^verbatim>\<open>authToken\<close>, and keep it if it is truthy.  A file that cannot be read or
  parsed, and the \<^verbatim>\<open>TypeError\<close> of a property access on \<^verbatim>\<open>null\<close>, are caught and give
  no token.\<close>

definition read_token :: "'a host_scheme \<Rightarrow> string \<Rightarrow> json option" where
  "read_token h lockFile =
     (case fs_read_json h lockFile of
        Parsed content \<Rightarrow>
          (case content of
             JNull \<Rightarrow> None
           | _ \<Rightarrow>
               (case map_of (rev (own_props content)) ''authToken'' of
                  Some token \<Rightarrow> if truthy token then Some token else None
                | None \<Rightarrow> None))
      | _ \<Rightarrow> None)"

text \<open>The first token that a list of lock files gives, tried in order.\<close>

fun first_token :: "'a host_scheme \<Rightarrow> string list \<Rightarrow> json option" where
  "first_token h [] = None"
| "first_token h (lockFile # rest) =
     (case read_token h lockFile of Some token \<Rightarrow> Some token | None \<Rightarrow> first_token h rest)"

text \<open>The modification time of each name, or nothing if \<^verbatim>\<open>statSync\<close> throws for one of
  them.\<close>

fun stat_all :: "'a world_ide_scheme \<Rightarrow> string \<Rightarrow> string list \<Rightarrow> (string \<times> real) list option" where
  "stat_all w ideDir [] = Some []"
| "stat_all w ideDir (f # fs) =
     (case fs_mtime w (path_join [ideDir, f]) of
        None \<Rightarrow> None
      | Some m \<Rightarrow> (case stat_all w ideDir fs of None \<Rightarrow> None | Some rest \<Rightarrow> Some ((f, m) # rest)))"

text \<open>The lock files named after the port in \<^verbatim>\<open>CLAUDE_CODE_SSE_PORT\<close> that exist, when the
  variable is set to a number.\<close>

definition port_lock_files :: "'a host_scheme \<Rightarrow> string \<Rightarrow> string list" where
  "port_lock_files h ideDir =
     (case or_else (getenv h ''CLAUDE_CODE_SSE_PORT'') None of
        None \<Rightarrow> []
      | Some ssePort \<Rightarrow>
          if all_digits ssePort then
            filter (pathExists h) (map (\<lambda>name. path_join [ideDir, name]) [ssePort @ ''.lock'', ssePort])
          else [])"

text \<open>The lock files of the directory, newest first: the sort is stable, so files of equal
  time stay in the order of the listing.  Nothing if the listing or a \<^verbatim>\<open>statSync\<close>
  throws.\<close>

definition newest_first :: "'a world_ide_scheme \<Rightarrow> string \<Rightarrow> string list option" where
  "newest_first w ideDir =
     (case fs_readdir w ideDir of
        None \<Rightarrow> None
      | Some names \<Rightarrow>
          (case stat_all w ideDir (filter is_lock_name names) of
             None \<Rightarrow> None
           | Some files \<Rightarrow>
               Some (map (\<lambda>(name, mtime). path_join [ideDir, name])
                       (sort_key (\<lambda>(name, mtime). - mtime) files))))"

text \<open>\<^verbatim>\<open>readIdeAuthToken\<close>.  \<^verbatim>\<open>path.join(home, ...)\<close> throws when \<^verbatim>\<open>HOME\<close> is not
  set.\<close>

definition readIdeAuthToken :: "'a world_ide_scheme \<Rightarrow> json option completion" where
  "readIdeAuthToken w =
     (case getenv w ''HOME'' of
        None \<Rightarrow> Throw ''TypeError''
      | Some home \<Rightarrow>
          let ideDir = path_join [home, ''.claude'', ''ide'']
          in if \<not> isDirectory w ideDir then Return None
             else
               (case first_token w (port_lock_files w ideDir) of
                  Some token \<Rightarrow> Return (Some token)
                | None \<Rightarrow>
                    (case newest_first w ideDir of
                       None \<Rightarrow> Return None
                     | Some files \<Rightarrow> Return (first_token w files))))"

subsection \<open>The main function of the variant with IDE integration\<close>

datatype sandbox_ide = BubblewrapSandbox_ide config_ide | SeatbeltSandbox_ide config_ide

definition Sandbox_create_ide :: "'a host_scheme \<Rightarrow> config_ide \<Rightarrow> sandbox_ide completion" where
  "Sandbox_create_ide h c =
     (if platform h = ''linux'' then Return (BubblewrapSandbox_ide c)
      else if platform h = ''darwin'' then Return (SeatbeltSandbox_ide c)
      else Throw (''Unsupported platform: '' @ platform h
                  @ ''. Supported: linux, darwin (macOS)''))"

fun Sandbox_wrap_ide :: "'a host_scheme \<Rightarrow> sandbox_ide \<Rightarrow> string \<Rightarrow> WrapResult completion" where
  "Sandbox_wrap_ide h (BubblewrapSandbox_ide c) script = BubblewrapSandbox_wrap_ide h c script"
| "Sandbox_wrap_ide h (SeatbeltSandbox_ide c) script = SeatbeltSandbox_wrap h c script"

text \<open>Lines 609 to 655: as in the other variant, without the staging of SSH files and with
  the parent directory for the git configuration.\<close>

definition session_setup_ide ::
  "'a world_scheme \<Rightarrow> (string \<rightharpoonup> json) \<Rightarrow> proc \<Rightarrow> (string \<times> string \<times> string \<times> string) step" where
  "session_setup_ide w options p =
     (let home = getenv w ''HOME'';
          claudeHome' = path_join [getTmpDir w, ''claudebox-'' @ random_hex w];
          p1 = p\<lparr>listening := True\<rparr>
      in if \<not> fs_mkdir_ok w claudeHome' then Stop (uncaught ''mkdirSync'' p1)
         else
           let p2 = p1\<lparr>session := Some (session_tree w)\<rparr>
           in case home of
                None \<Rightarrow> Stop (uncaught ''TypeError'' p2)
              | Some home' \<Rightarrow>
                  if truthy_opt (options ''allowGitConfig'')
                     \<and> isDirectory w (path_join [home', ''.config'', ''git''])
                     \<and> \<not> fs_mkdir_ok w (path_join [claudeHome', ''.config''])
                  then Stop (uncaught ''mkdirSync'' p2)
                  else
                    let claudeConfig' = path_join [home', ''.claude'']
                    in if \<not> fs_mkdir_ok w claudeConfig' then Stop (uncaught ''mkdirSync'' p2)
                       else
                         let claudeJson' = path_join [home', ''.claude.json''];
                             p3 = (if \<not> pathExists w claudeJson'
                                   then emit [Print (Log ''Initializing Claude configuration...'')] p2
                                   else p2)
                         in Go (home', claudeHome', claudeConfig', claudeJson') p3)"

definition sandbox_setup_ide ::
  "'a world_scheme \<Rightarrow> (string \<rightharpoonup> json) \<Rightarrow> string \<Rightarrow> (string \<times> string \<times> string \<times> string) \<Rightarrow> proc
     \<Rightarrow> sandbox_ide step" where
  "sandbox_setup_ide w options repoRoot' paths p =
     (case paths of (home', claudeHome', claudeConfig', claudeJson') \<Rightarrow>
        (case fs_realpath w repoRoot' of
           None \<Rightarrow> Stop (uncaught ''realpathSync'' p)
         | Some realRepoRoot \<Rightarrow>
             (case fs_realpath w home' of
                None \<Rightarrow> Stop (uncaught ''realpathSync'' p)
              | Some realHome \<Rightarrow>
                  (case Sandbox_create_ide w
                          \<lparr> claudeHome = claudeHome',
                            claudeConfig = claudeConfig',
                            claudeJson = claudeJson',
                            shareTree = compute_shareTree realRepoRoot realHome,
                            repoRoot = repoRoot',
                            allowSshAgent = options ''allowSshAgent'',
                            allowGpgAgent = options ''allowGpgAgent'',
                            allowXdgRuntime = options ''allowXdgRuntime'',
                            allowGitConfig = options ''allowGitConfig'',
                            allowIde = options ''allowIde'' \<rparr> of
                     Return sb \<Rightarrow> Go sb p
                   | Throw message \<Rightarrow>
                       Stop (process_exit 1 (emit [Print (Err (''Error: '' @ message))] p))
                   | Exit c \<Rightarrow> Stop (process_exit c p)))))"

text \<open>The script when a token was staged: it opens the token file on descriptor 3, removes
  the file and tells Claude the descriptor.\<close>

definition launch_script_ide :: "string \<Rightarrow> string \<Rightarrow> string" where
  "launch_script_ide home projectDir =
     [CHR 0x0A] @ ''exec 3< '' @ [CHR 0x27] @ home @ ''/.ide-auth-token'' @ [CHR 0x27, CHR 0x0A]
     @ ''rm -f '' @ [CHR 0x27] @ home @ ''/.ide-auth-token'' @ [CHR 0x27, CHR 0x0A]
     @ ''export CLAUDE_CODE_WEBSOCKET_AUTH_FILE_DESCRIPTOR=3'' @ [CHR 0x0A]
     @ ''cd '' @ [CHR 0x27] @ projectDir @ [CHR 0x27, CHR 0x0A]
     @ ''exec claude --dangerously-skip-permissions'' @ [CHR 0x0A]"

text \<open>Lines 694 to 722: with the IDE flag truthy the token is read; a token is written into
  the session directory and selects the script with the descriptor; no token prints a warning
  and selects the plain script.\<close>

definition ide_auth_token ::
  "'a world_ide_scheme \<Rightarrow> (string \<rightharpoonup> json) \<Rightarrow> string \<Rightarrow> string \<Rightarrow> string \<Rightarrow> proc \<Rightarrow> string step" where
  "ide_auth_token w options home' claudeHome' projectDir p =
     (if truthy_opt (options ''allowIde'') then
        (case readIdeAuthToken w of
           Throw e \<Rightarrow> Stop (uncaught e p)
         | Exit c \<Rightarrow> Stop (process_exit c p)
         | Return None \<Rightarrow>
             Go (launch_script projectDir)
                (emit [Print (Err ''claudebox: --allow-ide specified but no IDE auth token found in ~/.claude/ide/'')] p)
         | Return (Some token) \<Rightarrow>
             if fs_write_ok w (path_join [claudeHome', ''.ide-auth-token''])
             then Go (launch_script_ide home' projectDir) p
             else Stop (uncaught ''writeFileSync'' p))
      else Go (launch_script projectDir) p)"

definition main_ide :: "'a world_ide_scheme \<Rightarrow> string list \<Rightarrow> proc" where
  "main_ide w argv =
     (case parseArgs_ide w argv of
        (printed, Exit c) \<Rightarrow> process_exit c (emit (map Print printed) initial)
      | (printed, Throw e) \<Rightarrow> uncaught e (emit (map Print printed) initial)
      | (printed, Return options) \<Rightarrow>
          let p = emit (map Print printed) initial;
              projectDir = cwd w;
              repoRoot' = getRepoRoot w projectDir
          in case session_setup_ide w options p of
               Stop p' \<Rightarrow> p'
             | Go paths p' \<Rightarrow>
                 (case sandbox_setup_ide w options repoRoot' paths p' of
                    Stop p'' \<Rightarrow> p''
                  | Go sb p'' \<Rightarrow>
                      (case paths of (home', claudeHome', claudeConfig', claudeJson') \<Rightarrow>
                         (case ide_auth_token w options home' claudeHome' projectDir p'' of
                            Stop p3 \<Rightarrow> p3
                          | Go script p3 \<Rightarrow>
                              (case Sandbox_wrap_ide w sb script of
                                 Return r \<Rightarrow> emit [Spawn r] p3
                               | Throw e \<Rightarrow> uncaught e p3
                               | Exit c \<Rightarrow> process_exit c p3)))))"

subsection \<open>Notions used to state the claims\<close>

text \<open>The value a configuration file provides for a field: the property of that name of the
  parsed value, if the file could be read and parsed and has one.\<close>

definition file_value :: "read_result \<Rightarrow> string \<Rightarrow> json option" where
  "file_value r f = (case r of Parsed j \<Rightarrow> map_of (rev (own_props j)) f | _ \<Rightarrow> None)"

text \<open>The outcome of reading the configuration file of the host.\<close>

definition config_file :: "'a host_scheme \<Rightarrow> read_result" where
  "config_file h = (case getConfigPath h of Return p \<Rightarrow> fs_read_json h p | _ \<Rightarrow> Enoent)"

text \<open>The precedence rule: command line, then file, then the default \<^verbatim>\<open>false\<close>.\<close>

definition resolved :: "'a host_scheme \<Rightarrow> string list \<Rightarrow> string \<Rightarrow> string \<Rightarrow> json option" where
  "resolved h argv f opt =
     (if opt \<in> set argv then Some (JBool True)
      else (case file_value (config_file h) f of Some v \<Rightarrow> Some v | None \<Rightarrow> Some (JBool False)))"

text \<open>The capability fields of each variant, each with the option that sets it.\<close>

definition capability_options :: "(string \<times> string) list" where
  "capability_options =
     [(''allowSshAgent'', ''--allow-ssh-agent''),
      (''allowGpgAgent'', ''--allow-gpg-agent''),
      (''allowXdgRuntime'', ''--allow-xdg-runtime'')]"

definition capability_options_ide :: "(string \<times> string) list" where
  "capability_options_ide =
     [(''allowSshAgent'', ''--allow-ssh-agent''),
      (''allowGpgAgent'', ''--allow-gpg-agent''),
      (''allowGitConfig'', ''--allow-git-config''),
      (''allowXdgRuntime'', ''--allow-xdg-runtime''),
      (''allowIde'', ''--allow-ide'')]"

text \<open>The parameter definitions of a \<^verbatim>\<open>sandbox-exec\<close> command line: the arguments after
  \<^verbatim>\<open>-p policy\<close> and before \<^verbatim>\<open>--\<close>.\<close>

definition seatbelt_params :: "string option list \<Rightarrow> string option list" where
  "seatbelt_params as = takeWhile (\<lambda>a. a \<noteq> Some ''--'') (drop 2 as)"

text \<open>The writable clause for the root temporary directory.\<close>

definition SLASH_TMP_clause :: string where
  \<open>SLASH_TMP_clause = ''(subpath (param "SLASH_TMP"))''\<close>

text \<open>The text of the file-write rule and of the whole generated policy fragment, written
  out line by line, with and without the clause for the root temporary directory.\<close>

definition file_write_rule :: "bool \<Rightarrow> string" where
  \<open>file_write_rule with_slash_tmp =
     ''(allow file-write*'' @ [CHR 0x0A]
     @ ''  (subpath (param "PROJECT_DIR"))'' @ [CHR 0x0A]
     @ ''  (subpath (param "TMPDIR"))''
     @ (if with_slash_tmp then [CHR 0x0A] @ ''  (subpath (param "SLASH_TMP"))'' else [])
     @ '')''\<close>

definition generated_policy :: "bool \<Rightarrow> string" where
  \<open>generated_policy with_slash_tmp =
     [CHR 0x0A]
     @ ''; Allow read-only file operations'' @ [CHR 0x0A]
     @ ''(allow file-read*)'' @ [CHR 0x0A]
     @ [CHR 0x0A]
     @ ''; Allow writes to project and temp directories'' @ [CHR 0x0A]
     @ file_write_rule with_slash_tmp @ [CHR 0x0A]
     @ [CHR 0x0A]
     @ ''; Network access for Claude API'' @ [CHR 0x0A]
     @ ''(allow network-outbound)'' @ [CHR 0x0A]
     @ ''(allow network-inbound)'' @ [CHR 0x0A]
     @ ''(allow system-socket)'' @ [CHR 0x0A]\<close>

text \<open>How \<^verbatim>\<open>bwrap\<close> reads its command line: each option named here takes a fixed number
  of arguments; the first word that is not an option starts the command to run.\<close>

definition bwrap_arity :: "string \<Rightarrow> nat option" where
  "bwrap_arity opt =
     (if opt \<in> set [''--unshare-all'', ''--share-net''] then Some 0
      else if opt \<in> set [''--dev'', ''--proc'', ''--tmpfs''] then Some 1
      else if opt \<in> set [''--bind'', ''--ro-bind'', ''--ro-bind-try'', ''--setenv''] then Some 2
      else None)"

function bwrap_parse :: "string option list \<Rightarrow> (string \<times> string option list) list" where
  "bwrap_parse [] = []"
| "bwrap_parse (a # as) =
     (case a of
        None \<Rightarrow> []
      | Some opt \<Rightarrow>
          (case bwrap_arity opt of
             None \<Rightarrow> []
           | Some n \<Rightarrow> (opt, take n as) # bwrap_parse (drop n as)))"
  by pat_completeness auto
termination
  by (relation "measure length") auto

text \<open>The variables that a command line sets with \<^verbatim>\<open>--setenv\<close>, and the source and
  destination of each bind mount, read-only or not.\<close>

definition setenv_names :: "string option list \<Rightarrow> string option list" where
  "setenv_names as =
     concat (map (\<lambda>(opt, xs). if opt = ''--setenv'' then take 1 xs else []) (bwrap_parse as))"

definition bind_mounts :: "string option list \<Rightarrow> (string \<times> string option list) list" where
  "bind_mounts as =
     filter (\<lambda>(opt, xs). opt \<in> set [''--bind'', ''--ro-bind'', ''--ro-bind-try'']) (bwrap_parse as)"

text \<open>The arguments and the environment of a \<^verbatim>\<open>wrap\<close> that returned.\<close>

definition wrap_args :: "WrapResult completion \<Rightarrow> string option list" where
  "wrap_args w = (case w of Return r \<Rightarrow> args r | _ \<Rightarrow> [])"

definition wrap_env :: "WrapResult completion \<Rightarrow> (string \<times> string) list" where
  "wrap_env w = (case w of Return r \<Rightarrow> wenv r | _ \<Rightarrow> [])"

text \<open>A list of words that is a sequence of whole options, each with all its arguments.\<close>

function complete :: "string option list \<Rightarrow> bool" where
  "complete [] = True"
| "complete (a # as) =
     (case a of
        None \<Rightarrow> False
      | Some opt \<Rightarrow>
          (case bwrap_arity opt of
             None \<Rightarrow> False
           | Some n \<Rightarrow> n \<le> length as \<and> complete (drop n as)))"
  by pat_completeness auto
termination
  by (relation "measure length") auto

text \<open>The arguments that expose the whole runtime directory read-only and pass its variable
  on, when it is a directory.\<close>

definition broad_bind :: "'a host_scheme \<Rightarrow> string option list" where
  "broad_bind h =
     (if isDirectory h (xdgRuntimeDir h)
      then map Some [''--ro-bind'', xdgRuntimeDir h, xdgRuntimeDir h,
                     ''--setenv'', ''XDG_RUNTIME_DIR'', xdgRuntimeDir h]
      else [])"

text \<open>The arguments that bind the SSH agent socket to its fixed path in the sandbox, when the
  flag is truthy and the socket exists.\<close>

definition ssh_rebind :: "'a host_scheme \<Rightarrow> json option \<Rightarrow> string option list" where
  "ssh_rebind h flag =
     (case ssh_sock h flag of
        Some sock \<Rightarrow> map Some [''--bind'', sock, ''/tmp/ssh-agent.sock'',
                                ''--setenv'', ''SSH_AUTH_SOCK'', ''/tmp/ssh-agent.sock'']
      | None \<Rightarrow> [])"

text \<open>A configuration with the three runtime capabilities off.\<close>

definition narrow_off :: "'b config_scheme \<Rightarrow> 'b config_scheme" where
  "narrow_off c = c\<lparr>allowSshAgent := None, allowGpgAgent := None, allowXdgRuntime := None\<rparr>"

text \<open>Canonical absolute paths, as \<^verbatim>\<open>realpath\<close> returns them, are given by their
  segments: a segment is a file name, not empty, without a slash, and neither \<^verbatim>\<open>.\<close> nor
  \<^verbatim>\<open>..\<close>; the path of no segments is the root.\<close>

definition valid_segment :: "string \<Rightarrow> bool" where
  "valid_segment s \<longleftrightarrow> s \<noteq> [] \<and> CHR ''/'' \<notin> set s \<and> s \<noteq> ''.'' \<and> s \<noteq> ''..''"

definition slashed :: "string list \<Rightarrow> string" where
  "slashed segs = concat (map (\<lambda>s. ''/'' @ s) segs)"

definition abs_path :: "string list \<Rightarrow> string" where
  "abs_path segs = (if segs = [] then ''/'' else slashed segs)"

text \<open>A tree in which every entry can be removed.\<close>

fun fully_removable :: "node \<Rightarrow> bool"
  and all_removable :: "(string \<times> node) list \<Rightarrow> bool" where
  "fully_removable (File removable) = removable"
| "fully_removable (Dir removable entries) = (removable \<and> all_removable entries)"
| "all_removable [] = True"
| "all_removable ((name, n) # entries) = (fully_removable n \<and> all_removable entries)"

text \<open>A process that has spawned a sandboxed child, and one that so far has only printed.\<close>

definition spawns :: "proc \<Rightarrow> bool" where
  "spawns p \<longleftrightarrow> (\<exists>r. Spawn r \<in> set (trace p))"

definition prints_only :: "proc \<Rightarrow> bool" where
  "prints_only p \<longleftrightarrow> (\<forall>e \<in> set (trace p). \<exists>x. e = Print x)"

text \<open>The directory of the IDE lock files and the path of a lock file in it.\<close>

definition ide_dir :: "string \<Rightarrow> string" where
  "ide_dir home = path_join [home, ''.claude'', ''ide'']"

definition lock_path :: "string \<Rightarrow> string \<Rightarrow> string" where
  "lock_path home name = path_join [ide_dir home, name]"

text \<open>The options that the argument loop of \<^verbatim>\<open>src/src/claudebox.js\<close> accepts and goes
  on after, and the first argument that is none of them.\<close>

definition accepted_options :: "string list" where
  "accepted_options = [''--allow-ssh-agent'', ''--allow-gpg-agent'', ''--allow-xdg-runtime'', ''--dry-run'']"

definition first_other :: "string list \<Rightarrow> string option" where
  "first_other argv = find (\<lambda>a. a \<notin> set accepted_options) argv"

text \<open>The changes of the environment that the dry run lists, for a sandbox environment
  \<open>e'\<close> and a process environment \<open>e\<close>: the variables of the process whose names are array
  indices, in increasing order, as deleted; the variables of the sandbox that the process has
  not, or has with another value, with the value of the sandbox; the other variables of the
  process that the sandbox has not, as deleted.\<close>

definition env_delta :: "(string \<times> string) list \<Rightarrow> (string \<times> string) list \<Rightarrow> (string \<times> string) list" where
  "env_delta e' e =
     sort_key (\<lambda>(k, v). index_value k)
       (map (\<lambda>k. (k, ''(deleted)'')) (filter is_array_index (map fst e)))
     @ filter (\<lambda>(k, v). \<not> is_array_index k \<and> map_of e k \<noteq> Some v) e'
     @ map (\<lambda>k. (k, ''(deleted)''))
         (filter (\<lambda>k. \<not> is_array_index k \<and> k \<notin> fst ` set e') (map fst e))"

text \<open>The lines printed for the changes: nothing if there are none, else a heading and one
  line for each.\<close>

definition delta_lines :: "(string \<times> string) list \<Rightarrow> out list" where
  "delta_lines d =
     (if d = [] then []
      else Log ''# Environment changes:'' # map (\<lambda>(k, v). Log (''#   '' @ k @ ''='' @ v)) d)"

text \<open>The printed command line.  A word with a white-space character or a quote is put in
  single quotes, each single quote in it written as quote, backslash, quote, quote; an
  undefined word is empty.  The words are separated by space, backslash, line feed and two
  spaces.\<close>

fun escape_quotes :: "string \<Rightarrow> string" where
  "escape_quotes [] = []"
| "escape_quotes (ch # s) =
     (if ch = CHR 0x27 then [CHR 0x27, CHR 0x5C, CHR 0x27, CHR 0x27] else [ch]) @ escape_quotes s"

definition quote_word :: "string option \<Rightarrow> string" where
  "quote_word a =
     (case a of
        None \<Rightarrow> []
      | Some s \<Rightarrow>
          if set s \<inter> {CHR 0x09, CHR 0x0A, CHR 0x0B, CHR 0x0C, CHR 0x0D, CHR 0x20, CHR 0xA0,
                       CHR 0x27, CHR 0x22} = {}
          then s
          else [CHR 0x27] @ escape_quotes s @ [CHR 0x27])"

fun command_line :: "string option list \<Rightarrow> string" where
  "command_line [] = []"
| "command_line [a] = quote_word a"
| "command_line (a # b # as) =
     quote_word a @ [CHR 0x20, CHR 0x5C, CHR 0x0A, CHR 0x20, CHR 0x20] @ command_line (b # as)"

text \<open>The names that the dry run lists as deleted for the result of \<^verbatim>\<open>wrap\<close> on a host
  whose variables have distinct names: those that are array indices, in increasing order, and
  on Linux \<^verbatim>\<open>SSH_AUTH_SOCK\<close>, if set.\<close>

definition deleted_names :: "'a host_scheme \<Rightarrow> string list" where
  "deleted_names h =
     sort_key index_value (filter is_array_index (map fst (env h)))
     @ (if platform h = ''linux'' \<and> ''SSH_AUTH_SOCK'' \<in> fst ` set (env h)
        then [''SSH_AUTH_SOCK''] else [])"

subsection \<open>Concrete hosts\<close>

definition host0 :: host where
  "host0 = \<lparr> env = [(''HOME'', ''/home/u''), (''USER'', ''u''), (''PATH'', ''/usr/bin''),
                     (''SSH_AUTH_SOCK'', ''/run/user/1000/ssh-agent'')],
             uid = 1000, platform = ''linux'',
             fs_access = (\<lambda>p. p \<in> set [''/run/user/1000/ssh-agent'', ''/home/u/.claude.json'']),
             fs_is_dir = (\<lambda>p. p \<in> set [''/run/user/1000'', ''/run/user/1000/gnupg'']),
             fs_realpath = Some,
             fs_read = (\<lambda>p. None),
             fs_read_json = (\<lambda>p. if p = ''/home/u/.config/claudebox/config.json''
                then Parsed (JObj [(''allowGpgAgent'', JBool True), (''allowSshAgent'', JBool False)])
                else Enoent),
             fs_write_ok = (\<lambda>p. True) \<rparr>"

text \<open>A macOS host whose temporary directory is not \<^verbatim>\<open>/tmp\<close>, and one where it is.\<close>

definition host_mac :: host where
  "host_mac = \<lparr> env = [(''HOME'', ''/Users/u''), (''USER'', ''u''), (''PATH'', ''/usr/bin''),
                       (''TMPDIR'', ''/var/folders/x/T''),
                       (''CLAUDEBOX_SEATBELT_PROFILE'', ''/opt/seatbelt.sbpl'')],
               uid = 501, platform = ''darwin'',
               fs_access = (\<lambda>p. p = ''/opt/seatbelt.sbpl''),
               fs_is_dir = (\<lambda>p. False),
               fs_realpath = (\<lambda>p. if p = ''/tmp'' then Some ''/private/tmp''
                                else if p = ''/var/folders/x/T'' then Some ''/private/var/folders/x/T''
                                else Some p),
               fs_read = (\<lambda>p. if p = ''/opt/seatbelt.sbpl'' then Some ''(version 1)'' else None),
               fs_read_json = (\<lambda>p. Enoent),
               fs_write_ok = (\<lambda>p. True) \<rparr>"

definition host_mac_tmp :: host where
  "host_mac_tmp = host_mac \<lparr> env := [(''HOME'', ''/Users/u''),
                                      (''CLAUDEBOX_SEATBELT_PROFILE'', ''/opt/seatbelt.sbpl'')] \<rparr>"

text \<open>A sandbox configuration with every capability off.\<close>

definition config0 :: config where
  "config0 = \<lparr> claudeHome = ''/tmp/claudebox-0123abcd'',
               claudeConfig = ''/home/u/.claude'',
               claudeJson = ''/home/u/.claude.json'',
               shareTree = ''/home/u/work'',
               repoRoot = ''/home/u/work/repo'',
               allowSshAgent = Some (JBool False),
               allowGpgAgent = Some (JBool False),
               allowXdgRuntime = Some (JBool False) \<rparr>"

text \<open>Configurations of the namespace backend: the runtime directory and the SSH agent both
  allowed; every capability of the IDE variant off; the runtime directory, the SSH agent and
  the GPG agent all allowed in the IDE variant.\<close>

definition config_xdg_ssh :: config where
  "config_xdg_ssh = config0 \<lparr> allowSshAgent := Some (JBool True),
                               allowXdgRuntime := Some (JBool True) \<rparr>"

definition config_ide0 :: config_ide where
  "config_ide0 = config.extend config0
     \<lparr> allowGitConfig = Some (JBool False), allowIde = Some (JBool False) \<rparr>"

definition config_ide_all :: config_ide where
  "config_ide_all = config_ide0 \<lparr> allowSshAgent := Some (JBool True),
                                  allowGpgAgent := Some (JBool True),
                                  allowXdgRuntime := Some (JBool True) \<rparr>"

text \<open>A session directory in which the sandboxed process left a file that cannot be
  removed.\<close>

definition stuck_session :: "node option" where
  "stuck_session = Some (Dir True [(''.ssh'', Dir True []), (''.cache'', Dir True [(''x'', File False)])])"

text \<open>A Linux world for \<^verbatim>\<open>main\<close>, and macOS worlds with and without a Seatbelt profile.\<close>

definition world_linux :: world where
  "world_linux = host.extend host0
     (world.fields ''/home/u/work/repo'' (Some ''/home/u/work/repo'') ''0123abcd''
        (\<lambda>p. True) True (Dir True []))"

definition world_mac :: world where
  "world_mac = host.extend host_mac
     (world.fields ''/Users/u/work/repo'' None ''0123abcd'' (\<lambda>p. True) True (Dir True []))"

definition world_mac_noprofile :: world where
  "world_mac_noprofile = world_mac \<lparr> env := [(''HOME'', ''/Users/u''), (''USER'', ''u'')] \<rparr>"

text \<open>A world with three IDE lock files and no port hint, and the same world when the IDE
  directory cannot be listed.\<close>

definition world_ide3 :: world_ide where
  "world_ide3 =
     (world.extend world_linux
        (world_ide.fields
           (\<lambda>d. if d = ''/home/u/.claude/ide''
                then Some [''222.lock'', ''333.lock'', ''notes.txt'', ''111.lock''] else None)
           (\<lambda>p. if p = ''/home/u/.claude/ide/111.lock'' then Some 10
                else if p = ''/home/u/.claude/ide/222.lock'' then Some 20
                else if p = ''/home/u/.claude/ide/333.lock'' then Some 30
                else None)))
     \<lparr> fs_is_dir := (\<lambda>p. p = ''/home/u/.claude/ide''),
       fs_read_json :=
         (\<lambda>p. if p = ''/home/u/.claude/ide/111.lock'' then Parsed (JObj [(''authToken'', JStr ''a'')])
              else if p = ''/home/u/.claude/ide/222.lock'' then Parsed (JObj [(''authToken'', JStr ''b'')])
              else if p = ''/home/u/.claude/ide/333.lock'' then Parsed (JObj [(''authToken'', JStr ''c'')])
              else Enoent) \<rparr>"

definition world_ide_unlistable :: world_ide where
  "world_ide_unlistable = world_ide3 \<lparr> fs_readdir := (\<lambda>d. None) \<rparr>"

text \<open>The Linux world with two more variables, whose names are array indices.\<close>

definition world_linux_indexed :: world where
  "world_linux_indexed = world_linux \<lparr> env := env host0 @ [(''10'', ''a''), (''7'', ''b'')] \<rparr>"

section \<open>Configuration resolution\<close>

lemma spread_apply:
  "spread m props k = (case map_of (rev props) k of Some v \<Rightarrow> Some v | None \<Rightarrow> m k)"
  unfolding spread_def
  by (induction props arbitrary: m) (auto split: option.splits)

lemma loadConfig_with_field:
  assumes "loadConfig_with defaults h = Return (warnings, config)"
  shows "config f = (case file_value (config_file h) f of Some v \<Rightarrow> Some v | None \<Rightarrow> defaults f)"
  using assms
  by (auto simp: loadConfig_with_def config_file_def file_value_def spread_apply
           split: completion.splits read_result.splits)

lemma parseArgs_loop_fields:
  assumes "parseArgs_loop h argv cli = (printed, Return cli')"
  shows "cli' ''allowSshAgent'' = (if ''--allow-ssh-agent'' \<in> set argv then Some (JBool True) else cli ''allowSshAgent'')"
    and "cli' ''allowGpgAgent'' = (if ''--allow-gpg-agent'' \<in> set argv then Some (JBool True) else cli ''allowGpgAgent'')"
    and "cli' ''allowXdgRuntime'' = (if ''--allow-xdg-runtime'' \<in> set argv then Some (JBool True) else cli ''allowXdgRuntime'')"
    and "cli' ''dryRun'' = (if ''--dry-run'' \<in> set argv then Some (JBool True) else cli ''dryRun'')"
  using assms
  by (induction argv arbitrary: cli printed; simp split: if_splits completion.splits; fastforce)+

lemma parseArgs_loop_ide_fields:
  assumes "parseArgs_loop_ide h argv cli = (printed, Return cli')"
  shows "cli' ''allowSshAgent'' = (if ''--allow-ssh-agent'' \<in> set argv then Some (JBool True) else cli ''allowSshAgent'')"
    and "cli' ''allowGpgAgent'' = (if ''--allow-gpg-agent'' \<in> set argv then Some (JBool True) else cli ''allowGpgAgent'')"
    and "cli' ''allowGitConfig'' = (if ''--allow-git-config'' \<in> set argv then Some (JBool True) else cli ''allowGitConfig'')"
    and "cli' ''allowXdgRuntime'' = (if ''--allow-xdg-runtime'' \<in> set argv then Some (JBool True) else cli ''allowXdgRuntime'')"
    and "cli' ''allowIde'' = (if ''--allow-ide'' \<in> set argv then Some (JBool True) else cli ''allowIde'')"
  using assms
  by (induction argv arbitrary: cli printed; simp split: if_splits completion.splits; fastforce)+

lemma parseArgs_loop_only_true:
  assumes "parseArgs_loop h argv cli = (printed, Return cli')"
  shows "cli' f = cli f \<or> cli' f = Some (JBool True)"
  using assms
  by (induction argv arbitrary: cli printed) (fastforce split: if_splits completion.splits)+

lemma parseArgs_loop_ide_only_true:
  assumes "parseArgs_loop_ide h argv cli = (printed, Return cli')"
  shows "cli' f = cli f \<or> cli' f = Some (JBool True)"
  using assms
  by (induction argv arbitrary: cli printed) (fastforce split: if_splits completion.splits)+

lemma parseArgs_Return:
  assumes "snd (parseArgs h argv) = Return options"
  obtains warnings config printed cli where
    "loadConfig_with CONFIG_DEFAULTS h = Return (warnings, config)"
    "parseArgs_loop h argv [''dryRun'' \<mapsto> JBool False] = (printed, Return cli)"
    "options = (merge_fields [''allowSshAgent'', ''allowGpgAgent'', ''allowXdgRuntime''] cli config)
                 (''dryRun'' := cli ''dryRun'')"
  using assms unfolding parseArgs_def loadConfig_def
  by (auto split: completion.splits prod.splits)

lemma parseArgs_ide_Return:
  assumes "snd (parseArgs_ide h argv) = Return options"
  obtains warnings config printed cli where
    "loadConfig_with CONFIG_DEFAULTS_ide h = Return (warnings, config)"
    "parseArgs_loop_ide h argv Map.empty = (printed, Return cli)"
    "options = merge_fields [''allowSshAgent'', ''allowGpgAgent'', ''allowGitConfig'',
                           ''allowXdgRuntime'', ''allowIde''] cli config"
  using assms unfolding parseArgs_ide_def loadConfig_ide_def
  by (auto split: completion.splits prod.splits)

lemma parseArgs_resolved:
  assumes "snd (parseArgs h argv) = Return options"
  shows "options ''allowSshAgent'' = resolved h argv ''allowSshAgent'' ''--allow-ssh-agent''"
    and "options ''allowGpgAgent'' = resolved h argv ''allowGpgAgent'' ''--allow-gpg-agent''"
    and "options ''allowXdgRuntime'' = resolved h argv ''allowXdgRuntime'' ''--allow-xdg-runtime''"
proof -
  from assms obtain warnings config printed cli where
    c: "loadConfig_with CONFIG_DEFAULTS h = Return (warnings, config)" and
    l: "parseArgs_loop h argv [''dryRun'' \<mapsto> JBool False] = (printed, Return cli)" and
    opts: "options = (merge_fields [''allowSshAgent'', ''allowGpgAgent'', ''allowXdgRuntime''] cli config)
                 (''dryRun'' := cli ''dryRun'')"
    by (rule parseArgs_Return)
  note cf = loadConfig_with_field [OF c]
  note lf = parseArgs_loop_fields [OF l]
  show "options ''allowSshAgent'' = resolved h argv ''allowSshAgent'' ''--allow-ssh-agent''"
    by (simp add: opts merge_fields_def override_def lf cf resolved_def CONFIG_DEFAULTS_def split: option.splits)
  show "options ''allowGpgAgent'' = resolved h argv ''allowGpgAgent'' ''--allow-gpg-agent''"
    by (simp add: opts merge_fields_def override_def lf cf resolved_def CONFIG_DEFAULTS_def split: option.splits)
  show "options ''allowXdgRuntime'' = resolved h argv ''allowXdgRuntime'' ''--allow-xdg-runtime''"
    by (simp add: opts merge_fields_def override_def lf cf resolved_def CONFIG_DEFAULTS_def split: option.splits)
qed

lemma parseArgs_ide_resolved:
  assumes "snd (parseArgs_ide h argv) = Return options"
  shows "options ''allowSshAgent'' = resolved h argv ''allowSshAgent'' ''--allow-ssh-agent''"
    and "options ''allowGpgAgent'' = resolved h argv ''allowGpgAgent'' ''--allow-gpg-agent''"
    and "options ''allowGitConfig'' = resolved h argv ''allowGitConfig'' ''--allow-git-config''"
    and "options ''allowXdgRuntime'' = resolved h argv ''allowXdgRuntime'' ''--allow-xdg-runtime''"
    and "options ''allowIde'' = resolved h argv ''allowIde'' ''--allow-ide''"
proof -
  from assms obtain warnings config printed cli where
    c: "loadConfig_with CONFIG_DEFAULTS_ide h = Return (warnings, config)" and
    l: "parseArgs_loop_ide h argv Map.empty = (printed, Return cli)" and
    opts: "options = merge_fields [''allowSshAgent'', ''allowGpgAgent'', ''allowGitConfig'',
                           ''allowXdgRuntime'', ''allowIde''] cli config"
    by (rule parseArgs_ide_Return)
  note cf = loadConfig_with_field [OF c]
  note lf = parseArgs_loop_ide_fields [OF l]
  show "options ''allowSshAgent'' = resolved h argv ''allowSshAgent'' ''--allow-ssh-agent''"
    by (simp add: opts merge_fields_def override_def lf cf resolved_def CONFIG_DEFAULTS_ide_def split: option.splits)
  show "options ''allowGpgAgent'' = resolved h argv ''allowGpgAgent'' ''--allow-gpg-agent''"
    by (simp add: opts merge_fields_def override_def lf cf resolved_def CONFIG_DEFAULTS_ide_def split: option.splits)
  show "options ''allowGitConfig'' = resolved h argv ''allowGitConfig'' ''--allow-git-config''"
    by (simp add: opts merge_fields_def override_def lf cf resolved_def CONFIG_DEFAULTS_ide_def split: option.splits)
  show "options ''allowXdgRuntime'' = resolved h argv ''allowXdgRuntime'' ''--allow-xdg-runtime''"
    by (simp add: opts merge_fields_def override_def lf cf resolved_def CONFIG_DEFAULTS_ide_def split: option.splits)
  show "options ''allowIde'' = resolved h argv ''allowIde'' ''--allow-ide''"
    by (simp add: opts merge_fields_def override_def lf cf resolved_def CONFIG_DEFAULTS_ide_def split: option.splits)
qed

text \<open>
  Claim C3.  In both variants, whenever \<^verbatim>\<open>parseArgs\<close> returns, every capability field of
  the resolved options is \<^verbatim>\<open>true\<close> if its option is on the command line, otherwise the
  value the configuration file provides for it, otherwise the default \<^verbatim>\<open>false\<close>; each
  field is resolved on its own.  The merge tells an override that is absent from one that is
  \<^verbatim>\<open>false\<close>: an explicit \<^verbatim>\<open>false\<close> would win over the file, an absent one yields to it.
\<close>

theorem parseArgs_precedence:
  "(snd (parseArgs h argv) = Return options \<longrightarrow>
      (\<forall>(f, opt) \<in> set capability_options. options f = resolved h argv f opt))
   \<and> (snd (parseArgs_ide h argv) = Return options_ide \<longrightarrow>
      (\<forall>(f, opt) \<in> set capability_options_ide. options_ide f = resolved h argv f opt))
   \<and> override (cli(f \<mapsto> JBool False)) config f = Some (JBool False)
   \<and> (cli f = None \<longrightarrow> override cli config f = config f)"
  by (simp add: capability_options_def capability_options_ide_def parseArgs_resolved
        parseArgs_ide_resolved override_def)

lemma resolved_monotone:
  "truthy_opt (file_value (config_file h) f) \<Longrightarrow> truthy_opt (resolved h argv f opt)"
  by (simp add: resolved_def truthy_opt_def split: option.splits)

text \<open>
  Claim C10.  In both variants the argument loop leaves every field of the overrides as it was
  or sets it to \<^verbatim>\<open>true\<close>, so whenever \<^verbatim>\<open>parseArgs\<close> returns, a capability that the
  configuration file enables (a truthy value) is enabled in the resolved options.
\<close>

theorem parseArgs_monotone:
  "(snd (parseArgs h argv) = Return options \<longrightarrow>
      (\<forall>(f, opt) \<in> set capability_options.
         truthy_opt (file_value (config_file h) f) \<longrightarrow> truthy_opt (options f)))
   \<and> (snd (parseArgs_ide h argv) = Return options_ide \<longrightarrow>
      (\<forall>(f, opt) \<in> set capability_options_ide.
         truthy_opt (file_value (config_file h) f) \<longrightarrow> truthy_opt (options_ide f)))
   \<and> (parseArgs_loop h argv cli = (printed, Return cli') \<longrightarrow>
        cli' f = cli f \<or> cli' f = Some (JBool True))
   \<and> (parseArgs_loop_ide h argv cli = (printed, Return cli') \<longrightarrow>
        cli' f = cli f \<or> cli' f = Some (JBool True))"
proof (intro conjI impI)
  assume "snd (parseArgs h argv) = Return options"
  then show "\<forall>(f, opt) \<in> set capability_options.
         truthy_opt (file_value (config_file h) f) \<longrightarrow> truthy_opt (options f)"
    by (simp add: capability_options_def parseArgs_resolved resolved_monotone)
next
  assume "snd (parseArgs_ide h argv) = Return options_ide"
  then show "\<forall>(f, opt) \<in> set capability_options_ide.
         truthy_opt (file_value (config_file h) f) \<longrightarrow> truthy_opt (options_ide f)"
    by (simp add: capability_options_ide_def parseArgs_ide_resolved resolved_monotone)
next
  assume "parseArgs_loop h argv cli = (printed, Return cli')"
  then show "cli' f = cli f \<or> cli' f = Some (JBool True)"
    by (rule parseArgs_loop_only_true)
next
  assume "parseArgs_loop_ide h argv cli = (printed, Return cli')"
  then show "cli' f = cli f \<or> cli' f = Some (JBool True)"
    by (rule parseArgs_loop_ide_only_true)
qed

lemma getConfigPath_host0: "getConfigPath host0 = Return ''/home/u/.config/claudebox/config.json''"
  by (simp add: getConfigPath_def host0_def getenv_def or_else_def path_join_def path_normalize_def)

lemma config_file_host0:
  "config_file host0 = Parsed (JObj [(''allowGpgAgent'', JBool True), (''allowSshAgent'', JBool False)])"
  by (simp add: config_file_def getConfigPath_host0) (simp add: host0_def)

lemma loadConfig_with_host0: "\<exists>c. loadConfig_with d host0 = Return ([], c)"
  by (simp add: loadConfig_with_def getConfigPath_host0) (simp add: host0_def)

theorem parseArgs_precedence_witness:
  "\<exists>options options_ide.
     snd (parseArgs host0 [''--allow-ssh-agent'']) = Return options
     \<and> options ''allowSshAgent'' = Some (JBool True)
     \<and> options ''allowGpgAgent'' = Some (JBool True)
     \<and> options ''allowXdgRuntime'' = Some (JBool False)
     \<and> snd (parseArgs_ide host0 [''--allow-ssh-agent'']) = Return options_ide
     \<and> options_ide ''allowSshAgent'' = Some (JBool True)
     \<and> options_ide ''allowGpgAgent'' = Some (JBool True)
     \<and> options_ide ''allowIde'' = Some (JBool False)"
proof -
  obtain c where c: "loadConfig_with CONFIG_DEFAULTS host0 = Return ([], c)"
    using loadConfig_with_host0 by blast
  obtain c' where c': "loadConfig_with CONFIG_DEFAULTS_ide host0 = Return ([], c')"
    using loadConfig_with_host0 by blast
  obtain options where o: "snd (parseArgs host0 [''--allow-ssh-agent'']) = Return options"
    by (simp add: parseArgs_def loadConfig_def c)
  obtain options_ide where o': "snd (parseArgs_ide host0 [''--allow-ssh-agent'']) = Return options_ide"
    by (simp add: parseArgs_ide_def loadConfig_ide_def c')
  from parseArgs_precedence [where h = host0 and argv = "[''--allow-ssh-agent'']"
      and options = options and options_ide = options_ide] o o'
  have "(\<forall>(f, opt) \<in> set capability_options.
           options f = resolved host0 [''--allow-ssh-agent''] f opt)
     \<and> (\<forall>(f, opt) \<in> set capability_options_ide.
           options_ide f = resolved host0 [''--allow-ssh-agent''] f opt)"
    by blast
  then have "options ''allowSshAgent'' = Some (JBool True)
     \<and> options ''allowGpgAgent'' = Some (JBool True)
     \<and> options ''allowXdgRuntime'' = Some (JBool False)
     \<and> options_ide ''allowSshAgent'' = Some (JBool True)
     \<and> options_ide ''allowGpgAgent'' = Some (JBool True)
     \<and> options_ide ''allowIde'' = Some (JBool False)"
    by (simp add: capability_options_def capability_options_ide_def resolved_def
          config_file_host0 file_value_def)
  with o o' show ?thesis by blast
qed

theorem parseArgs_monotone_witness:
  "\<exists>options options_ide.
     snd (parseArgs host0 [''--allow-ssh-agent'']) = Return options
     \<and> truthy_opt (file_value (config_file host0) ''allowGpgAgent'')
     \<and> \<not> truthy_opt (file_value (config_file host0) ''allowSshAgent'')
     \<and> truthy_opt (options ''allowGpgAgent'')
     \<and> snd (parseArgs_ide host0 [''--allow-ssh-agent'']) = Return options_ide
     \<and> truthy_opt (options_ide ''allowGpgAgent'')
     \<and> parseArgs_loop host0 [''--allow-ssh-agent''] Map.empty
           = ([], Return [''allowSshAgent'' \<mapsto> JBool True])
     \<and> parseArgs_loop_ide host0 [''--allow-ssh-agent''] Map.empty
           = ([], Return [''allowSshAgent'' \<mapsto> JBool True])
     \<and> ([''allowSshAgent'' \<mapsto> JBool True] ''allowSshAgent'' = Map.empty ''allowSshAgent''
          \<or> [''allowSshAgent'' \<mapsto> JBool True] ''allowSshAgent'' = Some (JBool True))"
proof -
  obtain c where c: "loadConfig_with CONFIG_DEFAULTS host0 = Return ([], c)"
    using loadConfig_with_host0 by blast
  obtain c' where c': "loadConfig_with CONFIG_DEFAULTS_ide host0 = Return ([], c')"
    using loadConfig_with_host0 by blast
  obtain options where o: "snd (parseArgs host0 [''--allow-ssh-agent'']) = Return options"
    by (simp add: parseArgs_def loadConfig_def c)
  obtain options_ide where o': "snd (parseArgs_ide host0 [''--allow-ssh-agent'']) = Return options_ide"
    by (simp add: parseArgs_ide_def loadConfig_ide_def c')
  have l: "parseArgs_loop host0 [''--allow-ssh-agent''] Map.empty
             = ([], Return [''allowSshAgent'' \<mapsto> JBool True])"
    and l': "parseArgs_loop_ide host0 [''--allow-ssh-agent''] Map.empty
             = ([], Return [''allowSshAgent'' \<mapsto> JBool True])"
    by simp_all
  have t: "truthy_opt (file_value (config_file host0) ''allowGpgAgent'')"
    and n: "\<not> truthy_opt (file_value (config_file host0) ''allowSshAgent'')"
    by (simp_all add: config_file_host0 file_value_def truthy_opt_def)
  from parseArgs_monotone [where h = host0 and argv = "[''--allow-ssh-agent'']"
      and options = options and options_ide = options_ide and cli = Map.empty
      and printed = "[]" and cli' = "[''allowSshAgent'' \<mapsto> JBool True]"
      and f = "''allowSshAgent''"] o o' l l'
  have m: "(\<forall>(f, opt) \<in> set capability_options.
           truthy_opt (file_value (config_file host0) f) \<longrightarrow> truthy_opt (options f))
     \<and> (\<forall>(f, opt) \<in> set capability_options_ide.
           truthy_opt (file_value (config_file host0) f) \<longrightarrow> truthy_opt (options_ide f))
     \<and> ([''allowSshAgent'' \<mapsto> JBool True] ''allowSshAgent'' = Map.empty ''allowSshAgent''
          \<or> [''allowSshAgent'' \<mapsto> JBool True] ''allowSshAgent'' = Some (JBool True))"
    by blast
  with t have "truthy_opt (options ''allowGpgAgent'') \<and> truthy_opt (options_ide ''allowGpgAgent'')"
    by (simp add: capability_options_def capability_options_ide_def)
  with o o' l l' t n m show ?thesis by blast
qed

section \<open>The Seatbelt profile\<close>

lemma writablePaths_clause:
  "SLASH_TMP_clause \<in> set (writablePaths t s) \<longleftrightarrow> t \<noteq> s"
  by (simp add: writablePaths_def SLASH_TMP_clause_def)

lemma dynamicPolicy_eq:
  "\<not> sublist SLASH_TMP_clause (dynamicPolicy s s)"
  by (simp add: dynamicPolicy_def writablePaths_def SLASH_TMP_clause_def sublist_code)

lemma dynamicPolicy_neq:
  "t \<noteq> s \<Longrightarrow> sublist SLASH_TMP_clause (dynamicPolicy t s)"
  by (simp add: dynamicPolicy_def writablePaths_def SLASH_TMP_clause_def sublist_code)

lemma dynamicPolicy_clause:
  "sublist SLASH_TMP_clause (dynamicPolicy t s) \<longleftrightarrow> t \<noteq> s"
  using dynamicPolicy_eq dynamicPolicy_neq by blast

lemma SeatbeltSandbox_wrap_args:
  assumes "SeatbeltSandbox_wrap h c script = Return r"
      and "fs_realpath h (getTmpDir h) = Some t"
      and "fs_realpath h ''/tmp'' = Some s"
  shows "seatbelt_params (args r) =
           drop 2 (take 4 (args r)) @ (if t \<noteq> s then [Some (''-DSLASH_TMP='' @ s)] else [])"
    and "\<exists>p q. drop 2 (take 4 (args r)) = [Some (''-DPROJECT_DIR='' @ p), Some (''-DTMPDIR='' @ q)]"
  using assms
  by (auto simp: SeatbeltSandbox_wrap_def seatbelt_params_def Let_def
           split: option.splits if_splits)

lemma sublist_across_separator:
  assumes "c \<notin> set xs" and "xs \<noteq> []"
  shows "sublist xs (ys @ c # zs) \<longleftrightarrow> sublist xs ys \<or> sublist xs zs"
proof -
  have p: "\<And>us. prefix us (c # zs) \<Longrightarrow> c \<notin> set us \<Longrightarrow> us = []"
    by (auto simp: prefix_Cons)
  have "sublist xs (c # zs) \<longleftrightarrow> sublist xs zs"
    using assms p [of xs] by (auto simp: sublist_Cons_right)
  moreover have "(\<exists>xs1 xs2. xs = xs1 @ xs2 \<and> suffix xs1 ys \<and> prefix xs2 (c # zs)) \<longrightarrow> sublist xs ys"
  proof (intro impI, elim exE conjE)
    fix xs1 xs2
    assume x: "xs = xs1 @ xs2" and s: "suffix xs1 ys" and q: "prefix xs2 (c # zs)"
    have "c \<notin> set xs2" using assms(1) x by simp
    with q have "xs2 = []" by (rule p)
    with x s have "suffix xs ys" by simp
    then show "sublist xs ys" by (rule suffix_imp_sublist)
  qed
  ultimately show ?thesis
    by (auto simp: sublist_append [of xs ys "c # zs"])
qed

lemma clause_no_newline:
  "CHR 0x0A \<notin> set SLASH_TMP_clause" "SLASH_TMP_clause \<noteq> []"
  by (simp_all add: SLASH_TMP_clause_def)

lemma dynamicPolicy_rule:
  "sublist (file_write_rule (t \<noteq> s)) (dynamicPolicy t s)"
  by (cases "t = s")
     (simp_all add: dynamicPolicy_def writablePaths_def file_write_rule_def sublist_code)

lemma SeatbeltSandbox_wrap_Return:
  assumes "SeatbeltSandbox_wrap h c script = Return r"
      and "fs_realpath h (getTmpDir h) = Some t"
      and "fs_realpath h ''/tmp'' = Some s"
  obtains profile base root where
    "getenv h ''CLAUDEBOX_SEATBELT_PROFILE'' = Some profile"
    "fs_read h profile = Some base"
    "fs_realpath h (repoRoot c) = Some root"
    "args r = map Some ([''-p'', base @ [CHR 0x0A] @ dynamicPolicy t s,
                         ''-DPROJECT_DIR='' @ root, ''-DTMPDIR='' @ t]
                        @ (if t \<noteq> s then [''-DSLASH_TMP='' @ s] else [])
                        @ [''--'', ''bash'', ''-c'', script])"
    "cmd r = ''/usr/bin/sandbox-exec''"
  using assms
  by (auto simp: SeatbeltSandbox_wrap_def Let_def or_else_def
           split: option.splits if_splits)

lemma dynamicPolicy_text: "dynamicPolicy t s = generated_policy (t \<noteq> s)"
  by (cases "t = s")
     (simp_all add: dynamicPolicy_def writablePaths_def generated_policy_def file_write_rule_def)

lemma generated_policy_clause: "sublist SLASH_TMP_clause (generated_policy b) \<longleftrightarrow> b"
  using dynamicPolicy_clause [of "''a''" "''b''"] dynamicPolicy_clause [of "''a''" "''a''"]
  by (cases b) (simp_all add: dynamicPolicy_text)

lemma policy_clause:
  "\<not> sublist SLASH_TMP_clause base \<Longrightarrow>
   sublist SLASH_TMP_clause (base @ [CHR 0x0A] @ generated_policy b) \<longleftrightarrow> b"
  using sublist_across_separator [OF clause_no_newline, of base "generated_policy b"]
  by (simp add: generated_policy_clause)

lemma policy_clause_present:
  "sublist SLASH_TMP_clause (base @ [CHR 0x0A] @ generated_policy True)"
  using sublist_across_separator [OF clause_no_newline, of base "generated_policy True"]
  by (simp add: generated_policy_clause)

text \<open>
  Claim C8.  Whenever the Seatbelt \<^verbatim>\<open>wrap\<close> returns, with \<open>t\<close> the canonical temporary
  directory and \<open>s\<close> the canonical \<^verbatim>\<open>/tmp\<close>: the policy passed to \<^verbatim>\<open>sandbox-exec\<close> after
  \<^verbatim>\<open>-p\<close> is the base profile, a newline and the generated fragment, whose file-write rule lists
  the \<^verbatim>\<open>SLASH_TMP\<close> clause exactly when \<open>t \<noteq> s\<close>; so the policy contains the clause when
  \<open>t \<noteq> s\<close>, and, for a base profile that does not mention it, only then.  The parameter
  arguments contain a \<^verbatim>\<open>-DSLASH_TMP=\<close> definition (then with value \<open>s\<close>) exactly when
  \<open>t \<noteq> s\<close>.
\<close>

theorem seatbelt_slash_tmp:
  assumes "SeatbeltSandbox_wrap h c script = Return r"
      and "fs_realpath h (getTmpDir h) = Some t"
      and "fs_realpath h ''/tmp'' = Some s"
  shows "(SLASH_TMP_clause \<in> set (writablePaths t s) \<longleftrightarrow> t \<noteq> s)
       \<and> (sublist SLASH_TMP_clause (dynamicPolicy t s) \<longleftrightarrow> t \<noteq> s)
       \<and> (Some (''-DSLASH_TMP='' @ s) \<in> set (seatbelt_params (args r)) \<longleftrightarrow> t \<noteq> s)
       \<and> ((\<exists>v. Some (''-DSLASH_TMP='' @ v) \<in> set (seatbelt_params (args r))) \<longleftrightarrow> t \<noteq> s)
       \<and> (\<exists>profile base root.
             getenv h ''CLAUDEBOX_SEATBELT_PROFILE'' = Some profile
             \<and> fs_read h profile = Some base
             \<and> fs_realpath h (repoRoot c) = Some root
             \<and> args r = map Some
                  ([''-p'', base @ [CHR 0x0A] @ generated_policy (t \<noteq> s),
                    ''-DPROJECT_DIR='' @ root, ''-DTMPDIR='' @ t]
                   @ (if t \<noteq> s then [''-DSLASH_TMP='' @ s] else [])
                   @ [''--'', ''bash'', ''-c'', script])
             \<and> (t \<noteq> s \<longrightarrow> sublist SLASH_TMP_clause (base @ [CHR 0x0A] @ generated_policy (t \<noteq> s)))
             \<and> (\<not> sublist SLASH_TMP_clause base \<longrightarrow>
                  (sublist SLASH_TMP_clause (base @ [CHR 0x0A] @ generated_policy (t \<noteq> s))
                     \<longleftrightarrow> t \<noteq> s)))
       \<and> (sublist SLASH_TMP_clause (generated_policy (t \<noteq> s)) \<longleftrightarrow> t \<noteq> s)"
proof -
  from SeatbeltSandbox_wrap_args [OF assms] obtain p q where
    ps: "seatbelt_params (args r) =
           [Some (''-DPROJECT_DIR='' @ p), Some (''-DTMPDIR='' @ q)]
           @ (if t \<noteq> s then [Some (''-DSLASH_TMP='' @ s)] else [])"
    by auto
  have 1: "(SLASH_TMP_clause \<in> set (writablePaths t s) \<longleftrightarrow> t \<noteq> s)
       \<and> (sublist SLASH_TMP_clause (dynamicPolicy t s) \<longleftrightarrow> t \<noteq> s)
       \<and> (Some (''-DSLASH_TMP='' @ s) \<in> set (seatbelt_params (args r)) \<longleftrightarrow> t \<noteq> s)
       \<and> ((\<exists>v. Some (''-DSLASH_TMP='' @ v) \<in> set (seatbelt_params (args r))) \<longleftrightarrow> t \<noteq> s)"
    by (auto simp: ps writablePaths_clause dynamicPolicy_clause)
  from assms obtain profile base root where
    w: "getenv h ''CLAUDEBOX_SEATBELT_PROFILE'' = Some profile"
       "fs_read h profile = Some base"
       "fs_realpath h (repoRoot c) = Some root"
       "args r = map Some ([''-p'', base @ [CHR 0x0A] @ dynamicPolicy t s,
                         ''-DPROJECT_DIR='' @ root, ''-DTMPDIR='' @ t]
                        @ (if t \<noteq> s then [''-DSLASH_TMP='' @ s] else [])
                        @ [''--'', ''bash'', ''-c'', script])"
    by (rule SeatbeltSandbox_wrap_Return)
  have 2: "t \<noteq> s \<longrightarrow> sublist SLASH_TMP_clause (base @ [CHR 0x0A] @ generated_policy (t \<noteq> s))"
    using policy_clause_present [of base] by simp
  have 3: "\<not> sublist SLASH_TMP_clause base \<longrightarrow>
             (sublist SLASH_TMP_clause (base @ [CHR 0x0A] @ generated_policy (t \<noteq> s)) \<longleftrightarrow> t \<noteq> s)"
    using policy_clause [of base "t \<noteq> s"] by blast
  have 4: "sublist SLASH_TMP_clause (generated_policy (t \<noteq> s)) \<longleftrightarrow> t \<noteq> s"
    by (rule generated_policy_clause)
  from w(4) have a: "args r = map Some
                  ([''-p'', base @ [CHR 0x0A] @ generated_policy (t \<noteq> s),
                    ''-DPROJECT_DIR='' @ root, ''-DTMPDIR='' @ t]
                   @ (if t \<noteq> s then [''-DSLASH_TMP='' @ s] else [])
                   @ [''--'', ''bash'', ''-c'', script])"
    by (simp only: dynamicPolicy_text)
  from 1 w(1,2,3) a 2 3 4 show ?thesis by blast
qed

lemma getTmpDir_host_mac: "getTmpDir host_mac = ''/var/folders/x/T''"
  by (simp add: getTmpDir_def host_mac_def getenv_def or_else_def)

lemma getTmpDir_host_mac_tmp: "getTmpDir host_mac_tmp = ''/tmp''"
  by (simp add: getTmpDir_def host_mac_tmp_def host_mac_def getenv_def or_else_def)

lemma wrap_host_mac: "\<exists>r. SeatbeltSandbox_wrap host_mac config0 ''x'' = Return r"
  by (simp add: SeatbeltSandbox_wrap_def getTmpDir_host_mac)
     (simp add: host_mac_def getenv_def or_else_def pathExists_def)

lemma wrap_host_mac_tmp: "\<exists>r. SeatbeltSandbox_wrap host_mac_tmp config0 ''x'' = Return r"
  by (simp add: SeatbeltSandbox_wrap_def getTmpDir_host_mac_tmp)
     (simp add: host_mac_tmp_def host_mac_def getenv_def or_else_def pathExists_def)

lemma profile_host_mac:
  "getenv host_mac ''CLAUDEBOX_SEATBELT_PROFILE'' = Some ''/opt/seatbelt.sbpl''"
  "getenv host_mac_tmp ''CLAUDEBOX_SEATBELT_PROFILE'' = Some ''/opt/seatbelt.sbpl''"
  "fs_read host_mac ''/opt/seatbelt.sbpl'' = Some ''(version 1)''"
  "fs_read host_mac_tmp ''/opt/seatbelt.sbpl'' = Some ''(version 1)''"
  "fs_realpath host_mac (repoRoot config0) = Some ''/home/u/work/repo''"
  "fs_realpath host_mac_tmp (repoRoot config0) = Some ''/home/u/work/repo''"
  by (simp_all add: host_mac_def host_mac_tmp_def getenv_def config0_def)

lemma base_no_clause: "\<not> sublist SLASH_TMP_clause ''(version 1)''"
  by (simp add: SLASH_TMP_clause_def sublist_code)

theorem seatbelt_slash_tmp_witness:
  "(\<exists>r. SeatbeltSandbox_wrap host_mac config0 ''x'' = Return r
        \<and> args r = map Some
             [''-p'', ''(version 1)'' @ [CHR 0x0A] @ generated_policy True,
              ''-DPROJECT_DIR=/home/u/work/repo'', ''-DTMPDIR=/private/var/folders/x/T'',
              ''-DSLASH_TMP=/private/tmp'', ''--'', ''bash'', ''-c'', ''x'']
        \<and> sublist SLASH_TMP_clause (''(version 1)'' @ [CHR 0x0A] @ generated_policy True)
        \<and> Some ''-DSLASH_TMP=/private/tmp'' \<in> set (seatbelt_params (args r)))
   \<and> (\<exists>r. SeatbeltSandbox_wrap host_mac_tmp config0 ''x'' = Return r
        \<and> args r = map Some
             [''-p'', ''(version 1)'' @ [CHR 0x0A] @ generated_policy False,
              ''-DPROJECT_DIR=/home/u/work/repo'', ''-DTMPDIR=/private/tmp'',
              ''--'', ''bash'', ''-c'', ''x'']
        \<and> \<not> sublist SLASH_TMP_clause (''(version 1)'' @ [CHR 0x0A] @ generated_policy False)
        \<and> (\<forall>v. Some (''-DSLASH_TMP='' @ v) \<notin> set (seatbelt_params (args r))))"
proof -
  obtain r where r: "SeatbeltSandbox_wrap host_mac config0 ''x'' = Return r"
    using wrap_host_mac by blast
  have t: "fs_realpath host_mac (getTmpDir host_mac) = Some ''/private/var/folders/x/T''"
    by (simp add: getTmpDir_host_mac) (simp add: host_mac_def)
  have s: "fs_realpath host_mac ''/tmp'' = Some ''/private/tmp''"
    by (simp add: host_mac_def)
  obtain r' where r': "SeatbeltSandbox_wrap host_mac_tmp config0 ''x'' = Return r'"
    using wrap_host_mac_tmp by blast
  have t': "fs_realpath host_mac_tmp (getTmpDir host_mac_tmp) = Some ''/private/tmp''"
    by (simp add: getTmpDir_host_mac_tmp) (simp add: host_mac_tmp_def host_mac_def)
  have s': "fs_realpath host_mac_tmp ''/tmp'' = Some ''/private/tmp''"
    by (simp add: host_mac_tmp_def host_mac_def)
  have a: "\<exists>r. SeatbeltSandbox_wrap host_mac config0 ''x'' = Return r
        \<and> args r = map Some
             [''-p'', ''(version 1)'' @ [CHR 0x0A] @ generated_policy True,
              ''-DPROJECT_DIR=/home/u/work/repo'', ''-DTMPDIR=/private/var/folders/x/T'',
              ''-DSLASH_TMP=/private/tmp'', ''--'', ''bash'', ''-c'', ''x'']
        \<and> sublist SLASH_TMP_clause (''(version 1)'' @ [CHR 0x0A] @ generated_policy True)
        \<and> Some ''-DSLASH_TMP=/private/tmp'' \<in> set (seatbelt_params (args r))"
    using seatbelt_slash_tmp [OF r t s] r
    by (simp add: profile_host_mac base_no_clause seatbelt_params_def)
  have b: "\<exists>r. SeatbeltSandbox_wrap host_mac_tmp config0 ''x'' = Return r
        \<and> args r = map Some
             [''-p'', ''(version 1)'' @ [CHR 0x0A] @ generated_policy False,
              ''-DPROJECT_DIR=/home/u/work/repo'', ''-DTMPDIR=/private/tmp'',
              ''--'', ''bash'', ''-c'', ''x'']
        \<and> \<not> sublist SLASH_TMP_clause (''(version 1)'' @ [CHR 0x0A] @ generated_policy False)
        \<and> (\<forall>v. Some (''-DSLASH_TMP='' @ v) \<notin> set (seatbelt_params (args r)))"
    using seatbelt_slash_tmp [OF r' t' s'] r'
    by (simp add: profile_host_mac base_no_clause seatbelt_params_def)
  from a b show ?thesis by blast
qed

section \<open>The bubblewrap command line\<close>

lemma bwrap_arity_simps:
  "bwrap_arity ''--unshare-all'' = Some 0" "bwrap_arity ''--share-net'' = Some 0"
  "bwrap_arity ''--dev'' = Some 1" "bwrap_arity ''--proc'' = Some 1" "bwrap_arity ''--tmpfs'' = Some 1"
  "bwrap_arity ''--bind'' = Some 2" "bwrap_arity ''--ro-bind'' = Some 2"
  "bwrap_arity ''--ro-bind-try'' = Some 2" "bwrap_arity ''--setenv'' = Some 2"
  "bwrap_arity ''bash'' = None"
  by (simp_all add: bwrap_arity_def)

lemma bwrap_parse_append:
  "complete xs \<Longrightarrow> bwrap_parse (xs @ ys) = bwrap_parse xs @ bwrap_parse ys"
proof (induction xs rule: complete.induct)
  case 1
  then show ?case by simp
next
  case (2 a as)
  then show ?case
    by (auto split: option.splits)
qed

lemma complete_append:
  "complete xs \<Longrightarrow> complete ys \<Longrightarrow> complete (xs @ ys)"
proof (induction xs rule: complete.induct)
  case 1
  then show ?case by simp
next
  case (2 a as)
  then show ?case
    by (auto split: option.splits)
qed

lemma setenv_names_append:
  "complete xs \<Longrightarrow> setenv_names (xs @ ys) = setenv_names xs @ setenv_names ys"
  by (simp add: setenv_names_def bwrap_parse_append)

lemma bind_mounts_append:
  "complete xs \<Longrightarrow> bind_mounts (xs @ ys) = bind_mounts xs @ bind_mounts ys"
  by (simp add: bind_mounts_def bwrap_parse_append)

lemma complete_basic_filesystem: "complete (map Some basic_filesystem)"
  by (simp add: basic_filesystem_def bwrap_arity_simps)

lemma setenv_names_basic_filesystem: "setenv_names (map Some basic_filesystem) = []"
  by (simp add: basic_filesystem_def bwrap_arity_simps setenv_names_def)

lemma complete_sanitized_ssh_config: "complete (map Some (sanitized_ssh_config h x))"
  by (simp add: sanitized_ssh_config_def bwrap_arity_simps Let_def split: option.splits)

lemma setenv_names_sanitized_ssh_config: "setenv_names (map Some (sanitized_ssh_config h x)) = []"
  by (simp add: sanitized_ssh_config_def bwrap_arity_simps setenv_names_def Let_def split: option.splits)

lemma complete_isolated_home: "complete (isolated_home c home')"
  by (simp add: isolated_home_def bwrap_arity_simps)

lemma setenv_names_isolated_home: "setenv_names (isolated_home c home') = []"
  by (simp add: isolated_home_def bwrap_arity_simps setenv_names_def)

lemma complete_namespaces_and_env: "complete (namespaces_and_env home' user pathEnv)"
  by (simp add: namespaces_and_env_def bwrap_arity_simps)

lemma setenv_names_namespaces_and_env:
  "setenv_names (namespaces_and_env home' user pathEnv) =
     map Some [''HOME'', ''USER'', ''PATH'', ''TMPDIR'', ''TEMPDIR'', ''TEMP'', ''TMP'']"
  by (simp add: namespaces_and_env_def bwrap_arity_simps setenv_names_def)

lemma complete_project_binds: "complete (project_binds c)"
  by (simp add: project_binds_def bwrap_arity_simps)

lemma setenv_names_project_binds: "setenv_names (project_binds c) = []"
  by (simp add: project_binds_def bwrap_arity_simps setenv_names_def)

lemma complete_xdg_runtime_bind: "complete (xdg_runtime_bind h)"
  by (simp add: xdg_runtime_bind_def bwrap_arity_simps Let_def)

lemma setenv_names_xdg_runtime_bind:
  "setenv_names (xdg_runtime_bind h) =
     (if isDirectory h (xdgRuntimeDir h) then [Some ''XDG_RUNTIME_DIR''] else [])"
  by (simp add: xdg_runtime_bind_def bwrap_arity_simps setenv_names_def Let_def)

lemma complete_gpg_bind: "complete (gpg_bind h c)"
  by (simp add: gpg_bind_def bwrap_arity_simps Let_def)

lemma setenv_names_gpg_bind: "setenv_names (gpg_bind h c) = []"
  by (simp add: gpg_bind_def bwrap_arity_simps setenv_names_def Let_def)

lemma complete_option2:
  "bwrap_arity opt = Some 2 \<Longrightarrow> complete (Some opt # x # y # rest) = complete rest"
  by simp

lemma complete_ssh_rebind:
  "bwrap_arity opt = Some 2 \<Longrightarrow> complete (map Some [opt, x, y, ''--setenv'', ''SSH_AUTH_SOCK'', z])"
  by (simp add: bwrap_arity_simps)

lemma setenv_names_ssh_rebind:
  "bwrap_arity opt = Some 2 \<Longrightarrow> opt \<noteq> ''--setenv'' \<Longrightarrow>
   setenv_names (map Some [opt, x, y, ''--setenv'', ''SSH_AUTH_SOCK'', z]) = [Some ''SSH_AUTH_SOCK'']"
  by (simp add: setenv_names_def bwrap_arity_simps)

lemma complete_runtime_sockets: "complete (runtime_sockets h c)"
  by (cases "ssh_sock h (allowSshAgent c)")
     (simp_all add: runtime_sockets_def complete_append complete_xdg_runtime_bind
        complete_gpg_bind complete_ssh_rebind bwrap_arity_simps del: list.map)

lemma setenv_names_runtime_sockets:
  "setenv_names (runtime_sockets h c) =
     (if truthy_opt (allowXdgRuntime c) \<and> isDirectory h (xdgRuntimeDir h)
      then [Some ''XDG_RUNTIME_DIR''] else [])
     @ (if ssh_sock h (allowSshAgent c) \<noteq> None then [Some ''SSH_AUTH_SOCK''] else [])"
proof (cases "ssh_sock h (allowSshAgent c)")
  case None
  then show ?thesis
    by (simp add: runtime_sockets_def setenv_names_xdg_runtime_bind setenv_names_gpg_bind)
next
  case (Some sock)
  then show ?thesis
    by (simp add: runtime_sockets_def setenv_names_append complete_xdg_runtime_bind
          complete_gpg_bind setenv_names_xdg_runtime_bind setenv_names_gpg_bind
          setenv_names_ssh_rebind bwrap_arity_simps
          del: list.map)
qed

lemma complete_runtime_sockets_ide: "complete (runtime_sockets_ide h c)"
  by (cases "ssh_sock h (allowSshAgent c)")
     (simp_all add: runtime_sockets_ide_def complete_append complete_xdg_runtime_bind
        complete_gpg_bind complete_ssh_rebind bwrap_arity_simps del: list.map)

lemma setenv_names_runtime_sockets_ide:
  "setenv_names (runtime_sockets_ide h c) =
     (if truthy_opt (allowXdgRuntime c) then
        (if isDirectory h (xdgRuntimeDir h) then [Some ''XDG_RUNTIME_DIR''] else [])
      else (if ssh_sock h (allowSshAgent c) \<noteq> None then [Some ''SSH_AUTH_SOCK''] else []))"
proof (cases "ssh_sock h (allowSshAgent c)")
  case None
  then show ?thesis
    by (simp add: runtime_sockets_ide_def setenv_names_xdg_runtime_bind setenv_names_gpg_bind)
next
  case (Some sock)
  have "complete (map Some [''--ro-bind'', sock, sock, ''--setenv'', ''SSH_AUTH_SOCK'', sock])"
    by (rule complete_ssh_rebind) (simp add: bwrap_arity_simps)
  with Some show ?thesis
    by (simp add: runtime_sockets_ide_def setenv_names_append 
          setenv_names_xdg_runtime_bind setenv_names_gpg_bind
          setenv_names_ssh_rebind bwrap_arity_simps
          del: list.map)
qed

lemma complete_git_config_binds: "complete (git_config_binds h c home')"
  by (simp add: git_config_binds_def bwrap_arity_simps Let_def)

lemma setenv_names_git_config_binds: "setenv_names (git_config_binds h c home') = []"
  by (simp add: git_config_binds_def bwrap_arity_simps setenv_names_def Let_def)

lemma complete_ide_bind: "complete (ide_bind h c home')"
  by (simp add: ide_bind_def bwrap_arity_simps Let_def)

lemma setenv_names_ide_bind: "setenv_names (ide_bind h c home') = []"
  by (simp add: ide_bind_def bwrap_arity_simps setenv_names_def Let_def)

lemma setenv_names_command: "setenv_names (map Some [''bash'', ''-c'', script]) = []"
  by (simp add: setenv_names_def bwrap_arity_simps)

lemma BubblewrapSandbox_wrap_Return:
  assumes "BubblewrapSandbox_wrap h c script = Return r"
  obtains home' where "getenv h ''HOME'' = Some home'"
    and "args r = map Some basic_filesystem @ map Some (sanitized_ssh_config h (claudeHome c))
           @ isolated_home c home'
           @ namespaces_and_env home' (getenv h ''USER'') (getenv h ''PATH'')
           @ project_binds c @ runtime_sockets h c @ map Some [''bash'', ''-c'', script]"
    and "wenv r = filter (\<lambda>(k, v). k \<noteq> ''SSH_AUTH_SOCK'') (own_env (env h))"
    and "cmd r = ''bwrap''"
  using assms
  by (auto simp: BubblewrapSandbox_wrap_def Let_def split: option.splits)

lemma BubblewrapSandbox_wrap_ide_Return:
  assumes "BubblewrapSandbox_wrap_ide h c script = Return r"
  obtains home' where "getenv h ''HOME'' = Some home'"
    and "args r = map Some basic_filesystem @ isolated_home c home'
           @ git_config_binds h c home'
           @ namespaces_and_env home' (getenv h ''USER'') (getenv h ''PATH'')
           @ project_binds c @ runtime_sockets_ide h c @ ide_bind h c home'
           @ map Some [''bash'', ''-c'', script]"
    and "wenv r = env h"
    and "cmd r = ''bwrap''"
  using assms
  by (auto simp: BubblewrapSandbox_wrap_ide_def Let_def split: option.splits)

lemma getenv_host0:
  "getenv host0 ''HOME'' = Some ''/home/u''"
  "getenv host0 ''USER'' = Some ''u''"
  "getenv host0 ''PATH'' = Some ''/usr/bin''"
  "getenv host0 ''XDG_RUNTIME_DIR'' = None"
  "getenv host0 ''SSH_AUTH_SOCK'' = Some ''/run/user/1000/ssh-agent''"
  by (simp_all add: getenv_def host0_def)

lemma xdgRuntimeDir_host0: "xdgRuntimeDir host0 = ''/run/user/1000''"
  by (simp add: xdgRuntimeDir_def getenv_host0 or_else_def) (simp add: host0_def digit_char_def string_of_nat.simps)

lemma ssh_sock_host0: "ssh_sock host0 (Some (JBool True)) = Some ''/run/user/1000/ssh-agent''"
  by (simp add: ssh_sock_def truthy_opt_def getenv_host0 or_else_def pathExists_def)
     (simp add: host0_def)

lemma setenv_names_wrap:
  assumes "BubblewrapSandbox_wrap h c script = Return r"
  shows "setenv_names (args r) =
     map Some [''HOME'', ''USER'', ''PATH'', ''TMPDIR'', ''TEMPDIR'', ''TEMP'', ''TMP'']
     @ (if truthy_opt (allowXdgRuntime c) \<and> isDirectory h (xdgRuntimeDir h)
        then [Some ''XDG_RUNTIME_DIR''] else [])
     @ (if ssh_sock h (allowSshAgent c) \<noteq> None then [Some ''SSH_AUTH_SOCK''] else [])"
proof -
  from assms obtain home' where
    a: "args r = map Some basic_filesystem @ map Some (sanitized_ssh_config h (claudeHome c))
           @ isolated_home c home'
           @ namespaces_and_env home' (getenv h ''USER'') (getenv h ''PATH'')
           @ project_binds c @ runtime_sockets h c @ map Some [''bash'', ''-c'', script]"
    by (rule BubblewrapSandbox_wrap_Return)
  have "setenv_names (args r) =
          setenv_names (namespaces_and_env home' (getenv h ''USER'') (getenv h ''PATH''))
          @ setenv_names (runtime_sockets h c)"
    unfolding a
    apply (subst setenv_names_append, rule complete_basic_filesystem)
    apply (subst setenv_names_append, rule complete_sanitized_ssh_config)
    apply (subst setenv_names_append, rule complete_isolated_home)
    apply (subst setenv_names_append, rule complete_namespaces_and_env)
    apply (subst setenv_names_append, rule complete_project_binds)
    apply (subst setenv_names_append, rule complete_runtime_sockets)
    apply (simp only: setenv_names_basic_filesystem setenv_names_sanitized_ssh_config
       setenv_names_isolated_home setenv_names_project_binds setenv_names_command
       append_Nil append_Nil2)
    done
  then show ?thesis
    by (simp only: setenv_names_namespaces_and_env setenv_names_runtime_sockets)
qed

lemma setenv_names_wrap_ide:
  assumes "BubblewrapSandbox_wrap_ide h c script = Return r"
  shows "setenv_names (args r) =
     map Some [''HOME'', ''USER'', ''PATH'', ''TMPDIR'', ''TEMPDIR'', ''TEMP'', ''TMP'']
     @ (if truthy_opt (allowXdgRuntime c) then
          (if isDirectory h (xdgRuntimeDir h) then [Some ''XDG_RUNTIME_DIR''] else [])
        else (if ssh_sock h (allowSshAgent c) \<noteq> None then [Some ''SSH_AUTH_SOCK''] else []))"
proof -
  from assms obtain home' where
    a: "args r = map Some basic_filesystem @ isolated_home c home'
           @ git_config_binds h c home'
           @ namespaces_and_env home' (getenv h ''USER'') (getenv h ''PATH'')
           @ project_binds c @ runtime_sockets_ide h c @ ide_bind h c home'
           @ map Some [''bash'', ''-c'', script]"
    by (rule BubblewrapSandbox_wrap_ide_Return)
  have "setenv_names (args r) =
          setenv_names (namespaces_and_env home' (getenv h ''USER'') (getenv h ''PATH''))
          @ setenv_names (runtime_sockets_ide h c)"
    unfolding a
    apply (subst setenv_names_append, rule complete_basic_filesystem)
    apply (subst setenv_names_append, rule complete_isolated_home)
    apply (subst setenv_names_append, rule complete_git_config_binds)
    apply (subst setenv_names_append, rule complete_namespaces_and_env)
    apply (subst setenv_names_append, rule complete_project_binds)
    apply (subst setenv_names_append, rule complete_runtime_sockets_ide)
    apply (subst setenv_names_append, rule complete_ide_bind)
    apply (simp only: setenv_names_basic_filesystem setenv_names_git_config_binds
       setenv_names_isolated_home setenv_names_project_binds setenv_names_command
       setenv_names_ide_bind append_Nil append_Nil2)
    done
  then show ?thesis
    by (simp only: setenv_names_namespaces_and_env setenv_names_runtime_sockets_ide)
qed

lemma bind_mounts_wrap_runtime_sockets:
  assumes "BubblewrapSandbox_wrap h c script = Return r"
  shows "set (bind_mounts (runtime_sockets h c)) \<subseteq> set (bind_mounts (args r))"
proof -
  from assms obtain home' where
    a: "args r = map Some basic_filesystem @ map Some (sanitized_ssh_config h (claudeHome c))
           @ isolated_home c home'
           @ namespaces_and_env home' (getenv h ''USER'') (getenv h ''PATH'')
           @ project_binds c @ runtime_sockets h c @ map Some [''bash'', ''-c'', script]"
    by (rule BubblewrapSandbox_wrap_Return)
  show ?thesis
    unfolding a
    apply (subst bind_mounts_append, rule complete_basic_filesystem)
    apply (subst bind_mounts_append, rule complete_sanitized_ssh_config)
    apply (subst bind_mounts_append, rule complete_isolated_home)
    apply (subst bind_mounts_append, rule complete_namespaces_and_env)
    apply (subst bind_mounts_append, rule complete_project_binds)
    apply (subst bind_mounts_append, rule complete_runtime_sockets)
    apply (simp only: set_append)
    apply blast
    done
qed

lemma ssh_sock_falsy: "\<not> truthy_opt flag \<Longrightarrow> ssh_sock h flag = None"
  by (simp add: ssh_sock_def)

lemma map_of_delete_SSH_AUTH_SOCK:
  "map_of (filter (\<lambda>(k, v). k \<noteq> ''SSH_AUTH_SOCK'') e) ''SSH_AUTH_SOCK'' = None"
  by (induction e) auto

lemma map_of_delete_other:
  "k \<noteq> x \<Longrightarrow> map_of (filter (\<lambda>(k, v). k \<noteq> x) e) k = map_of e k"
  by (induction e) auto

lemma getenv_agree:
  assumes "filter (\<lambda>(k, v). k \<noteq> x) e1 = filter (\<lambda>(k, v). k \<noteq> x) e2" and "k \<noteq> x"
  shows "map_of e1 k = map_of e2 k"
  using assms map_of_delete_other by metis

text \<open>In \<^verbatim>\<open>src/src/claudebox.js\<close>, with the SSH agent flag falsy, the returned
  environment has no \<^verbatim>\<open>SSH_AUTH_SOCK\<close>, no \<^verbatim>\<open>--setenv\<close> names it, and two hosts whose
  environments differ only in that variable get the same result.\<close>

lemma BubblewrapSandbox_wrap_hygiene:
  assumes "\<not> truthy_opt (allowSshAgent c)"
      and "BubblewrapSandbox_wrap h c script = Return r"
  shows "map_of (wenv r) ''SSH_AUTH_SOCK'' = None"
    and "Some ''SSH_AUTH_SOCK'' \<notin> set (setenv_names (args r))"
proof -
  from assms(2) have "wenv r = filter (\<lambda>(k, v). k \<noteq> ''SSH_AUTH_SOCK'') (own_env (env h))"
    by (rule BubblewrapSandbox_wrap_Return)
  then show "map_of (wenv r) ''SSH_AUTH_SOCK'' = None"
    by (simp add: map_of_delete_SSH_AUTH_SOCK)
  show "Some ''SSH_AUTH_SOCK'' \<notin> set (setenv_names (args r))"
    by (simp add: setenv_names_wrap [OF assms(2)] ssh_sock_falsy [OF assms(1)])
qed

lemma BubblewrapSandbox_wrap_noninterference:
  assumes "\<not> truthy_opt (allowSshAgent c)"
      and "filter (\<lambda>(k, v). k \<noteq> ''SSH_AUTH_SOCK'') e1 = filter (\<lambda>(k, v). k \<noteq> ''SSH_AUTH_SOCK'') e2"
  shows "BubblewrapSandbox_wrap (h\<lparr>env := e1\<rparr>) c script
       = BubblewrapSandbox_wrap (h\<lparr>env := e2\<rparr>) c script"
proof -
  have g: "\<And>k. k \<noteq> ''SSH_AUTH_SOCK'' \<Longrightarrow> getenv (h\<lparr>env := e1\<rparr>) k = getenv (h\<lparr>env := e2\<rparr>) k"
    using getenv_agree [OF assms(2)] by (simp add: getenv_def)
  have x: "xdgRuntimeDir (h\<lparr>env := e1\<rparr>) = xdgRuntimeDir (h\<lparr>env := e2\<rparr>)"
    by (simp add: xdgRuntimeDir_def g split: option.splits)
  have s: "sanitized_ssh_config (h\<lparr>env := e1\<rparr>) (claudeHome c)
         = sanitized_ssh_config (h\<lparr>env := e2\<rparr>) (claudeHome c)"
    by (simp add: sanitized_ssh_config_def pathExists_def Let_def split: option.splits)
  have r: "runtime_sockets (h\<lparr>env := e1\<rparr>) c = runtime_sockets (h\<lparr>env := e2\<rparr>) c"
    by (simp add: runtime_sockets_def ssh_sock_falsy [OF assms(1)] xdg_runtime_bind_def
          gpg_bind_def x isDirectory_def Let_def)
  have "filter (\<lambda>(k, v). k \<noteq> ''SSH_AUTH_SOCK'') (own_env e1)
      = own_env (filter (\<lambda>(k, v). k \<noteq> ''SSH_AUTH_SOCK'') e1)"
       "filter (\<lambda>(k, v). k \<noteq> ''SSH_AUTH_SOCK'') (own_env e2)
      = own_env (filter (\<lambda>(k, v). k \<noteq> ''SSH_AUTH_SOCK'') e2)"
    by (auto simp: own_env_def intro: filter_cong)
  then have e: "filter (\<lambda>(k, v). k \<noteq> ''SSH_AUTH_SOCK'') (own_env e1)
              = filter (\<lambda>(k, v). k \<noteq> ''SSH_AUTH_SOCK'') (own_env e2)"
    by (simp only: assms(2))
  show ?thesis
    by (simp add: BubblewrapSandbox_wrap_def g s r e Let_def split: option.splits)
qed

lemma BubblewrapSandbox_wrap_ide_env:
  assumes "BubblewrapSandbox_wrap_ide h c script = Return r"
  shows "wenv r = env h"
  using assms by (rule BubblewrapSandbox_wrap_ide_Return)

text \<open>
  Claim C1.  The claim: with the SSH agent flag false, the environment returned by the
  bubblewrap \<^verbatim>\<open>wrap\<close> has no binding of \<^verbatim>\<open>SSH_AUTH_SOCK\<close>.  The variant with IDE
  integration returns the environment of the process unchanged: on a host where the variable
  is set, with the flag false, the returned environment still binds it to the path of the
  host's socket.
\<close>

theorem wrap_ide_passes_SSH_AUTH_SOCK:
  "\<not> truthy_opt (allowSshAgent config_ide0)
   \<and> map_of (wrap_env (BubblewrapSandbox_wrap_ide host0 config_ide0 ''x'')) ''SSH_AUTH_SOCK''
       = Some ''/run/user/1000/ssh-agent''"
proof -
  have "wrap_env (BubblewrapSandbox_wrap_ide host0 config_ide0 ''x'') = env host0"
    by (simp add: BubblewrapSandbox_wrap_ide_def getenv_host0 wrap_env_def)
  moreover have "map_of (env host0) ''SSH_AUTH_SOCK'' = Some ''/run/user/1000/ssh-agent''"
    by (simp add: host0_def)
  moreover have "allowSshAgent config_ide0 = Some (JBool False)"
    by (simp add: config_ide0_def config0_def config.defs)
  ultimately show ?thesis by (simp add: truthy_opt_def)
qed

lemma runtime_sockets_broad:
  "truthy_opt (allowXdgRuntime c) \<Longrightarrow>
   runtime_sockets h c = broad_bind h @ ssh_rebind h (allowSshAgent c)"
  by (simp add: runtime_sockets_def xdg_runtime_bind_def broad_bind_def ssh_rebind_def
        SANDBOX_SSH_SOCK_def Let_def split: option.splits)

lemma runtime_sockets_ide_broad:
  "truthy_opt (allowXdgRuntime c) \<Longrightarrow> runtime_sockets_ide h c = broad_bind h"
  by (simp add: runtime_sockets_ide_def xdg_runtime_bind_def broad_bind_def Let_def)

lemma runtime_sockets_narrow_off: "runtime_sockets h (narrow_off c) = []"
  by (simp add: runtime_sockets_def narrow_off_def truthy_opt_def gpg_bind_def ssh_sock_def)

lemma runtime_sockets_ide_narrow_off: "runtime_sockets_ide h (narrow_off c) = []"
  by (simp add: runtime_sockets_ide_def narrow_off_def truthy_opt_def gpg_bind_def ssh_sock_def)

lemma gpg_redundant:
  assumes "truthy_opt (allowXdgRuntime c)"
  shows "BubblewrapSandbox_wrap h (c\<lparr>allowGpgAgent := g\<rparr>) script = BubblewrapSandbox_wrap h c script"
  using assms
  by (simp add: BubblewrapSandbox_wrap_def runtime_sockets_def isolated_home_def
        project_binds_def Let_def split: option.splits)

lemma narrow_redundant_ide:
  assumes "truthy_opt (allowXdgRuntime c)"
  shows "BubblewrapSandbox_wrap_ide h (c\<lparr>allowSshAgent := s, allowGpgAgent := g\<rparr>) script
       = BubblewrapSandbox_wrap_ide h c script"
  using assms
  by (simp add: BubblewrapSandbox_wrap_ide_def runtime_sockets_ide_def isolated_home_def
        project_binds_def git_config_binds_def ide_bind_def Let_def split: option.splits)

lemma broad_inserted:
  assumes "truthy_opt (allowXdgRuntime c)"
      and "BubblewrapSandbox_wrap h c script = Return r"
  shows "\<exists>pre post. args r = pre @ broad_bind h @ ssh_rebind h (allowSshAgent c) @ post
           \<and> wrap_args (BubblewrapSandbox_wrap h (narrow_off c) script) = pre @ post"
proof -
  from assms(2) obtain home' where
    h: "getenv h ''HOME'' = Some home'" and
    a: "args r = map Some basic_filesystem @ map Some (sanitized_ssh_config h (claudeHome c))
           @ isolated_home c home'
           @ namespaces_and_env home' (getenv h ''USER'') (getenv h ''PATH'')
           @ project_binds c @ runtime_sockets h c @ map Some [''bash'', ''-c'', script]"
    by (rule BubblewrapSandbox_wrap_Return)
  let ?pre = "map Some basic_filesystem @ map Some (sanitized_ssh_config h (claudeHome c))
           @ isolated_home c home'
           @ namespaces_and_env home' (getenv h ''USER'') (getenv h ''PATH'')
           @ project_binds c"
  let ?post = "map Some [''bash'', ''-c'', script]"
  have 1: "args r = ?pre @ broad_bind h @ ssh_rebind h (allowSshAgent c) @ ?post"
    by (simp only: a runtime_sockets_broad [OF assms(1)] append_assoc)
  have i: "isolated_home (narrow_off c) home' = isolated_home c home'"
    by (simp add: isolated_home_def narrow_off_def)
  have p: "project_binds (narrow_off c) = project_binds c"
    by (simp add: project_binds_def narrow_off_def)
  have s: "claudeHome (narrow_off c) = claudeHome c"
    by (simp add: narrow_off_def)
  have 2: "wrap_args (BubblewrapSandbox_wrap h (narrow_off c) script) = ?pre @ ?post"
    by (simp add: BubblewrapSandbox_wrap_def h wrap_args_def runtime_sockets_narrow_off i p s)
  from 1 2 show ?thesis by blast
qed

lemma broad_inserted_ide:
  assumes "truthy_opt (allowXdgRuntime c)"
      and "BubblewrapSandbox_wrap_ide h c script = Return r"
  shows "\<exists>pre post. args r = pre @ broad_bind h @ post
           \<and> wrap_args (BubblewrapSandbox_wrap_ide h (narrow_off c) script) = pre @ post"
proof -
  from assms(2) obtain home' where
    h: "getenv h ''HOME'' = Some home'" and
    a: "args r = map Some basic_filesystem @ isolated_home c home'
           @ git_config_binds h c home'
           @ namespaces_and_env home' (getenv h ''USER'') (getenv h ''PATH'')
           @ project_binds c @ runtime_sockets_ide h c @ ide_bind h c home'
           @ map Some [''bash'', ''-c'', script]"
    by (rule BubblewrapSandbox_wrap_ide_Return)
  let ?pre = "map Some basic_filesystem @ isolated_home c home'
           @ git_config_binds h c home'
           @ namespaces_and_env home' (getenv h ''USER'') (getenv h ''PATH'')
           @ project_binds c"
  let ?post = "ide_bind h c home' @ map Some [''bash'', ''-c'', script]"
  have 1: "args r = ?pre @ broad_bind h @ ?post"
    by (simp only: a runtime_sockets_ide_broad [OF assms(1)] append_assoc)
  have i: "isolated_home (narrow_off c) home' = isolated_home c home'"
    by (simp add: isolated_home_def narrow_off_def)
  have p: "project_binds (narrow_off c) = project_binds c"
    by (simp add: project_binds_def narrow_off_def)
  have g: "git_config_binds h (narrow_off c) home' = git_config_binds h c home'"
    by (simp add: git_config_binds_def narrow_off_def)
  have d: "ide_bind h (narrow_off c) home' = ide_bind h c home'"
    by (simp add: ide_bind_def narrow_off_def)
  have 2: "wrap_args (BubblewrapSandbox_wrap_ide h (narrow_off c) script) = ?pre @ ?post"
    by (simp add: BubblewrapSandbox_wrap_ide_def h wrap_args_def runtime_sockets_ide_narrow_off
          i p g d)
  from 1 2 show ?thesis by blast
qed

text \<open>
  Claim C4, as amended.  With the runtime directory flag truthy: in both variants the GPG agent
  flag changes nothing, and in the variant with IDE integration neither does the SSH agent
  flag; the arguments are those of the configuration with the three runtime capabilities off,
  with the read-only bind of the runtime directory and its variable inserted (when it is a
  directory).  In \<^verbatim>\<open>src/src/claudebox.js\<close> the SSH agent socket is handled independently of
  the runtime directory: its rebinding to the fixed sandbox path follows the broad bind
  whenever the SSH agent flag is truthy and the socket exists.
\<close>

theorem broad_runtime_supersedes:
  "(truthy_opt (allowXdgRuntime c) \<longrightarrow>
      BubblewrapSandbox_wrap h (c\<lparr>allowGpgAgent := g\<rparr>) script = BubblewrapSandbox_wrap h c script
      \<and> (BubblewrapSandbox_wrap h c script = Return r \<longrightarrow>
           (\<exists>pre post. args r = pre @ broad_bind h @ ssh_rebind h (allowSshAgent c) @ post
              \<and> wrap_args (BubblewrapSandbox_wrap h (narrow_off c) script) = pre @ post)))
   \<and> (truthy_opt (allowXdgRuntime ci) \<longrightarrow>
      BubblewrapSandbox_wrap_ide h (ci\<lparr>allowSshAgent := s, allowGpgAgent := g\<rparr>) script
        = BubblewrapSandbox_wrap_ide h ci script
      \<and> (BubblewrapSandbox_wrap_ide h ci script = Return ri \<longrightarrow>
           (\<exists>pre post. args ri = pre @ broad_bind h @ post
              \<and> wrap_args (BubblewrapSandbox_wrap_ide h (narrow_off ci) script) = pre @ post)))"
proof (intro conjI impI)
  assume "truthy_opt (allowXdgRuntime c)"
  then show "BubblewrapSandbox_wrap h (c\<lparr>allowGpgAgent := g\<rparr>) script
               = BubblewrapSandbox_wrap h c script"
    by (rule gpg_redundant)
next
  assume "truthy_opt (allowXdgRuntime c)" and "BubblewrapSandbox_wrap h c script = Return r"
  then show "\<exists>pre post. args r = pre @ broad_bind h @ ssh_rebind h (allowSshAgent c) @ post
              \<and> wrap_args (BubblewrapSandbox_wrap h (narrow_off c) script) = pre @ post"
    by (rule broad_inserted)
next
  assume "truthy_opt (allowXdgRuntime ci)"
  then show "BubblewrapSandbox_wrap_ide h (ci\<lparr>allowSshAgent := s, allowGpgAgent := g\<rparr>) script
        = BubblewrapSandbox_wrap_ide h ci script"
    by (rule narrow_redundant_ide)
next
  assume "truthy_opt (allowXdgRuntime ci)" and "BubblewrapSandbox_wrap_ide h ci script = Return ri"
  then show "\<exists>pre post. args ri = pre @ broad_bind h @ post
              \<and> wrap_args (BubblewrapSandbox_wrap_ide h (narrow_off ci) script) = pre @ post"
    by (rule broad_inserted_ide)
qed

lemma runtime_sockets_host0:
  "runtime_sockets host0 config_xdg_ssh =
     map Some [''--ro-bind'', ''/run/user/1000'', ''/run/user/1000'',
               ''--setenv'', ''XDG_RUNTIME_DIR'', ''/run/user/1000'',
               ''--bind'', ''/run/user/1000/ssh-agent'', ''/tmp/ssh-agent.sock'',
               ''--setenv'', ''SSH_AUTH_SOCK'', ''/tmp/ssh-agent.sock'']"
  by (simp add: runtime_sockets_def config_xdg_ssh_def config0_def truthy_opt_def
        xdg_runtime_bind_def xdgRuntimeDir_host0 ssh_sock_host0 SANDBOX_SSH_SOCK_def isDirectory_def)
     (simp add: host0_def Let_def)

text \<open>The claim as stated fails on \<^verbatim>\<open>src/src/claudebox.js\<close>: with the runtime directory
  flag and the SSH agent flag both true, the arguments bind the agent socket as well.\<close>

theorem broad_runtime_keeps_ssh_bind:
  "truthy_opt (allowXdgRuntime config_xdg_ssh)
   \<and> (''--bind'', [Some ''/run/user/1000/ssh-agent'', Some ''/tmp/ssh-agent.sock''])
       \<in> set (bind_mounts (wrap_args (BubblewrapSandbox_wrap host0 config_xdg_ssh ''x'')))"
proof -
  obtain r where r: "BubblewrapSandbox_wrap host0 config_xdg_ssh ''x'' = Return r"
    by (simp add: BubblewrapSandbox_wrap_def getenv_host0)
  have "(''--bind'', [Some ''/run/user/1000/ssh-agent'', Some ''/tmp/ssh-agent.sock''])
          \<in> set (bind_mounts (runtime_sockets host0 config_xdg_ssh))"
    by (simp add: runtime_sockets_host0 bind_mounts_def bwrap_arity_simps)
  with bind_mounts_wrap_runtime_sockets [OF r]
  have "(''--bind'', [Some ''/run/user/1000/ssh-agent'', Some ''/tmp/ssh-agent.sock''])
          \<in> set (bind_mounts (args r))"
    by blast
  moreover have "truthy_opt (allowXdgRuntime config_xdg_ssh)"
    by (simp add: config_xdg_ssh_def truthy_opt_def)
  ultimately show ?thesis by (simp add: r wrap_args_def)
qed

theorem broad_runtime_supersedes_witness:
  "truthy_opt (allowXdgRuntime config_xdg_ssh) \<and> truthy_opt (allowXdgRuntime config_ide_all)
   \<and> BubblewrapSandbox_wrap host0 (config_xdg_ssh\<lparr>allowGpgAgent := Some (JBool True)\<rparr>) ''x''
       = BubblewrapSandbox_wrap host0 config_xdg_ssh ''x''
   \<and> BubblewrapSandbox_wrap_ide host0 (config_ide_all\<lparr>allowSshAgent := None, allowGpgAgent := None\<rparr>) ''x''
       = BubblewrapSandbox_wrap_ide host0 config_ide_all ''x''
   \<and> (\<exists>r pre post. BubblewrapSandbox_wrap host0 config_xdg_ssh ''x'' = Return r
          \<and> args r = pre @ broad_bind host0 @ ssh_rebind host0 (allowSshAgent config_xdg_ssh) @ post
          \<and> wrap_args (BubblewrapSandbox_wrap host0 (narrow_off config_xdg_ssh) ''x'') = pre @ post)
   \<and> (\<exists>r pre post. BubblewrapSandbox_wrap_ide host0 config_ide_all ''x'' = Return r
          \<and> args r = pre @ broad_bind host0 @ post
          \<and> wrap_args (BubblewrapSandbox_wrap_ide host0 (narrow_off config_ide_all) ''x'') = pre @ post)"
proof -
  have t: "truthy_opt (allowXdgRuntime config_xdg_ssh)"
    by (simp add: config_xdg_ssh_def truthy_opt_def)
  have ti: "truthy_opt (allowXdgRuntime config_ide_all)"
    by (simp add: config_ide_all_def truthy_opt_def)
  obtain r where r: "BubblewrapSandbox_wrap host0 config_xdg_ssh ''x'' = Return r"
    by (simp add: BubblewrapSandbox_wrap_def getenv_host0)
  obtain ri where ri: "BubblewrapSandbox_wrap_ide host0 config_ide_all ''x'' = Return ri"
    by (simp add: BubblewrapSandbox_wrap_ide_def getenv_host0)
  from broad_runtime_supersedes [where h = host0 and c = config_xdg_ssh and ci = config_ide_all
      and script = "''x''" and r = r and ri = ri and g = "Some (JBool True)"] t ti r
  have 1: "BubblewrapSandbox_wrap host0 (config_xdg_ssh\<lparr>allowGpgAgent := Some (JBool True)\<rparr>) ''x''
       = BubblewrapSandbox_wrap host0 config_xdg_ssh ''x''"
    and 2: "\<exists>pre post. args r = pre @ broad_bind host0 @ ssh_rebind host0 (allowSshAgent config_xdg_ssh) @ post
          \<and> wrap_args (BubblewrapSandbox_wrap host0 (narrow_off config_xdg_ssh) ''x'') = pre @ post"
    by blast+
  from broad_runtime_supersedes [where h = host0 and c = config_xdg_ssh and ci = config_ide_all
      and script = "''x''" and r = r and ri = ri and g = None and s = None] ti ri
  have 3: "BubblewrapSandbox_wrap_ide host0 (config_ide_all\<lparr>allowSshAgent := None, allowGpgAgent := None\<rparr>) ''x''
       = BubblewrapSandbox_wrap_ide host0 config_ide_all ''x''"
    and 4: "\<exists>pre post. args ri = pre @ broad_bind host0 @ post
          \<and> wrap_args (BubblewrapSandbox_wrap_ide host0 (narrow_off config_ide_all) ''x'') = pre @ post"
    by blast+
  from t ti 1 2 3 4 r ri show ?thesis by blast
qed

section \<open>The shared tree\<close>

lemma split_on_no_sep: "c \<notin> set s \<Longrightarrow> split_on c s = [s]"
  by (induction s) auto

lemma split_on_append_sep:
  "c \<notin> set s \<Longrightarrow> split_on c (s @ c # rest) = s # split_on c rest"
  by (induction s) auto

lemma slashed_Cons: "slashed (s # segs) = CHR ''/'' # s @ slashed segs"
  by (simp add: slashed_def)

lemma slashed_Nil: "slashed [] = []"
  by (simp add: slashed_def)

lemma slashed_append: "slashed (xs @ ys) = slashed xs @ slashed ys"
  by (simp add: slashed_def)

lemma split_on_seg_slashed:
  "CHR ''/'' \<notin> set s \<Longrightarrow> \<forall>x \<in> set segs. CHR ''/'' \<notin> set x \<Longrightarrow>
   split_on CHR ''/'' (s @ slashed segs) = s # segs"
proof (induction segs arbitrary: s)
  case Nil
  then show ?case by (simp add: slashed_Nil split_on_no_sep)
next
  case (Cons a segs)
  then show ?case by (simp add: slashed_Cons split_on_append_sep)
qed

lemma split_on_slashed:
  "\<forall>x \<in> set segs. CHR ''/'' \<notin> set x \<Longrightarrow> split_on CHR ''/'' (slashed segs) = [] # segs"
  using split_on_seg_slashed [of "[]" segs] by simp

lemma normalize_segs_valid:
  "\<forall>s \<in> set segs. valid_segment s \<Longrightarrow> normalize_segs b acc segs = rev acc @ segs"
  by (induction segs arbitrary: acc) (auto simp: valid_segment_def)

lemma join_with_Cons_slashed: "join_with ''/'' (s # segs) = s @ slashed segs"
  by (induction segs arbitrary: s) (auto simp: slashed_Cons slashed_Nil)

lemma join_with_slashed:
  "segs \<noteq> [] \<Longrightarrow> CHR ''/'' # join_with ''/'' segs = slashed segs"
  by (cases segs) (auto simp: join_with_Cons_slashed slashed_Cons)

lemma slashed_nonempty: "segs \<noteq> [] \<Longrightarrow> slashed segs \<noteq> []"
  by (cases segs) (auto simp: slashed_Cons)

lemma hd_slashed: "segs \<noteq> [] \<Longrightarrow> hd (slashed segs) = CHR ''/''"
  by (cases segs) (auto simp: slashed_Cons)

lemma last_slashed:
  "segs \<noteq> [] \<Longrightarrow> \<forall>s \<in> set segs. valid_segment s \<Longrightarrow> last (slashed segs) \<noteq> CHR ''/''"
proof (induction segs rule: rev_induct)
  case Nil
  then show ?case by simp
next
  case (snoc x xs)
  then have "x \<noteq> []" and "CHR ''/'' \<notin> set x" by (auto simp: valid_segment_def)
  then have "last x \<noteq> CHR ''/''"
    using last_in_set [of x] by metis
  with \<open>x \<noteq> []\<close> show ?case
    by (simp add: slashed_append slashed_Cons slashed_Nil)
qed

lemma path_normalize_slashed:
  assumes "segs \<noteq> []" and "\<forall>s \<in> set segs. valid_segment s"
  shows "path_normalize (slashed segs) = slashed segs"
proof -
  have ns: "\<forall>x \<in> set segs. CHR ''/'' \<notin> set x"
    using assms(2) by (auto simp: valid_segment_def)
  have "normalize_segs False [] (split_on CHR ''/'' (slashed segs)) = segs"
    using assms(2) by (simp add: split_on_slashed [OF ns] normalize_segs_valid)
  moreover have "join_with ''/'' segs \<noteq> []"
    using assms by (cases segs) (auto simp: join_with_Cons_slashed valid_segment_def)
  ultimately show ?thesis
    using assms slashed_nonempty [OF assms(1)] hd_slashed [OF assms(1)] last_slashed [OF assms]
      join_with_slashed [OF assms(1)]
    by (simp add: path_normalize_def Let_def)
qed

lemma path_join_slashed:
  assumes "hs \<noteq> []" and "\<forall>s \<in> set hs. valid_segment s" and "valid_segment t"
  shows "path_join [slashed hs, t] = slashed (hs @ [t])"
proof -
  have "t \<noteq> []" using assms(3) by (simp add: valid_segment_def)
  then have "path_join [slashed hs, t] = path_normalize (slashed hs @ ''/'' @ t)"
    using slashed_nonempty [OF assms(1)]
    by (simp add: path_join_def split: list.splits)
  also have "slashed hs @ ''/'' @ t = slashed (hs @ [t])"
    by (simp add: slashed_append slashed_Cons slashed_Nil)
  also have "path_normalize (slashed (hs @ [t])) = slashed (hs @ [t])"
    using assms by (intro path_normalize_slashed) auto
  finally show ?thesis .
qed

lemma prefix_segment:
  assumes "CHR ''/'' \<notin> set h" and "CHR ''/'' \<notin> set r"
      and "prefix (h @ CHR ''/'' # X) (r @ Y)" and "Y = [] \<or> hd Y = CHR ''/''"
  shows "h = r \<and> prefix (CHR ''/'' # X) Y"
  using assms
proof (induction h arbitrary: r)
  case Nil
  then show ?case by (cases r; cases Y) auto
next
  case (Cons a h)
  then show ?case by (cases r; cases Y) auto
qed

lemma slashed_starts: "slashed segs = [] \<or> hd (slashed segs) = CHR ''/''"
  by (cases segs) (auto simp: slashed_Cons slashed_Nil)

lemma prefix_slashed:
  assumes "\<forall>s \<in> set hs. CHR ''/'' \<notin> set s" and "\<forall>s \<in> set rs. CHR ''/'' \<notin> set s"
  shows "prefix (slashed hs @ ''/'') (slashed rs) \<longleftrightarrow> strict_prefix hs rs"
  using assms
proof (induction hs arbitrary: rs)
  case Nil
  then show ?case by (cases rs) (auto simp: slashed_Cons slashed_Nil)
next
  case (Cons h hs)
  show ?case
  proof (cases rs)
    case Nil
    then show ?thesis by (simp add: slashed_Cons slashed_Nil)
  next
    case (Cons r rs')
    have nh: "CHR ''/'' \<notin> set h" and nr: "CHR ''/'' \<notin> set r"
      using Cons.prems Cons by auto
    have ih: "prefix (slashed hs @ ''/'') (slashed rs') \<longleftrightarrow> strict_prefix hs rs'"
      using Cons.prems Cons by (intro Cons.IH) auto
    obtain X where X: "slashed hs @ ''/'' = CHR ''/'' # X"
      by (cases hs) (auto simp: slashed_Cons slashed_Nil)
    show ?thesis
    proof
      assume "prefix (slashed (h # hs) @ ''/'') (slashed rs)"
      then have "prefix (h @ CHR ''/'' # X) (r @ slashed rs')"
        using X by (simp add: Cons slashed_Cons)
      from prefix_segment [OF nh nr this slashed_starts]
      have "h = r" and "prefix (slashed hs @ ''/'') (slashed rs')"
        using X by auto
      then show "strict_prefix (h # hs) rs"
        using ih Cons by auto
    next
      assume "strict_prefix (h # hs) rs"
      then have "h = r" and "strict_prefix hs rs'"
        using Cons by auto
      then show "prefix (slashed (h # hs) @ ''/'') (slashed rs)"
        using ih Cons by (simp add: slashed_Cons)
    qed
  qed
qed

lemma compute_shareTree_under:
  assumes hs: "hs \<noteq> []" "\<forall>s \<in> set hs. valid_segment s"
      and rs: "\<forall>s \<in> set (t # ts). valid_segment s"
  shows "compute_shareTree (slashed (hs @ t # ts)) (slashed hs) = slashed (hs @ [t])"
proof -
  have n: "\<forall>s \<in> set hs. CHR ''/'' \<notin> set s" "\<forall>s \<in> set (hs @ t # ts). CHR ''/'' \<notin> set s"
    using hs rs by (auto simp: valid_segment_def)
  have p: "prefix (slashed hs @ ''/'') (slashed (hs @ t # ts))"
    using prefix_slashed [OF n] by (simp add: strict_prefix_def)
  have d: "drop (length (slashed hs) + 1) (slashed (hs @ t # ts)) = t @ slashed ts"
    by (simp add: slashed_append slashed_Cons)
  have "split_on CHR ''/'' (t @ slashed ts) = t # ts"
    using rs by (intro split_on_seg_slashed) (auto simp: valid_segment_def)
  with p d have "compute_shareTree (slashed (hs @ t # ts)) (slashed hs) = path_join [slashed hs, t]"
    by (simp add: compute_shareTree_def)
  also have "\<dots> = slashed (hs @ [t])"
    using hs rs by (intro path_join_slashed) auto
  finally show ?thesis .
qed

lemma slashed_inject:
  assumes "\<forall>s \<in> set xs. CHR ''/'' \<notin> set s" and "\<forall>s \<in> set ys. CHR ''/'' \<notin> set s"
      and "slashed xs = slashed ys"
  shows "xs = ys"
proof -
  have "split_on CHR ''/'' (slashed xs) = split_on CHR ''/'' (slashed ys)"
    by (simp only: assms(3))
  then have "[] # xs = [] # ys"
    by (simp only: split_on_slashed [OF assms(1)] split_on_slashed [OF assms(2)])
  then show ?thesis by simp
qed

text \<open>
  Claim C2, as amended.  For canonical paths given by their segments, with a home that is not
  the root: if the segments of the home are a proper initial part of those of the project root,
  the shared tree is the home extended by the next segment of the project root; this is never
  the home itself, and it is the project root exactly when the project root lies directly in
  the home.  Otherwise the shared tree is the project root.
\<close>

theorem shareTree_rule:
  assumes "hs \<noteq> []"
      and "\<forall>s \<in> set hs. valid_segment s" and "\<forall>s \<in> set rs. valid_segment s"
  shows "compute_shareTree (abs_path rs) (abs_path hs) =
           (if strict_prefix hs rs then abs_path (hs @ [rs ! length hs]) else abs_path rs)
       \<and> (strict_prefix hs rs \<longrightarrow>
            compute_shareTree (abs_path rs) (abs_path hs) \<noteq> abs_path hs
            \<and> (compute_shareTree (abs_path rs) (abs_path hs) = abs_path rs
                 \<longleftrightarrow> length rs = length hs + 1))"
proof (cases "strict_prefix hs rs")
  case True
  then obtain t ts where r: "rs = hs @ t # ts"
    by (rule strict_prefixE')
  have t: "rs ! length hs = t" by (simp add: r)
  have v: "\<forall>s \<in> set (t # ts). valid_segment s"
    using assms(3) by (simp add: r)
  have c: "compute_shareTree (slashed rs) (slashed hs) = slashed (hs @ [t])"
    using compute_shareTree_under [OF assms(1,2) v] by (simp add: r)
  have n1: "\<forall>s \<in> set (hs @ [t]). CHR ''/'' \<notin> set s"
    using assms(2) v by (auto simp: valid_segment_def)
  have n2: "\<forall>s \<in> set hs. CHR ''/'' \<notin> set s" "\<forall>s \<in> set rs. CHR ''/'' \<notin> set s"
    using assms(2,3) by (auto simp: valid_segment_def)
  have 1: "slashed (hs @ [t]) \<noteq> slashed hs"
    using slashed_inject [OF n1 n2(1)] by auto
  have 2: "slashed (hs @ [t]) = slashed rs \<longleftrightarrow> length rs = length hs + 1"
  proof
    assume "slashed (hs @ [t]) = slashed rs"
    then have "hs @ [t] = rs" using slashed_inject [OF n1 n2(2)] by blast
    then have "length (hs @ [t]) = length rs" by (rule arg_cong)
    then show "length rs = length hs + 1" by simp
  next
    assume "length rs = length hs + 1"
    then have "ts = []" by (simp add: r)
    then show "slashed (hs @ [t]) = slashed rs" by (simp add: r)
  qed
  have rn: "rs \<noteq> []" by (simp add: r)
  have hn: "hs @ [t] \<noteq> []" by simp
  show ?thesis
    using True c 1 2 assms(1) rn by (simp add: abs_path_def t)
next
  case False
  have n2: "\<forall>s \<in> set hs. CHR ''/'' \<notin> set s" "\<forall>s \<in> set rs. CHR ''/'' \<notin> set s"
    using assms(2,3) by (auto simp: valid_segment_def)
  have np: "\<not> prefix (slashed hs @ ''/'') (slashed rs)"
    using prefix_slashed [OF n2] False by simp
  have "\<not> prefix (slashed hs @ ''/'') ''/''"
    using assms(1) by (cases hs) (auto simp: slashed_Cons)
  with np have "\<not> prefix (abs_path hs @ ''/'') (abs_path rs)"
    using assms(1) by (simp add: abs_path_def)
  then show ?thesis
    using False by (simp add: compute_shareTree_def)
qed

text \<open>The claim as stated fails for a project directly in the home: the shared tree is then
  the full project path.\<close>

theorem shareTree_direct_child:
  "compute_shareTree ''/home/u/repo'' ''/home/u'' = ''/home/u/repo''"
  by (simp add: compute_shareTree_def path_join_def path_normalize_def)

theorem shareTree_rule_witness:
  "compute_shareTree ''/home/u/work/repo'' ''/home/u'' = ''/home/u/work''
   \<and> compute_shareTree ''/home/u/work/repo'' ''/home/u'' \<noteq> ''/home/u''
   \<and> compute_shareTree ''/srv/repo'' ''/home/u'' = ''/srv/repo''"
proof -
  have v: "[''home'', ''u''] \<noteq> []"
    "\<forall>s \<in> set [''home'', ''u'']. valid_segment s"
    "\<forall>s \<in> set [''home'', ''u'', ''work'', ''repo'']. valid_segment s"
    "\<forall>s \<in> set [''srv'', ''repo'']. valid_segment s"
    by (simp_all add: valid_segment_def)
  from shareTree_rule [OF v(1) v(2) v(3)] shareTree_rule [OF v(1) v(2) v(4)]
  show ?thesis
    by (simp add: abs_path_def slashed_def)
qed

section \<open>Session cleanup\<close>

lemma rm_idem:
  "(case rm_node n of None \<Rightarrow> True | Some n' \<Rightarrow> rm_node n' = Some n')"
  "rm_entries (rm_entries es) = rm_entries es"
proof (induction n and es rule: rm_node_rm_entries.induct)
  case (1 removable)
  then show ?case by simp
next
  case (2 removable entries)
  then show ?case by (auto split: list.splits)
next
  case 3
  then show ?case by simp
next
  case (4 name n entries)
  then show ?case by (auto split: option.splits)
qed

lemma rm_removes:
  "rm_node n = None \<longleftrightarrow> fully_removable n"
  "rm_entries es = [] \<longleftrightarrow> all_removable es"
proof (induction n and es rule: rm_node_rm_entries.induct)
  case (1 removable)
  then show ?case by simp
next
  case (2 removable entries)
  then show ?case by (auto split: list.splits)
next
  case 3
  then show ?case by simp
next
  case (4 name n entries)
  then show ?case by (auto split: option.splits)
qed

lemma cleanup_returns: "fst (cleanup s) = Return ()"
  by (auto simp: cleanup_def rmSync_def split: option.splits)

lemma cleanup_state: "snd (cleanup s) = (case s of None \<Rightarrow> None | Some n \<Rightarrow> rm_node n)"
  by (auto simp: cleanup_def rmSync_def split: option.splits)

lemma rm_node_remains: "rm_node n = Some n' \<Longrightarrow> rm_node n' = Some n'"
  using rm_idem(1) [of n] by simp

lemma cleanup_idem: "snd (cleanup (snd (cleanup s))) = snd (cleanup s)"
  by (auto simp: cleanup_state rm_node_remains split: option.splits)

lemma cleanup_iterate: "((\<lambda>s. snd (cleanup s)) ^^ Suc k) s = snd (cleanup s)"
  by (induction k) (simp_all add: cleanup_idem)

text \<open>
  Claim C9, as amended.  In every state of the session directory, absent or with any tree,
  \<^verbatim>\<open>cleanup\<close> returns without an exception; a second call, and any further one, leaves the
  state the first call left; and no session directory remains exactly when the directory was
  absent or everything in it could be removed.
\<close>

theorem cleanup_idempotent:
  "fst (cleanup s) = Return ()
   \<and> snd (cleanup (snd (cleanup s))) = snd (cleanup s)
   \<and> ((\<lambda>s. snd (cleanup s)) ^^ Suc k) s = snd (cleanup s)
   \<and> (snd (cleanup s) = None \<longleftrightarrow> (case s of None \<Rightarrow> True | Some n \<Rightarrow> fully_removable n))"
  by (simp only: cleanup_returns cleanup_idem cleanup_iterate)
     (simp add: cleanup_state rm_removes split: option.splits)

text \<open>The claim as stated fails where the file system refuses a removal: the error is
  swallowed and the directory remains, after one call and after two.\<close>

theorem cleanup_leaves_directory:
  "snd (cleanup stuck_session) = Some (Dir True [(''.cache'', Dir True [(''x'', File False)])])
   \<and> snd (cleanup (snd (cleanup stuck_session))) \<noteq> None"
  by (simp add: cleanup_def rmSync_def stuck_session_def)

theorem cleanup_idempotent_witness:
  "snd (cleanup (Some (Dir True [(''.ssh'', Dir True [(''known_hosts'', File True)])]))) = None
   \<and> snd (cleanup None) = None
   \<and> fst (cleanup stuck_session) = Return ()"
  using cleanup_idempotent [of "Some (Dir True [(''.ssh'', Dir True [(''known_hosts'', File True)])])" 0]
    cleanup_idempotent [of None 0] cleanup_idempotent [of stuck_session 0]
  by simp

section \<open>Signals\<close>

text \<open>
  Claim C6.  The handler of \<^verbatim>\<open>SIGINT\<close> ends the process with status 130 and the handler of
  \<^verbatim>\<open>SIGTERM\<close> with status 143, whatever the state of the process and of its child; the
  events they add are the cleanup, the cleanup again by the exit listener, then the exit, and
  the session directory is left as one cleanup leaves it.
\<close>

theorem signal_exit_status:
  "status (on_SIGINT p) = Some 130
   \<and> status (on_SIGTERM p) = Some 143
   \<and> trace (on_SIGINT p) =
       trace p @ [Cleanup] @ (if listening p then [Cleanup] else []) @ [ProcessExit 130]
   \<and> trace (on_SIGTERM p) =
       trace p @ [Cleanup] @ (if listening p then [Cleanup] else []) @ [ProcessExit 143]
   \<and> session (on_SIGINT p) = snd (cleanup (session p))
   \<and> session (on_SIGTERM p) = snd (cleanup (session p))"
  by (simp add: on_SIGINT_def on_SIGTERM_def process_exit_def run_cleanup_def emit_def cleanup_idem)

section \<open>The dry run\<close>

lemma spawns_emit: "spawns (emit es p) \<longleftrightarrow> spawns p \<or> (\<exists>r. Spawn r \<in> set es)"
  by (auto simp: spawns_def emit_def)

lemma spawns_emit_Print [simp]: "spawns (emit (map Print os) p) = spawns p"
  by (auto simp: spawns_emit)

lemma spawns_updates [simp]:
  "spawns (p\<lparr>listening := b\<rparr>) = spawns p"
  "spawns (p\<lparr>session := s\<rparr>) = spawns p"
  "spawns (p\<lparr>status := c\<rparr>) = spawns p"
  by (simp_all add: spawns_def)

lemma spawns_run_cleanup [simp]: "spawns (run_cleanup p) = spawns p"
  by (simp add: run_cleanup_def spawns_emit)

lemma spawns_process_exit [simp]: "spawns (process_exit c p) = spawns p"
  by (simp add: process_exit_def spawns_emit)

lemma spawns_uncaught [simp]: "spawns (uncaught e p) = spawns p"
  by (simp add: uncaught_def spawns_emit)

lemma spawns_initial [simp]: "\<not> spawns initial"
  by (simp add: spawns_def initial_def)

lemma status_process_exit [simp]: "status (process_exit c p) = Some c"
  by (simp add: process_exit_def)

lemma status_uncaught [simp]: "status (uncaught e p) = Some 1"
  by (simp add: uncaught_def)

lemma session_setup_spawns:
  "session_setup w options p = Stop p' \<Longrightarrow> spawns p' = spawns p"
  "session_setup w options p = Go paths p'' \<Longrightarrow> spawns p'' = spawns p"
  by (auto simp: session_setup_def Let_def spawns_emit split: if_splits option.splits)

lemma session_setup_status:
  "session_setup w options p = Stop p' \<Longrightarrow> status p' = Some 1"
  by (auto simp: session_setup_def Let_def split: if_splits option.splits)

lemma Sandbox_create_no_Exit: "Sandbox_create w c \<noteq> Exit x"
  by (simp add: Sandbox_create_def)

lemma sandbox_setup_spawns:
  "sandbox_setup w options rr paths p = Stop p' \<Longrightarrow> spawns p' = spawns p"
  "sandbox_setup w options rr paths p = Go sb p'' \<Longrightarrow> spawns p'' = spawns p"
  by (auto simp: sandbox_setup_def spawns_emit split: prod.splits option.splits completion.splits)

lemma sandbox_setup_status:
  "sandbox_setup w options rr paths p = Stop p' \<Longrightarrow> status p' = Some 1"
  by (auto simp: sandbox_setup_def Sandbox_create_no_Exit
           split: prod.splits option.splits completion.splits)

lemma wrap_no_Exit: "Sandbox_wrap w sb script \<noteq> Exit x"
  by (cases sb)
     (auto simp: BubblewrapSandbox_wrap_def SeatbeltSandbox_wrap_def Let_def
           split: option.splits if_splits)

lemma launch_dry_spawns:
  "truthy_opt (options ''dryRun'') \<Longrightarrow> spawns (launch w options sb script p) = spawns p"
  by (auto simp: launch_def split: completion.splits)

lemma launch_dry_status:
  "truthy_opt (options ''dryRun'') \<Longrightarrow>
   status (launch w options sb script p) = Some 0 \<or> status (launch w options sb script p) = Some 1"
  using wrap_no_Exit [of w sb script]
  by (auto simp: launch_def Sandbox_dryRun_def split: completion.splits)

lemma parseArgs_exit_codes:
  "parseArgs_loop h argv cli = (printed, Exit c) \<Longrightarrow> c = 0 \<or> c = 1"
  by (induction argv arbitrary: cli printed)
     (auto simp: showHelp_def showHelp_with_def getConfigPath_def
           split: if_splits completion.splits option.splits)

lemma loadConfig_no_Exit: "loadConfig_with d h \<noteq> Exit c"
  by (auto simp: loadConfig_with_def getConfigPath_def split: completion.splits option.splits read_result.splits)

lemma parseArgs_Exit:
  "parseArgs h argv = (printed, Exit c) \<Longrightarrow> c = 0 \<or> c = 1"
  using loadConfig_no_Exit [of CONFIG_DEFAULTS h]
  by (auto simp: parseArgs_def loadConfig_def split: completion.splits prod.splits
           dest: parseArgs_exit_codes)

lemma parseArgs_dryRun:
  assumes "parseArgs h argv = (printed, Return options)" and "''--dry-run'' \<in> set argv"
  shows "truthy_opt (options ''dryRun'')"
proof -
  from assms(1) have "snd (parseArgs h argv) = Return options" by simp
  then obtain warnings config printed' cli where
    l: "parseArgs_loop h argv [''dryRun'' \<mapsto> JBool False] = (printed', Return cli)" and
    opts: "options = (merge_fields [''allowSshAgent'', ''allowGpgAgent'', ''allowXdgRuntime''] cli config)
                 (''dryRun'' := cli ''dryRun'')"
    by (rule parseArgs_Return)
  from parseArgs_loop_fields(4) [OF l] assms(2) show ?thesis
    by (simp add: opts truthy_opt_def)
qed

lemma main_dry_never_spawns:
  assumes "''--dry-run'' \<in> set argv"
  shows "\<not> spawns (main w argv)"
    and "status (main w argv) = Some 0 \<or> status (main w argv) = Some 1"
proof -
  obtain printed res where pa: "parseArgs w argv = (printed, res)"
    by (cases "parseArgs w argv")
  show "\<not> spawns (main w argv)"
  proof (cases res)
    case (Return options)
    then have d: "truthy_opt (options ''dryRun'')"
      using parseArgs_dryRun pa assms by blast
    show ?thesis
      using pa Return d
      by (auto simp: main_def Let_def launch_dry_spawns
               dest: session_setup_spawns sandbox_setup_spawns
               split: step.splits)
  next
    case (Exit c)
    then show ?thesis using pa by (simp add: main_def)
  next
    case (Throw e)
    then show ?thesis using pa by (simp add: main_def)
  qed
  show "status (main w argv) = Some 0 \<or> status (main w argv) = Some 1"
  proof (cases res)
    case (Return options)
    then have d: "truthy_opt (options ''dryRun'')"
      using parseArgs_dryRun pa assms by blast
    show ?thesis
      using pa Return launch_dry_status [where options = options, OF d]
      by (auto simp: main_def Let_def
               dest: session_setup_status sandbox_setup_status
               split: step.splits)
  next
    case (Exit c)
    then show ?thesis using pa parseArgs_Exit [of w argv printed c] by (auto simp: main_def)
  next
    case (Throw e)
    then show ?thesis using pa by (simp add: main_def)
  qed
qed

lemma prints_only_emit: "prints_only p \<Longrightarrow> prints_only (emit (map Print os) p)"
  by (auto simp: prints_only_def emit_def)

lemma session_setup_Go:
  assumes "session_setup w options p = Go paths p'"
  shows "listening p'" and "prints_only p \<Longrightarrow> prints_only p'"
  using assms
  by (auto simp: session_setup_def Let_def prints_only_def emit_def split: if_splits option.splits)

lemma sandbox_setup_Go:
  assumes "sandbox_setup w options rr paths p = Go sb p'"
  shows "p' = p"
  using assms
  by (auto simp: sandbox_setup_def split: prod.splits option.splits completion.splits)

lemma main_dry_run_success:
  assumes "''--dry-run'' \<in> set argv"
      and "parseArgs w argv = (printed, Return options)"
      and "session_setup w options (emit (map Print printed) initial) = Go paths p"
      and "sandbox_setup w options (getRepoRoot w (cwd w)) paths p = Go sb p'"
      and "Sandbox_wrap w sb (launch_script (cwd w)) = Return r"
  shows "status (main w argv) = Some 0"
    and "trace (main w argv) =
           trace p @ map Print (dryRun_lines w r) @ [Cleanup, Cleanup, ProcessExit 0]"
    and "prints_only p"
proof -
  have d: "truthy_opt (options ''dryRun'')"
    using parseArgs_dryRun assms(2,1) by blast
  have p': "p' = p" using sandbox_setup_Go [OF assms(4)] .
  have l: "listening p" using session_setup_Go(1) [OF assms(3)] .
  have m: "main w argv = process_exit 0 (run_cleanup (emit (map Print (dryRun_lines w r)) p))"
    using assms d by (simp add: main_def Let_def launch_def Sandbox_dryRun_def p')
  show "status (main w argv) = Some 0" by (simp add: m)
  show "trace (main w argv) =
           trace p @ map Print (dryRun_lines w r) @ [Cleanup, Cleanup, ProcessExit 0]"
    using l by (simp add: m process_exit_def run_cleanup_def emit_def)
  have "prints_only (emit (map Print printed) initial)"
    by (simp add: prints_only_def emit_def initial_def)
  then show "prints_only p" using session_setup_Go(2) [OF assms(3)] by blast
qed

lemma map_of_obj_set: "map_of (obj_set d k v) = (map_of d)(k \<mapsto> v)"
  by (induction d) (auto simp: fun_eq_iff)

lemma obj_set_new: "k \<notin> fst ` set d \<Longrightarrow> obj_set d k v = d @ [(k, v)]"
  by (induction d) auto

lemma fold_changed:
  assumes "distinct (map fst xs)" and "fst ` set xs \<inter> fst ` set d0 = {}"
  shows "fold (\<lambda>(k, v) d. if P k v then obj_set d k v else d) xs d0
         = d0 @ filter (\<lambda>(k, v). P k v) xs"
  using assms
proof (induction xs arbitrary: d0)
  case Nil
  then show ?case by simp
next
  case (Cons a xs)
  obtain k v where a: "a = (k, v)" by (cases a)
  have k: "k \<notin> fst ` set d0" using Cons.prems(2) a by auto
  have d: "distinct (map fst xs)" using Cons.prems(1) by simp
  have kx: "k \<notin> fst ` set xs" using Cons.prems(1) a by (auto simp: image_iff)
  show ?case
  proof (cases "P k v")
    case True
    have "fst ` set xs \<inter> fst ` set (d0 @ [(k, v)]) = {}"
      using Cons.prems(2) kx by auto
    from Cons.IH [OF d this] True show ?thesis
      by (simp add: a obj_set_new [OF k])
  next
    case False
    have "fst ` set xs \<inter> fst ` set d0 = {}" using Cons.prems(2) by auto
    from Cons.IH [OF d this] False show ?thesis by (simp add: a)
  qed
qed

lemma fold_deleted:
  assumes "distinct ks" and "\<forall>k \<in> set ks. k \<notin> K \<longrightarrow> k \<notin> fst ` set d0"
  shows "fold (\<lambda>k d. if k \<notin> K then obj_set d k D else d) ks d0
         = d0 @ map (\<lambda>k. (k, D)) (filter (\<lambda>k. k \<notin> K) ks)"
  using assms
proof (induction ks arbitrary: d0)
  case Nil
  then show ?case by simp
next
  case (Cons k ks)
  have d: "distinct ks" and kk: "k \<notin> set ks" using Cons.prems(1) by simp_all
  show ?case
  proof (cases "k \<in> K")
    case True
    have "\<forall>k \<in> set ks. k \<notin> K \<longrightarrow> k \<notin> fst ` set d0" using Cons.prems(2) by simp
    from Cons.IH [OF d this] True show ?thesis by simp
  next
    case False
    then have k: "k \<notin> fst ` set d0" using Cons.prems(2) by simp
    have "\<forall>k' \<in> set ks. k' \<notin> K \<longrightarrow> k' \<notin> fst ` set (d0 @ [(k, D)])"
      using Cons.prems(2) kk by auto
    from Cons.IH [OF d this] False show ?thesis
      by (simp add: obj_set_new [OF k])
  qed
qed

lemma own_env_keys: "k \<in> fst ` set (own_env e) \<longleftrightarrow> k \<in> fst ` set e \<and> \<not> is_array_index k"
  by (force simp: own_env_def image_iff)

lemma filter_map_pair:
  "filter (\<lambda>(k, v). P k) (map (\<lambda>k. (k, D)) ks) = map (\<lambda>k. (k, D)) (filter P ks)"
  by (induction ks) auto

lemma distinct_own_env: "distinct (map fst e) \<Longrightarrow> distinct (map fst (own_env e))"
  by (simp add: own_env_def distinct_map_filter)

lemma diffEnv_distinct:
  assumes "distinct (map fst e')" and "distinct (map fst e)"
  shows "diffEnv e' e =
           filter (\<lambda>(k, v). map_of e k \<noteq> Some v) (own_env e')
           @ map (\<lambda>k. (k, ''(deleted)''))
               (filter (\<lambda>k. k \<notin> fst ` set (own_env e')) (map fst e))"
proof -
  have 1: "fold (\<lambda>(k, v) d. if map_of e k \<noteq> Some v then obj_set d k v else d) (own_env e') []
           = filter (\<lambda>(k, v). map_of e k \<noteq> Some v) (own_env e')"
    using fold_changed [where P = "\<lambda>k v. map_of e k \<noteq> Some v" and xs = "own_env e'" and ?d0.0 = "[]"]
      distinct_own_env [OF assms(1)]
    by simp
  have 2: "\<forall>k \<in> set (map fst e). k \<notin> fst ` set (own_env e') \<longrightarrow>
             k \<notin> fst ` set (filter (\<lambda>(k, v). map_of e k \<noteq> Some v) (own_env e'))"
    by (auto simp: image_iff)
  show ?thesis
    unfolding diffEnv_def Let_def 1
    by (rule fold_deleted [OF assms(2) 2])
qed

lemma object_entries_append:
  assumes "\<forall>(k, v) \<in> set xs. \<not> is_array_index k"
  shows "object_entries (xs @ ys)
         = sort_key (\<lambda>(k, v). index_value k) (filter (\<lambda>(k, v). is_array_index k) ys)
           @ xs @ filter (\<lambda>(k, v). \<not> is_array_index k) ys"
proof -
  have "filter (\<lambda>(k, v). is_array_index k) xs = []"
    using assms by (auto simp: filter_empty_conv)
  moreover have "filter (\<lambda>(k, v). \<not> is_array_index k) xs = xs"
    using assms by (auto simp: filter_id_conv)
  ultimately show ?thesis by (simp add: object_entries_def)
qed

lemma object_entries_diffEnv:
  assumes "distinct (map fst e')" and "distinct (map fst e)"
  shows "object_entries (diffEnv e' e) = env_delta e' e"
proof -
  have x: "\<forall>(k, v) \<in> set (filter (\<lambda>(k, v). map_of e k \<noteq> Some v) (own_env e')). \<not> is_array_index k"
    by (auto simp: own_env_def)
  have a0: "filter is_array_index (filter (\<lambda>k. k \<notin> fst ` set (own_env e')) ks)
            = filter is_array_index ks" for ks
    by (induction ks) (auto simp: own_env_keys)
  have b0: "filter (\<lambda>k. \<not> is_array_index k) (filter (\<lambda>k. k \<notin> fst ` set (own_env e')) ks)
            = filter (\<lambda>k. \<not> is_array_index k \<and> k \<notin> fst ` set e') ks" for ks
    by (induction ks) (auto simp: own_env_keys)
  have a: "filter (\<lambda>(k, v). is_array_index k)
             (map (\<lambda>k. (k, ''(deleted)'')) (filter (\<lambda>k. k \<notin> fst ` set (own_env e')) (map fst e)))
           = map (\<lambda>k. (k, ''(deleted)'')) (filter is_array_index (map fst e))"
    by (simp only: filter_map_pair a0)
  have b: "filter (\<lambda>(k, v). \<not> is_array_index k)
             (map (\<lambda>k. (k, ''(deleted)'')) (filter (\<lambda>k. k \<notin> fst ` set (own_env e')) (map fst e)))
           = map (\<lambda>k. (k, ''(deleted)''))
               (filter (\<lambda>k. \<not> is_array_index k \<and> k \<notin> fst ` set e') (map fst e))"
    by (simp only: filter_map_pair b0)
  have c: "filter (\<lambda>(k, v). map_of e k \<noteq> Some v) (own_env e')
           = filter (\<lambda>(k, v). \<not> is_array_index k \<and> map_of e k \<noteq> Some v) e'"
    by (induction e') (auto simp: own_env_def)
  have "object_entries (diffEnv e' e)
        = sort_key (\<lambda>(k, v). index_value k)
            (filter (\<lambda>(k, v). is_array_index k)
               (map (\<lambda>k. (k, ''(deleted)''))
                  (filter (\<lambda>k. k \<notin> fst ` set (own_env e')) (map fst e))))
          @ filter (\<lambda>(k, v). map_of e k \<noteq> Some v) (own_env e')
          @ filter (\<lambda>(k, v). \<not> is_array_index k)
              (map (\<lambda>k. (k, ''(deleted)''))
                 (filter (\<lambda>k. k \<notin> fst ` set (own_env e')) (map fst e)))"
    unfolding diffEnv_distinct [OF assms] by (rule object_entries_append [OF x])
  then show ?thesis
    by (simp only: a b c env_delta_def)
qed

lemma quote_word_shell_quote:
  "(case shell_quote a of None \<Rightarrow> [] | Some s \<Rightarrow> s) = quote_word a"
proof (cases a)
  case None
  then show ?thesis by (simp add: shell_quote_def quote_word_def)
next
  case (Some s)
  have e: "concat (map (\<lambda>ch. if ch = CHR 0x27 then [CHR 0x27, CHR 0x5C, CHR 0x27, CHR 0x27]
                              else [ch]) t) = escape_quotes t" for t
    by (induction t) simp_all
  have n: "(\<exists>ch \<in> set s. needs_quoting ch)
        \<longleftrightarrow> set s \<inter> {CHR 0x09, CHR 0x0A, CHR 0x0B, CHR 0x0C, CHR 0x0D, CHR 0x20, CHR 0xA0,
                       CHR 0x27, CHR 0x22} \<noteq> {}"
    by (auto simp: needs_quoting_def)
  show ?thesis
    by (simp only: Some shell_quote_def quote_word_def option.case n e if_not_P if_P
          split: if_splits) auto
qed

lemma command_line_join:
  "join_opt [CHR 0x20, CHR 0x5C, CHR 0x0A, CHR 0x20, CHR 0x20] (map shell_quote ws) = command_line ws"
proof (induction ws rule: command_line.induct)
  case 1
  then show ?case by (simp add: join_opt_def)
next
  case (2 a)
  then show ?case using quote_word_shell_quote [of a] by (simp add: join_opt_def)
next
  case (3 a b as)
  then show ?case
    using quote_word_shell_quote [of a] by (simp add: join_opt_def)
qed

lemma dryRun_lines_text:
  "dryRun_lines h r =
     delta_lines (object_entries (diffEnv (wenv r) (env h)))
     @ [Log (command_line (Some (cmd r) # args r))]"
  using command_line_join [of "Some (cmd r) # args r"]
  by (simp add: dryRun_lines_def delta_lines_def Let_def)

lemma sort_key_map_pair:
  "sort_key (\<lambda>(k, v). f k) (map (\<lambda>k. (k, D)) ks) = map (\<lambda>k. (k, D)) (sort_key f ks)"
proof -
  have i: "insort_key (\<lambda>(k, v). f k) (k, D) (map (\<lambda>k. (k, D)) ys)
           = map (\<lambda>k. (k, D)) (insort_key f k ys)" for k ys
    by (induction ys) simp_all
  show ?thesis
    by (induction ks) (simp_all add: i)
qed

lemma filter_eq_distinct:
  "distinct xs \<Longrightarrow> filter (\<lambda>k. k = a) xs = (if a \<in> set xs then [a] else [])"
  by (induction xs) auto

lemma not_index_SSH_AUTH_SOCK: "\<not> is_array_index ''SSH_AUTH_SOCK''"
  by (simp add: is_array_index_def)

lemma unchanged_entries:
  assumes "distinct (map fst e)" and "set e' \<subseteq> set e"
  shows "filter (\<lambda>(k, v). \<not> is_array_index k \<and> map_of e k \<noteq> Some v) e' = []"
  using assms by (auto simp: filter_empty_conv)

lemma env_delta_copy:
  assumes "distinct (map fst e)"
  shows "env_delta (filter (\<lambda>(k, v). k \<noteq> ''SSH_AUTH_SOCK'') (own_env e)) e
         = map (\<lambda>k. (k, ''(deleted)''))
             (sort_key index_value (filter is_array_index (map fst e))
              @ (if ''SSH_AUTH_SOCK'' \<in> fst ` set e then [''SSH_AUTH_SOCK''] else []))"
proof -
  let ?e' = "filter (\<lambda>(k, v). k \<noteq> ''SSH_AUTH_SOCK'') (own_env e)"
  have s: "set ?e' \<subseteq> set e" by (auto simp: own_env_def)
  have k: "fst ` set ?e' = {k \<in> fst ` set e. \<not> is_array_index k \<and> k \<noteq> ''SSH_AUTH_SOCK''}"
    by (force simp: own_env_def image_iff)
  have p: "(\<not> is_array_index x \<and> x \<notin> fst ` set ?e') \<longleftrightarrow> x = ''SSH_AUTH_SOCK''"
    if "x \<in> fst ` set e" for x
    unfolding k using that not_index_SSH_AUTH_SOCK by blast
  have f: "filter (\<lambda>k. \<not> is_array_index k \<and> k \<notin> fst ` set ?e') ks
           = filter (\<lambda>k. k = ''SSH_AUTH_SOCK'') ks" if "set ks \<subseteq> fst ` set e" for ks
    by (rule filter_cong [OF refl]) (use that p in blast)
  have "filter (\<lambda>k. \<not> is_array_index k \<and> k \<notin> fst ` set ?e') (map fst e)
        = (if ''SSH_AUTH_SOCK'' \<in> fst ` set e then [''SSH_AUTH_SOCK''] else [])"
    using f [of "map fst e"] filter_eq_distinct [OF assms, of "''SSH_AUTH_SOCK''"] by simp
  then show ?thesis
    by (simp only: env_delta_def unchanged_entries [OF assms s] sort_key_map_pair
          append_Nil map_append)
qed

lemma env_delta_same:
  assumes "distinct (map fst e)"
  shows "env_delta e e
         = map (\<lambda>k. (k, ''(deleted)'')) (sort_key index_value (filter is_array_index (map fst e)))"
proof -
  have "filter (\<lambda>k. \<not> is_array_index k \<and> k \<notin> fst ` set e) (map fst e) = []"
    by (auto simp: filter_empty_conv)
  then show ?thesis
    using unchanged_entries [OF assms, of e]
    by (simp add: env_delta_def sort_key_map_pair)
qed

lemma sandbox_setup_platform:
  assumes "sandbox_setup w options rr paths p = Go sb p'"
  shows "(\<exists>c. sb = BubblewrapSandbox c \<and> platform w = ''linux'')
       \<or> (\<exists>c. sb = SeatbeltSandbox c \<and> platform w = ''darwin'')"
  using assms
  by (auto simp: sandbox_setup_def Sandbox_create_def
           split: prod.splits option.splits completion.splits if_splits)

lemma wrap_delta:
  assumes "sandbox_setup w options rr paths p = Go sb p'"
      and "Sandbox_wrap w sb script = Return r"
      and "distinct (map fst (env w))"
  shows "object_entries (diffEnv (wenv r) (env w)) = map (\<lambda>k. (k, ''(deleted)'')) (deleted_names w)"
proof -
  from sandbox_setup_platform [OF assms(1)] show ?thesis
  proof (elim disjE exE conjE)
    fix c assume sb: "sb = BubblewrapSandbox c" and l: "platform w = ''linux''"
    from assms(2) have "BubblewrapSandbox_wrap w c script = Return r" by (simp add: sb)
    then have e: "wenv r = filter (\<lambda>(k, v). k \<noteq> ''SSH_AUTH_SOCK'') (own_env (env w))"
      by (rule BubblewrapSandbox_wrap_Return)
    have d: "distinct (map fst (wenv r))"
      unfolding e using assms(3) by (simp add: own_env_def distinct_map_filter)
    show ?thesis
      unfolding object_entries_diffEnv [OF d assms(3)]
      unfolding e env_delta_copy [OF assms(3)]
      by (simp add: deleted_names_def l)
  next
    fix c assume sb: "sb = SeatbeltSandbox c" and l: "platform w = ''darwin''"
    from assms(2) have "SeatbeltSandbox_wrap w c script = Return r" by (simp add: sb)
    then have e: "wenv r = env w"
      by (auto simp: SeatbeltSandbox_wrap_def Let_def split: option.splits if_splits)
    show ?thesis
      unfolding e object_entries_diffEnv [OF assms(3) assms(3)] env_delta_same [OF assms(3)]
      by (simp add: deleted_names_def l)
  qed
qed

lemma parseArgs_loop_other:
  assumes "first_other argv = Some a"
  shows "parseArgs_loop h argv cli =
           (if a = ''-h'' \<or> a = ''--help''
            then (case showHelp h of
                    Return printed \<Rightarrow> (printed, Exit 0)
                  | Exit c \<Rightarrow> ([], Exit c)
                  | Throw e \<Rightarrow> ([], Throw e))
            else ([Err (''Unknown option: '' @ a), Err ''Use --help for usage information''],
                  Exit 1))"
  using assms
  by (induction argv arbitrary: cli)
     (auto simp: first_other_def accepted_options_def split: if_splits)

lemma parseArgs_loop_accepted:
  assumes "first_other argv = None"
  shows "\<exists>cli'. parseArgs_loop h argv cli = ([], Return cli')"
  using assms
  by (induction argv arbitrary: cli)
     (auto simp: first_other_def accepted_options_def split: if_splits)

lemma main_unknown_option:
  assumes "first_other argv = Some a" and "a \<noteq> ''-h''" and "a \<noteq> ''--help''"
  shows "status (main w argv) = Some 1"
  using assms(2,3) loadConfig_no_Exit [of CONFIG_DEFAULTS w]
  by (auto simp: main_def parseArgs_def parseArgs_loop_other [OF assms(1)] loadConfig_def
        split: completion.splits prod.splits)

lemma getConfigPath_no_Exit: "getConfigPath h \<noteq> Exit c"
  by (simp add: getConfigPath_def split: option.splits)

lemma main_help:
  assumes "first_other argv = Some a" and "a = ''-h'' \<or> a = ''--help''"
  shows "status (main w argv) = Some (case getConfigPath w of Return path \<Rightarrow> 0 | _ \<Rightarrow> 1)"
  using assms(2) getConfigPath_no_Exit [of w]
  by (auto simp: main_def parseArgs_def parseArgs_loop_other [OF assms(1)]
        loadConfig_def loadConfig_with_def showHelp_def showHelp_with_def
        split: completion.splits prod.splits read_result.splits)

lemma main_accepted:
  assumes "first_other argv = None"
  shows "parseArgs w argv \<noteq> (out, Exit c)"
  using parseArgs_loop_accepted [OF assms, of w "[''dryRun'' \<mapsto> JBool False]"]
    loadConfig_no_Exit [of CONFIG_DEFAULTS w]
  by (auto simp: parseArgs_def loadConfig_def split: completion.splits prod.splits)

lemma session_setup_trace:
  assumes "session_setup w options p = Go (home', ch, cc, cj) p'"
  shows "trace p' = trace p @ (if pathExists w cj then []
                               else [Print (Log ''Initializing Claude configuration...'')])"
  using assms
  by (auto simp: session_setup_def Let_def emit_def split: if_splits option.splits)

lemma main_dry_run_failures:
  assumes "parseArgs w argv = (printed, Return options)"
  shows "session_setup w options (emit (map Print printed) initial) = Stop q
         \<Longrightarrow> main w argv = q \<and> status q = Some 1"
    and "session_setup w options (emit (map Print printed) initial) = Go paths p
         \<Longrightarrow> sandbox_setup w options (getRepoRoot w (cwd w)) paths p = Stop q
         \<Longrightarrow> main w argv = q \<and> status q = Some 1"
    and "''--dry-run'' \<in> set argv
         \<Longrightarrow> session_setup w options (emit (map Print printed) initial) = Go paths p
         \<Longrightarrow> sandbox_setup w options (getRepoRoot w (cwd w)) paths p = Go sb p'
         \<Longrightarrow> Sandbox_wrap w sb (launch_script (cwd w)) = Throw e
         \<Longrightarrow> status (main w argv) = Some 1"
proof -
  show "main w argv = q \<and> status q = Some 1"
    if "session_setup w options (emit (map Print printed) initial) = Stop q"
    using that assms session_setup_status [OF that] by (simp add: main_def Let_def)
  show "main w argv = q \<and> status q = Some 1"
    if "session_setup w options (emit (map Print printed) initial) = Go paths p"
      and "sandbox_setup w options (getRepoRoot w (cwd w)) paths p = Stop q"
    using that assms sandbox_setup_status [OF that(2)] by (simp add: main_def Let_def)
  show "status (main w argv) = Some 1"
    if "''--dry-run'' \<in> set argv"
      and "session_setup w options (emit (map Print printed) initial) = Go paths p"
      and "sandbox_setup w options (getRepoRoot w (cwd w)) paths p = Go sb p'"
      and "Sandbox_wrap w sb (launch_script (cwd w)) = Throw e"
  proof -
    have d: "truthy_opt (options ''dryRun'')"
      using parseArgs_dryRun assms that(1) by blast
    show ?thesis
      using that assms d by (simp add: main_def Let_def launch_def Sandbox_dryRun_def)
  qed
qed

lemma main_dry_run_trace:
  assumes "''--dry-run'' \<in> set argv"
      and "parseArgs w argv = (printed, Return options)"
      and "session_setup w options (emit (map Print printed) initial) = Go (home', ch, cc, cj) p"
      and "sandbox_setup w options (getRepoRoot w (cwd w)) (home', ch, cc, cj) p = Go sb p'"
      and "Sandbox_wrap w sb (launch_script (cwd w)) = Return r"
  shows "trace (main w argv) =
           map Print (printed
                      @ (if pathExists w cj then [] else [Log ''Initializing Claude configuration...''])
                      @ dryRun_lines w r)
           @ [Cleanup, Cleanup, ProcessExit 0]"
proof -
  have "trace p = map Print printed
                  @ (if pathExists w cj then [] else [Print (Log ''Initializing Claude configuration...'')])"
    using session_setup_trace [OF assms(3)] by (simp add: emit_def initial_def)
  then show ?thesis
    using main_dry_run_success(2) [OF assms] by simp
qed

text \<open>
  Claim C7, as amended.  Whenever \<^verbatim>\<open>--dry-run\<close> is among the arguments, \<^verbatim>\<open>main\<close> never
  spawns a child.  Its exit status is 1 when the first argument that is not an accepted option
  is unknown; when that argument asks for help, it is 0 if the path of the configuration file
  can be built and 1 otherwise; when all arguments are accepted, parsing does not exit, and the
  status is 1 if parsing throws, if the session or the sandbox cannot be set up, or if
  \<^verbatim>\<open>wrap\<close> throws.  When \<^verbatim>\<open>wrap\<close> returns, the status is 0 and the events are: what
  parsing printed, the announcement of a missing \<^verbatim>\<open>.claude.json\<close>, the lines of the dry run,
  the cleanup, the cleanup again by the exit listener, and the exit.  The lines of the dry run
  are the changes of the environment under their heading, if there are any, then the command
  line, with every word that has white space or a quote put in single quotes.  On a host whose
  variables have distinct names, the changes for the result of \<^verbatim>\<open>wrap\<close> are deletions
  only: the variables whose names are array indices, which the environment object does not
  show, and on Linux \<^verbatim>\<open>SSH_AUTH_SOCK\<close>.  For any result with distinct names, the changes
  are the added and changed variables of the sandbox and the variables of the process that the
  sandbox lacks, marked as deleted.
\<close>

theorem dry_run:
  assumes "''--dry-run'' \<in> set argv"
  shows "\<not> spawns (main w argv)
   \<and> (status (main w argv) = Some 0 \<or> status (main w argv) = Some 1)
   \<and> (first_other argv = Some a \<and> a \<noteq> ''-h'' \<and> a \<noteq> ''--help''
        \<longrightarrow> status (main w argv) = Some 1)
   \<and> (first_other argv = Some a \<and> (a = ''-h'' \<or> a = ''--help'')
        \<longrightarrow> status (main w argv) = Some (case getConfigPath w of Return path \<Rightarrow> 0 | _ \<Rightarrow> 1))
   \<and> (first_other argv = None \<longrightarrow> parseArgs w argv \<noteq> (printed, Exit c))
   \<and> (parseArgs w argv = (printed, Throw e) \<longrightarrow> status (main w argv) = Some 1)
   \<and> (parseArgs w argv = (printed, Return options)
        \<and> session_setup w options (emit (map Print printed) initial) = Stop q
        \<longrightarrow> main w argv = q \<and> status q = Some 1)
   \<and> (parseArgs w argv = (printed, Return options)
        \<and> session_setup w options (emit (map Print printed) initial) = Go (home', ch, cc, cj) p
        \<and> sandbox_setup w options (getRepoRoot w (cwd w)) (home', ch, cc, cj) p = Stop q
        \<longrightarrow> main w argv = q \<and> status q = Some 1)
   \<and> (parseArgs w argv = (printed, Return options)
        \<and> session_setup w options (emit (map Print printed) initial) = Go (home', ch, cc, cj) p
        \<and> sandbox_setup w options (getRepoRoot w (cwd w)) (home', ch, cc, cj) p = Go sb p'
        \<and> Sandbox_wrap w sb (launch_script (cwd w)) = Throw e
        \<longrightarrow> status (main w argv) = Some 1)
   \<and> (parseArgs w argv = (printed, Return options)
        \<and> session_setup w options (emit (map Print printed) initial) = Go (home', ch, cc, cj) p
        \<and> sandbox_setup w options (getRepoRoot w (cwd w)) (home', ch, cc, cj) p = Go sb p'
        \<and> Sandbox_wrap w sb (launch_script (cwd w)) = Return r
        \<longrightarrow> status (main w argv) = Some 0
          \<and> trace (main w argv) =
               map Print (printed
                          @ (if pathExists w cj then []
                             else [Log ''Initializing Claude configuration...''])
                          @ dryRun_lines w r)
               @ [Cleanup, Cleanup, ProcessExit 0]
          \<and> dryRun_lines w r =
               delta_lines (object_entries (diffEnv (wenv r) (env w)))
               @ [Log (command_line (Some (cmd r) # args r))]
          \<and> (distinct (map fst (env w)) \<longrightarrow>
               dryRun_lines w r =
                 delta_lines (map (\<lambda>k. (k, ''(deleted)'')) (deleted_names w))
                 @ [Log (command_line (Some (cmd r) # args r))]))
   \<and> (distinct (map fst (wenv r')) \<and> distinct (map fst (env h))
        \<longrightarrow> dryRun_lines h r' =
              delta_lines (env_delta (wenv r') (env h))
              @ [Log (command_line (Some (cmd r') # args r'))])"
proof (intro conjI impI; (elim conjE)?)
  show "\<not> spawns (main w argv)"
    using assms by (rule main_dry_never_spawns(1))
  show "status (main w argv) = Some 0 \<or> status (main w argv) = Some 1"
    using assms by (rule main_dry_never_spawns(2))
  show "status (main w argv) = Some 1"
    if "first_other argv = Some a" "a \<noteq> ''-h''" "a \<noteq> ''--help''"
    using that by (rule main_unknown_option)
  show "status (main w argv) = Some (case getConfigPath w of Return path \<Rightarrow> 0 | _ \<Rightarrow> 1)"
    if "first_other argv = Some a" "a = ''-h'' \<or> a = ''--help''"
    using that by (rule main_help)
  show "parseArgs w argv \<noteq> (printed, Exit c)" if "first_other argv = None"
    using that by (rule main_accepted)
  show "status (main w argv) = Some 1" if "parseArgs w argv = (printed, Throw e)"
    using that by (simp add: main_def)
  show "main w argv = q" "status q = Some 1"
    if "parseArgs w argv = (printed, Return options)"
       "session_setup w options (emit (map Print printed) initial) = Stop q"
    using main_dry_run_failures(1) [OF that] by simp_all
  show "main w argv = q" "status q = Some 1"
    if "parseArgs w argv = (printed, Return options)"
       "session_setup w options (emit (map Print printed) initial) = Go (home', ch, cc, cj) p"
       "sandbox_setup w options (getRepoRoot w (cwd w)) (home', ch, cc, cj) p = Stop q"
    using main_dry_run_failures(2) [OF that] by simp_all
  show "status (main w argv) = Some 1"
    if "parseArgs w argv = (printed, Return options)"
       "session_setup w options (emit (map Print printed) initial) = Go (home', ch, cc, cj) p"
       "sandbox_setup w options (getRepoRoot w (cwd w)) (home', ch, cc, cj) p = Go sb p'"
       "Sandbox_wrap w sb (launch_script (cwd w)) = Throw e"
    using main_dry_run_failures(3) [OF that(1) assms that(2,3,4)] .
  show "status (main w argv) = Some 0"
    if "parseArgs w argv = (printed, Return options)"
       "session_setup w options (emit (map Print printed) initial) = Go (home', ch, cc, cj) p"
       "sandbox_setup w options (getRepoRoot w (cwd w)) (home', ch, cc, cj) p = Go sb p'"
       "Sandbox_wrap w sb (launch_script (cwd w)) = Return r"
    using main_dry_run_success(1) [OF assms that] .
  show "trace (main w argv) =
               map Print (printed
                          @ (if pathExists w cj then []
                             else [Log ''Initializing Claude configuration...''])
                          @ dryRun_lines w r)
               @ [Cleanup, Cleanup, ProcessExit 0]"
    if "parseArgs w argv = (printed, Return options)"
       "session_setup w options (emit (map Print printed) initial) = Go (home', ch, cc, cj) p"
       "sandbox_setup w options (getRepoRoot w (cwd w)) (home', ch, cc, cj) p = Go sb p'"
       "Sandbox_wrap w sb (launch_script (cwd w)) = Return r"
    using main_dry_run_trace [OF assms that] .
  show "dryRun_lines w r =
               delta_lines (object_entries (diffEnv (wenv r) (env w)))
               @ [Log (command_line (Some (cmd r) # args r))]"
    by (rule dryRun_lines_text)
  show "dryRun_lines w r =
                 delta_lines (map (\<lambda>k. (k, ''(deleted)'')) (deleted_names w))
                 @ [Log (command_line (Some (cmd r) # args r))]"
    if "sandbox_setup w options (getRepoRoot w (cwd w)) (home', ch, cc, cj) p = Go sb p'"
       "Sandbox_wrap w sb (launch_script (cwd w)) = Return r"
       "distinct (map fst (env w))"
    unfolding dryRun_lines_text wrap_delta [OF that] ..
  show "dryRun_lines h r' =
              delta_lines (env_delta (wenv r') (env h))
              @ [Log (command_line (Some (cmd r') # args r'))]"
    if "distinct (map fst (wenv r'))" "distinct (map fst (env h))"
    unfolding dryRun_lines_text object_entries_diffEnv [OF that] ..
qed

lemma world_mac_noprofile_fields:
  "env world_mac_noprofile = [(''HOME'', ''/Users/u''), (''USER'', ''u'')]"
  "platform world_mac_noprofile = ''darwin''"
  "cwd world_mac_noprofile = ''/Users/u/work/repo''"
  "git_toplevel world_mac_noprofile = None"
  "random_hex world_mac_noprofile = ''0123abcd''"
  "fs_mkdir_ok world_mac_noprofile = (\<lambda>p. True)"
  "fs_read_json world_mac_noprofile = (\<lambda>p. Enoent)"
  "fs_is_dir world_mac_noprofile = (\<lambda>p. False)"
  "fs_access world_mac_noprofile = (\<lambda>p. p = ''/opt/seatbelt.sbpl'')"
  "fs_realpath world_mac_noprofile ''/Users/u/work/repo'' = Some ''/Users/u/work/repo''"
  "fs_realpath world_mac_noprofile ''/Users/u'' = Some ''/Users/u''"
  by (simp_all add: world_mac_noprofile_def world_mac_def host_mac_def host.defs world.defs)

lemma getenv_world_mac_noprofile:
  "getenv world_mac_noprofile k = map_of [(''HOME'', ''/Users/u''), (''USER'', ''u'')] k"
  by (simp add: getenv_def world_mac_noprofile_fields)

lemma parseArgs_world_mac_noprofile:
  "\<exists>options. parseArgs world_mac_noprofile [''--dry-run''] = ([], Return options)
     \<and> options ''dryRun'' = Some (JBool True)
     \<and> options ''allowSshAgent'' = Some (JBool False)"
  by (simp add: parseArgs_def loadConfig_def loadConfig_with_def getConfigPath_def
        getenv_world_mac_noprofile or_else_def world_mac_noprofile_fields
        merge_fields_def override_def CONFIG_DEFAULTS_def)

lemma session_setup_world_mac_noprofile:
  assumes "options ''allowSshAgent'' = Some (JBool False)"
  shows "\<exists>a b c p'. session_setup world_mac_noprofile options p = Go (''/Users/u'', a, b, c) p'"
  using assms
  by (simp add: session_setup_def getenv_world_mac_noprofile world_mac_noprofile_fields
        truthy_opt_def Let_def)

lemma sandbox_setup_world_mac_noprofile:
  "\<exists>c. sandbox_setup world_mac_noprofile options ''/Users/u/work/repo'' (''/Users/u'', a, b, d) p
        = Go (SeatbeltSandbox c) p"
  by (simp add: sandbox_setup_def world_mac_noprofile_fields Sandbox_create_def)

lemma wrap_world_mac_noprofile:
  "\<exists>e. SeatbeltSandbox_wrap world_mac_noprofile c script = Throw e"
  by (simp add: SeatbeltSandbox_wrap_def getenv_world_mac_noprofile or_else_def)

text \<open>The claim as stated fails where \<^verbatim>\<open>wrap\<close> throws: on macOS without a Seatbelt
  profile the real run fails in \<^verbatim>\<open>sandbox.spawn\<close>, and the dry run ends with status 1.\<close>

theorem dry_run_exits_1_without_profile:
  "status (main world_mac_noprofile [''--dry-run'']) = Some 1"
proof -
  obtain options where
    pa: "parseArgs world_mac_noprofile [''--dry-run''] = ([], Return options)" and
    d: "options ''dryRun'' = Some (JBool True)" and
    s: "options ''allowSshAgent'' = Some (JBool False)"
    using parseArgs_world_mac_noprofile by blast
  obtain a b c p' where
    ss: "session_setup world_mac_noprofile options (emit [] initial)
           = Go (''/Users/u'', a, b, c) p'"
    using session_setup_world_mac_noprofile [where options = options, OF s] by blast
  obtain cfg where
    sb: "sandbox_setup world_mac_noprofile options ''/Users/u/work/repo'' (''/Users/u'', a, b, c) p'
           = Go (SeatbeltSandbox cfg) p'"
    using sandbox_setup_world_mac_noprofile by blast
  obtain e where
    w: "SeatbeltSandbox_wrap world_mac_noprofile cfg (launch_script ''/Users/u/work/repo'') = Throw e"
    using wrap_world_mac_noprofile by blast
  have r: "getRepoRoot world_mac_noprofile ''/Users/u/work/repo'' = ''/Users/u/work/repo''"
    by (simp add: getRepoRoot_def world_mac_noprofile_fields)
  show ?thesis
    by (simp add: main_def pa Let_def r ss sb world_mac_noprofile_fields(3)
          launch_def d truthy_opt_def Sandbox_dryRun_def w)
qed

lemma world_linux_fields:
  "env world_linux = env host0"
  "platform world_linux = ''linux''"
  "cwd world_linux = ''/home/u/work/repo''"
  "git_toplevel world_linux = Some ''/home/u/work/repo''"
  "fs_mkdir_ok world_linux = (\<lambda>p. True)"
  "fs_read_json world_linux = fs_read_json host0"
  "fs_realpath world_linux = Some"
  by (simp_all add: world_linux_def host0_def host.defs world.defs)

lemma getenv_world_linux: "getenv world_linux k = getenv host0 k"
  by (simp add: getenv_def world_linux_fields)

lemma getConfigPath_world_linux:
  "getConfigPath world_linux = Return ''/home/u/.config/claudebox/config.json''"
  using getConfigPath_host0 by (simp add: getConfigPath_def getenv_world_linux split: option.splits)

lemma parseArgs_world_linux:
  "\<exists>options. parseArgs world_linux [''--dry-run''] = ([], Return options)
     \<and> options ''dryRun'' = Some (JBool True)
     \<and> options ''allowSshAgent'' = Some (JBool False)"
  by (simp add: parseArgs_def loadConfig_def loadConfig_with_def getConfigPath_world_linux
        world_linux_fields merge_fields_def override_def CONFIG_DEFAULTS_def)
     (simp add: host0_def spread_def merge_fields_def override_def)

lemma session_setup_world_linux:
  assumes "options ''allowSshAgent'' = Some (JBool False)"
  shows "\<exists>a b c p'. session_setup world_linux options p = Go (''/home/u'', a, b, c) p'"
  using assms
  by (simp add: session_setup_def getenv_world_linux getenv_host0 world_linux_fields
        truthy_opt_def Let_def)

lemma sandbox_setup_world_linux:
  "\<exists>c. sandbox_setup world_linux options ''/home/u/work/repo'' (''/home/u'', a, b, d) p
        = Go (BubblewrapSandbox c) p"
  by (simp add: sandbox_setup_def world_linux_fields Sandbox_create_def)

lemma wrap_world_linux:
  "\<exists>r. BubblewrapSandbox_wrap world_linux c script = Return r"
  by (simp add: BubblewrapSandbox_wrap_def getenv_world_linux getenv_host0 Let_def)

lemma world_mac_fields:
  "env world_mac = env host_mac"
  "platform world_mac = ''darwin''"
  "cwd world_mac = ''/Users/u/work/repo''"
  "git_toplevel world_mac = None"
  "random_hex world_mac = ''0123abcd''"
  "fs_mkdir_ok world_mac = (\<lambda>p. True)"
  "fs_read_json world_mac = (\<lambda>p. Enoent)"
  "fs_is_dir world_mac = (\<lambda>p. False)"
  "fs_access world_mac = (\<lambda>p. p = ''/opt/seatbelt.sbpl'')"
  "fs_read world_mac ''/opt/seatbelt.sbpl'' = Some ''(version 1)''"
  "fs_realpath world_mac ''/Users/u/work/repo'' = Some ''/Users/u/work/repo''"
  "fs_realpath world_mac ''/Users/u'' = Some ''/Users/u''"
  "fs_realpath world_mac ''/tmp'' = Some ''/private/tmp''"
  "fs_realpath world_mac ''/var/folders/x/T'' = Some ''/private/var/folders/x/T''"
  by (simp_all add: world_mac_def host_mac_def host.defs world.defs)

lemma getenv_world_mac:
  "getenv world_mac k = map_of [(''HOME'', ''/Users/u''), (''USER'', ''u''), (''PATH'', ''/usr/bin''),
                       (''TMPDIR'', ''/var/folders/x/T''),
                       (''CLAUDEBOX_SEATBELT_PROFILE'', ''/opt/seatbelt.sbpl'')] k"
  by (simp add: getenv_def world_mac_fields) (simp add: host_mac_def)

lemma parseArgs_world_mac:
  "\<exists>options. parseArgs world_mac [''--dry-run''] = ([], Return options)
     \<and> options ''dryRun'' = Some (JBool True)
     \<and> options ''allowSshAgent'' = Some (JBool False)"
  by (simp add: parseArgs_def loadConfig_def loadConfig_with_def getConfigPath_def
        getenv_world_mac or_else_def world_mac_fields
        merge_fields_def override_def CONFIG_DEFAULTS_def)

lemma getTmpDir_world_mac: "getTmpDir world_mac = ''/var/folders/x/T''"
  by (simp add: getTmpDir_def getenv_world_mac or_else_def)

lemma path_join_mac:
  "path_join [''/var/folders/x/T'', ''claudebox-0123abcd''] = ''/var/folders/x/T/claudebox-0123abcd''"
  "path_join [''/Users/u'', ''.ssh''] = ''/Users/u/.ssh''"
  "path_join [''/Users/u'', ''.claude''] = ''/Users/u/.claude''"
  "path_join [''/Users/u'', ''.claude.json''] = ''/Users/u/.claude.json''"
  by (simp_all add: path_join_def path_normalize_def Let_def)

lemma session_setup_world_mac:
  assumes "options ''allowSshAgent'' = Some (JBool False)"
  shows "\<exists>p'. session_setup world_mac options p
           = Go (''/Users/u'', ''/var/folders/x/T/claudebox-0123abcd'', ''/Users/u/.claude'',
                 ''/Users/u/.claude.json'') p'"
  using assms
  by (simp add: session_setup_def getenv_world_mac world_mac_fields getTmpDir_world_mac
        path_join_mac truthy_opt_def Let_def pathExists_def)

lemma sandbox_setup_world_mac:
  "\<exists>c. sandbox_setup world_mac options ''/Users/u/work/repo'' (''/Users/u'', a, b, d) p
        = Go (SeatbeltSandbox c) p \<and> repoRoot c = ''/Users/u/work/repo''"
  by (simp add: sandbox_setup_def world_mac_fields Sandbox_create_def)

lemma SeatbeltSandbox_wrap_world_mac:
  assumes "repoRoot c = ''/Users/u/work/repo''"
  shows "SeatbeltSandbox_wrap world_mac c script
         = Return \<lparr> cmd = ''/usr/bin/sandbox-exec'',
                    args = map Some [''-p'', ''(version 1)'' @ [CHR 0x0A] @ generated_policy True,
                                     ''-DPROJECT_DIR=/Users/u/work/repo'',
                                     ''-DTMPDIR=/private/var/folders/x/T'',
                                     ''-DSLASH_TMP=/private/tmp'', ''--'', ''bash'', ''-c'', script],
                    wenv = env world_mac \<rparr>"
  by (simp add: SeatbeltSandbox_wrap_def getTmpDir_world_mac getenv_world_mac or_else_def
        pathExists_def world_mac_fields assms dynamicPolicy_text)

lemma world_linux_indexed_fields:
  "env world_linux_indexed = [(''HOME'', ''/home/u''), (''USER'', ''u''), (''PATH'', ''/usr/bin''),
                     (''SSH_AUTH_SOCK'', ''/run/user/1000/ssh-agent''), (''10'', ''a''), (''7'', ''b'')]"
  "platform world_linux_indexed = ''linux''"
  "cwd world_linux_indexed = ''/home/u/work/repo''"
  "git_toplevel world_linux_indexed = Some ''/home/u/work/repo''"
  "random_hex world_linux_indexed = ''0123abcd''"
  "fs_mkdir_ok world_linux_indexed = (\<lambda>p. True)"
  "fs_read_json world_linux_indexed = fs_read_json host0"
  "fs_realpath world_linux_indexed = Some"
  "fs_access world_linux_indexed ''/home/u/.claude.json''"
  by (simp_all add: world_linux_indexed_def world_linux_def host0_def host.defs world.defs)

lemma getenv_world_linux_indexed:
  "getenv world_linux_indexed k =
     map_of [(''HOME'', ''/home/u''), (''USER'', ''u''), (''PATH'', ''/usr/bin''),
             (''SSH_AUTH_SOCK'', ''/run/user/1000/ssh-agent''), (''10'', ''a''), (''7'', ''b'')] k"
  by (simp add: getenv_def world_linux_indexed_fields)

lemma parseArgs_world_linux_indexed:
  "\<exists>options. parseArgs world_linux_indexed [''--dry-run''] = ([], Return options)
     \<and> options ''dryRun'' = Some (JBool True)
     \<and> options ''allowSshAgent'' = Some (JBool False)"
  by (simp add: parseArgs_def loadConfig_def loadConfig_with_def getConfigPath_def
        getenv_world_linux_indexed or_else_def path_join_def path_normalize_def Let_def
        world_linux_indexed_fields merge_fields_def override_def CONFIG_DEFAULTS_def)
     (simp add: host0_def spread_def merge_fields_def override_def)

lemma session_setup_world_linux_indexed:
  assumes "options ''allowSshAgent'' = Some (JBool False)"
  shows "\<exists>a b p'. session_setup world_linux_indexed options p
                     = Go (''/home/u'', a, b, ''/home/u/.claude.json'') p'"
  using assms
  by (simp add: session_setup_def getenv_world_linux_indexed world_linux_indexed_fields
        truthy_opt_def Let_def pathExists_def path_join_def path_normalize_def)

lemma sandbox_setup_world_linux_indexed:
  "\<exists>c. sandbox_setup world_linux_indexed options ''/home/u/work/repo'' (''/home/u'', a, b, d) p
        = Go (BubblewrapSandbox c) p"
  by (simp add: sandbox_setup_def world_linux_indexed_fields Sandbox_create_def)

lemma wrap_world_linux_indexed:
  "\<exists>r. BubblewrapSandbox_wrap world_linux_indexed c script = Return r"
  by (simp add: BubblewrapSandbox_wrap_def getenv_world_linux_indexed Let_def)

lemma index_value_digits: "index_value ''7'' = 7" "index_value ''10'' = 10"
  by (simp_all add: index_value_def)

lemma array_index_names:
  "is_array_index ''7''" "is_array_index ''10''"
  "\<not> is_array_index ''HOME''" "\<not> is_array_index ''USER''" "\<not> is_array_index ''PATH''"
  "\<not> is_array_index ''TMPDIR''" "\<not> is_array_index ''CLAUDEBOX_SEATBELT_PROFILE''"
  by (simp_all add: is_array_index_def index_value_digits)

lemma deleted_names_world_linux_indexed:
  "deleted_names world_linux_indexed = [''7'', ''10'', ''SSH_AUTH_SOCK'']"
  by (simp add: deleted_names_def world_linux_indexed_fields array_index_names
        not_index_SSH_AUTH_SOCK index_value_digits)

lemma deleted_names_world_mac: "deleted_names world_mac = []"
  by (simp add: deleted_names_def world_mac_fields)
     (simp add: host_mac_def array_index_names)

lemma command_line_world_mac:
  "command_line
     (Some ''/usr/bin/sandbox-exec''
      # map Some [''-p'', ''(version 1)'' @ [CHR 0x0A] @ generated_policy True,
                  ''-DPROJECT_DIR=/Users/u/work/repo'',
                  ''-DTMPDIR=/private/var/folders/x/T'',
                  ''-DSLASH_TMP=/private/tmp'', ''--'', ''bash'', ''-c'',
                  launch_script ''/Users/u/work/repo''])
   = ''/usr/bin/sandbox-exec'' @ [CHR 0x20, CHR 0x5C, CHR 0x0A, CHR 0x20, CHR 0x20]
     @ ''-p'' @ [CHR 0x20, CHR 0x5C, CHR 0x0A, CHR 0x20, CHR 0x20]
     @ [CHR 0x27] @ ''(version 1)'' @ [CHR 0x0A] @ generated_policy True @ [CHR 0x27]
     @ [CHR 0x20, CHR 0x5C, CHR 0x0A, CHR 0x20, CHR 0x20]
     @ ''-DPROJECT_DIR=/Users/u/work/repo'' @ [CHR 0x20, CHR 0x5C, CHR 0x0A, CHR 0x20, CHR 0x20]
     @ ''-DTMPDIR=/private/var/folders/x/T'' @ [CHR 0x20, CHR 0x5C, CHR 0x0A, CHR 0x20, CHR 0x20]
     @ ''-DSLASH_TMP=/private/tmp'' @ [CHR 0x20, CHR 0x5C, CHR 0x0A, CHR 0x20, CHR 0x20]
     @ ''--'' @ [CHR 0x20, CHR 0x5C, CHR 0x0A, CHR 0x20, CHR 0x20]
     @ ''bash'' @ [CHR 0x20, CHR 0x5C, CHR 0x0A, CHR 0x20, CHR 0x20]
     @ ''-c'' @ [CHR 0x20, CHR 0x5C, CHR 0x0A, CHR 0x20, CHR 0x20]
     @ [CHR 0x27, CHR 0x0A] @ ''cd '' @ [CHR 0x27, CHR 0x5C, CHR 0x27, CHR 0x27]
     @ ''/Users/u/work/repo'' @ [CHR 0x27, CHR 0x5C, CHR 0x27, CHR 0x27, CHR 0x0A]
     @ ''exec claude --dangerously-skip-permissions'' @ [CHR 0x0A, CHR 0x27]"
  by (simp add: quote_word_def launch_script_def generated_policy_def file_write_rule_def)

theorem dry_run_witness:
  "''--dry-run'' \<in> set [''--dry-run'']
   \<and> \<not> spawns (main world_mac [''--dry-run''])
   \<and> status (main world_mac [''--dry-run'']) = Some 0
   \<and> trace (main world_mac [''--dry-run'']) =
        [Print (Log ''Initializing Claude configuration...''),
         Print (Log (''/usr/bin/sandbox-exec'' @ [CHR 0x20, CHR 0x5C, CHR 0x0A, CHR 0x20, CHR 0x20]
           @ ''-p'' @ [CHR 0x20, CHR 0x5C, CHR 0x0A, CHR 0x20, CHR 0x20]
           @ [CHR 0x27] @ ''(version 1)'' @ [CHR 0x0A] @ generated_policy True @ [CHR 0x27]
           @ [CHR 0x20, CHR 0x5C, CHR 0x0A, CHR 0x20, CHR 0x20]
           @ ''-DPROJECT_DIR=/Users/u/work/repo'' @ [CHR 0x20, CHR 0x5C, CHR 0x0A, CHR 0x20, CHR 0x20]
           @ ''-DTMPDIR=/private/var/folders/x/T'' @ [CHR 0x20, CHR 0x5C, CHR 0x0A, CHR 0x20, CHR 0x20]
           @ ''-DSLASH_TMP=/private/tmp'' @ [CHR 0x20, CHR 0x5C, CHR 0x0A, CHR 0x20, CHR 0x20]
           @ ''--'' @ [CHR 0x20, CHR 0x5C, CHR 0x0A, CHR 0x20, CHR 0x20]
           @ ''bash'' @ [CHR 0x20, CHR 0x5C, CHR 0x0A, CHR 0x20, CHR 0x20]
           @ ''-c'' @ [CHR 0x20, CHR 0x5C, CHR 0x0A, CHR 0x20, CHR 0x20]
           @ [CHR 0x27, CHR 0x0A] @ ''cd '' @ [CHR 0x27, CHR 0x5C, CHR 0x27, CHR 0x27]
           @ ''/Users/u/work/repo'' @ [CHR 0x27, CHR 0x5C, CHR 0x27, CHR 0x27, CHR 0x0A]
           @ ''exec claude --dangerously-skip-permissions'' @ [CHR 0x0A, CHR 0x27])),
         Cleanup, Cleanup, ProcessExit 0]
   \<and> status (main world_linux_indexed [''--dry-run'']) = Some 0
   \<and> take 4 (trace (main world_linux_indexed [''--dry-run''])) =
        [Print (Log ''# Environment changes:''),
         Print (Log ''#   7=(deleted)''),
         Print (Log ''#   10=(deleted)''),
         Print (Log ''#   SSH_AUTH_SOCK=(deleted)'')]
   \<and> status (main world_linux [''--dry-run'', ''--bogus'']) = Some 1
   \<and> status (main world_linux [''--dry-run'', ''--help'']) = Some 0"
proof -
  have m: "''--dry-run'' \<in> set [''--dry-run'']" by simp
  have mac: "\<not> spawns (main world_mac [''--dry-run''])
      \<and> status (main world_mac [''--dry-run'']) = Some 0
      \<and> trace (main world_mac [''--dry-run'']) =
           [Print (Log ''Initializing Claude configuration...''),
            Print (Log (command_line
              (Some ''/usr/bin/sandbox-exec''
               # map Some [''-p'', ''(version 1)'' @ [CHR 0x0A] @ generated_policy True,
                           ''-DPROJECT_DIR=/Users/u/work/repo'',
                           ''-DTMPDIR=/private/var/folders/x/T'',
                           ''-DSLASH_TMP=/private/tmp'', ''--'', ''bash'', ''-c'',
                           launch_script ''/Users/u/work/repo'']))),
            Cleanup, Cleanup, ProcessExit 0]"
  proof -
    obtain options where
      pa: "parseArgs world_mac [''--dry-run''] = ([], Return options)" and
      s: "options ''allowSshAgent'' = Some (JBool False)"
      using parseArgs_world_mac by blast
    obtain p where
      ss: "session_setup world_mac options (emit (map Print []) initial)
             = Go (''/Users/u'', ''/var/folders/x/T/claudebox-0123abcd'', ''/Users/u/.claude'',
                   ''/Users/u/.claude.json'') p"
      using session_setup_world_mac [where options = options, OF s] by blast
    have r: "getRepoRoot world_mac (cwd world_mac) = ''/Users/u/work/repo''"
      by (simp add: getRepoRoot_def world_mac_fields)
    obtain cfg where
      sb: "sandbox_setup world_mac options (getRepoRoot world_mac (cwd world_mac))
             (''/Users/u'', ''/var/folders/x/T/claudebox-0123abcd'', ''/Users/u/.claude'',
              ''/Users/u/.claude.json'') p = Go (SeatbeltSandbox cfg) p" and
      rr: "repoRoot cfg = ''/Users/u/work/repo''"
      unfolding r using sandbox_setup_world_mac by blast
    let ?r = "\<lparr> cmd = ''/usr/bin/sandbox-exec'',
                args = map Some [''-p'', ''(version 1)'' @ [CHR 0x0A] @ generated_policy True,
                                 ''-DPROJECT_DIR=/Users/u/work/repo'',
                                 ''-DTMPDIR=/private/var/folders/x/T'',
                                 ''-DSLASH_TMP=/private/tmp'', ''--'', ''bash'', ''-c'',
                                 launch_script ''/Users/u/work/repo''],
                wenv = env world_mac \<rparr>"
    have w: "Sandbox_wrap world_mac (SeatbeltSandbox cfg) (launch_script (cwd world_mac)) = Return ?r"
      by (simp add: SeatbeltSandbox_wrap_world_mac [OF rr] world_mac_fields(3))
    have d: "distinct (map fst (env world_mac))"
      by (simp add: world_mac_fields) (simp add: host_mac_def)
    have e: "\<not> pathExists world_mac ''/Users/u/.claude.json''"
      by (simp add: pathExists_def world_mac_fields)
    note t = dry_run [where argv = "[''--dry-run'']" and w = world_mac and printed = "[]"
        and options = options and home' = "''/Users/u''"
        and ch = "''/var/folders/x/T/claudebox-0123abcd''" and cc = "''/Users/u/.claude''"
        and cj = "''/Users/u/.claude.json''" and p = p and p' = p
        and sb = "SeatbeltSandbox cfg" and r = ?r and a = "''--dry-run''" and r' = ?r
        and h = world_mac and e = "''e''" and c = 0 and q = p, OF m]
    note c = t [THEN conjunct2, THEN conjunct2, THEN conjunct2, THEN conjunct2, THEN conjunct2,
                THEN conjunct2, THEN conjunct2, THEN conjunct2, THEN conjunct2, THEN conjunct1,
                THEN mp, OF conjI [OF pa conjI [OF ss conjI [OF sb w]]]]
    note sp = t [THEN conjunct1] and st = c [THEN conjunct1]
      and tr = c [THEN conjunct2, THEN conjunct1]
      and dl = c [THEN conjunct2, THEN conjunct2, THEN conjunct2, THEN mp, OF d]
    from dl have "dryRun_lines world_mac ?r = [Log (command_line (Some (cmd ?r) # args ?r))]"
      by (simp add: deleted_names_world_mac delta_lines_def)
    with sp st tr e show ?thesis by simp
  qed
  have lin: "status (main world_linux_indexed [''--dry-run'']) = Some 0
      \<and> take 4 (trace (main world_linux_indexed [''--dry-run''])) =
        [Print (Log ''# Environment changes:''),
         Print (Log ''#   7=(deleted)''),
         Print (Log ''#   10=(deleted)''),
         Print (Log ''#   SSH_AUTH_SOCK=(deleted)'')]"
  proof -
    obtain options where
      pa: "parseArgs world_linux_indexed [''--dry-run''] = ([], Return options)" and
      s: "options ''allowSshAgent'' = Some (JBool False)"
      using parseArgs_world_linux_indexed by blast
    obtain a b p where
      ss: "session_setup world_linux_indexed options (emit (map Print []) initial)
             = Go (''/home/u'', a, b, ''/home/u/.claude.json'') p"
      using session_setup_world_linux_indexed [where options = options, OF s] by blast
    have r: "getRepoRoot world_linux_indexed (cwd world_linux_indexed) = ''/home/u/work/repo''"
      by (simp add: getRepoRoot_def world_linux_indexed_fields)
    obtain cfg where
      sb: "sandbox_setup world_linux_indexed options
             (getRepoRoot world_linux_indexed (cwd world_linux_indexed))
             (''/home/u'', a, b, ''/home/u/.claude.json'') p = Go (BubblewrapSandbox cfg) p"
      unfolding r using sandbox_setup_world_linux_indexed by blast
    obtain res where
      w: "Sandbox_wrap world_linux_indexed (BubblewrapSandbox cfg)
            (launch_script (cwd world_linux_indexed)) = Return res"
      using wrap_world_linux_indexed by auto
    have d: "distinct (map fst (env world_linux_indexed))"
      by (simp add: world_linux_indexed_fields)
    have e: "pathExists world_linux_indexed ''/home/u/.claude.json''"
      by (simp add: pathExists_def world_linux_indexed_fields)
    note t = dry_run [where argv = "[''--dry-run'']" and w = world_linux_indexed and printed = "[]"
        and options = options and home' = "''/home/u''" and ch = a and cc = b
        and cj = "''/home/u/.claude.json''" and p = p and p' = p
        and sb = "BubblewrapSandbox cfg" and r = res and a = "''--dry-run''" and r' = res
        and h = world_linux_indexed and e = "''e''" and c = 0 and q = p, OF m]
    note c = t [THEN conjunct2, THEN conjunct2, THEN conjunct2, THEN conjunct2, THEN conjunct2,
                THEN conjunct2, THEN conjunct2, THEN conjunct2, THEN conjunct2, THEN conjunct1,
                THEN mp, OF conjI [OF pa conjI [OF ss conjI [OF sb w]]]]
    note st = c [THEN conjunct1]
      and tr = c [THEN conjunct2, THEN conjunct1]
      and dl = c [THEN conjunct2, THEN conjunct2, THEN conjunct2, THEN mp, OF d]
    from dl have "dryRun_lines world_linux_indexed res =
        [Log ''# Environment changes:'', Log ''#   7=(deleted)'', Log ''#   10=(deleted)'',
         Log ''#   SSH_AUTH_SOCK=(deleted)'', Log (command_line (Some (cmd res) # args res))]"
      by (simp add: deleted_names_world_linux_indexed delta_lines_def)
    with st tr e show ?thesis by simp
  qed
  have m2: "''--dry-run'' \<in> set [''--dry-run'', ''--bogus'']" by simp
  have f2: "first_other [''--dry-run'', ''--bogus''] = Some ''--bogus''"
    by (simp add: first_other_def accepted_options_def)
  have bogus: "status (main world_linux [''--dry-run'', ''--bogus'']) = Some 1"
    using dry_run [where argv = "[''--dry-run'', ''--bogus'']" and w = world_linux
        and a = "''--bogus''" and r' = "\<lparr>cmd = [], args = [], wenv = []\<rparr>" and h = world_linux
        and e = "''e''" and c = 0 and q = initial and p = initial and p' = initial
        and printed = "[]" and options = Map.empty and r = "\<lparr>cmd = [], args = [], wenv = []\<rparr>"
        and home' = "[]" and ch = "[]" and cc = "[]" and cj = "[]"
        and sb = "BubblewrapSandbox config0", OF m2] f2
    by simp
  have m3: "''--dry-run'' \<in> set [''--dry-run'', ''--help'']" by simp
  have f3: "first_other [''--dry-run'', ''--help''] = Some ''--help''"
    by (simp add: first_other_def accepted_options_def)
  have hlp: "status (main world_linux [''--dry-run'', ''--help'']) = Some 0"
    using dry_run [where argv = "[''--dry-run'', ''--help'']" and w = world_linux
        and a = "''--help''" and r' = "\<lparr>cmd = [], args = [], wenv = []\<rparr>" and h = world_linux
        and e = "''e''" and c = 0 and q = initial and p = initial and p' = initial
        and printed = "[]" and options = Map.empty and r = "\<lparr>cmd = [], args = [], wenv = []\<rparr>"
        and home' = "[]" and ch = "[]" and cc = "[]" and cj = "[]"
        and sb = "BubblewrapSandbox config0", OF m3] f3
    by (simp add: getConfigPath_world_linux)
  from m mac lin bogus hlp show ?thesis
    by (simp only: command_line_world_mac) simp
qed

section \<open>The IDE auth token\<close>

lemma first_token_Some:
  "first_token h fs = Some t \<Longrightarrow> \<exists>f \<in> set fs. read_token h f = Some t"
  by (induction fs) (auto split: option.splits)

lemma first_token_None:
  "first_token h fs = None \<longleftrightarrow> (\<forall>f \<in> set fs. read_token h f = None)"
  by (induction fs) (auto split: option.splits)

lemma first_token_hd:
  "read_token h f = Some t \<Longrightarrow> first_token h (f # fs) = Some t"
  by simp

lemma first_token_sorted:
  assumes "sorted (map k xs)" and "first_token h (map g xs) = Some t"
  shows "\<exists>x \<in> set xs. read_token h (g x) = Some t
           \<and> (\<forall>y \<in> set xs. read_token h (g y) \<noteq> None \<longrightarrow> k x \<le> k y)"
  using assms
proof (induction xs)
  case Nil
  then show ?case by simp
next
  case (Cons x xs)
  show ?case
  proof (cases "read_token h (g x)")
    case None
    with Cons.prems have "sorted (map k xs)" and "first_token h (map g xs) = Some t"
      by simp_all
    from Cons.IH [OF this] None show ?thesis by auto
  next
    case (Some u)
    with Cons.prems have "u = t" by simp
    with Some Cons.prems(1) show ?thesis by auto
  qed
qed

lemma stat_all_Some:
  "stat_all w d fs = Some files \<Longrightarrow> map fst files = fs"
  by (induction fs arbitrary: files) (auto split: option.splits)

lemma stat_all_mtime:
  "stat_all w d fs = Some files \<Longrightarrow> (f, m) \<in> set files \<Longrightarrow> fs_mtime w (path_join [d, f]) = Some m"
  by (induction fs arbitrary: files) (auto split: option.splits)

lemma readIdeAuthToken_port:
  assumes "getenv w ''HOME'' = Some home" and "isDirectory w (ide_dir home)"
      and "first_token w (port_lock_files w (ide_dir home)) = Some t"
  shows "readIdeAuthToken w = Return (Some t)"
  using assms by (simp add: readIdeAuthToken_def ide_dir_def)

lemma port_lock_files_hint:
  assumes "getenv w ''CLAUDE_CODE_SSE_PORT'' = Some port" and "all_digits port"
      and "pathExists w (path_join [d, port @ ''.lock''])"
  shows "port_lock_files w d = path_join [d, port @ ''.lock'']
           # filter (pathExists w) [path_join [d, port]]"
proof -
  have "port \<noteq> []" using assms(2) by (auto simp: all_digits_def)
  then show ?thesis using assms by (simp add: port_lock_files_def or_else_def)
qed

lemma readIdeAuthToken_hint:
  assumes "getenv w ''HOME'' = Some home" and "isDirectory w (ide_dir home)"
      and "getenv w ''CLAUDE_CODE_SSE_PORT'' = Some port" and "all_digits port"
      and "pathExists w (lock_path home (port @ ''.lock''))"
      and "read_token w (lock_path home (port @ ''.lock'')) = Some t"
  shows "readIdeAuthToken w = Return (Some t)"
proof -
  have "first_token w (port_lock_files w (ide_dir home)) = Some t"
    using port_lock_files_hint [OF assms(3,4), of "ide_dir home"] assms(5,6)
    by (simp add: lock_path_def)
  then show ?thesis by (rule readIdeAuthToken_port [OF assms(1,2)])
qed

lemma readIdeAuthToken_fallback:
  assumes "getenv w ''HOME'' = Some home" and "isDirectory w (ide_dir home)"
      and "first_token w (port_lock_files w (ide_dir home)) = None"
      and "fs_readdir w (ide_dir home) = Some names"
      and "stat_all w (ide_dir home) (filter is_lock_name names) = Some files"
  shows "readIdeAuthToken w =
           Return (first_token w (map (\<lambda>(name, mtime). lock_path home name)
                                    (sort_key (\<lambda>(name, mtime). - mtime) files)))"
  using assms
  by (simp add: readIdeAuthToken_def ide_dir_def [symmetric] newest_first_def lock_path_def)

lemma readIdeAuthToken_newest:
  assumes "getenv w ''HOME'' = Some home" and "isDirectory w (ide_dir home)"
      and "first_token w (port_lock_files w (ide_dir home)) = None"
      and "fs_readdir w (ide_dir home) = Some names"
      and "stat_all w (ide_dir home) (filter is_lock_name names) = Some files"
  shows "(\<exists>t. readIdeAuthToken w = Return (Some t)
            \<and> (\<exists>(f, m) \<in> set files. read_token w (lock_path home f) = Some t
                  \<and> (\<forall>(f', m') \<in> set files.
                        read_token w (lock_path home f') \<noteq> None \<longrightarrow> m' \<le> m)))
       \<or> (readIdeAuthToken w = Return None
            \<and> (\<forall>(f, m) \<in> set files. read_token w (lock_path home f) = None))"
proof -
  let ?k = "\<lambda>(name, mtime :: real). - mtime"
  let ?g = "\<lambda>(name, mtime :: real). lock_path home name"
  let ?xs = "sort_key ?k files"
  have r: "readIdeAuthToken w = Return (first_token w (map ?g ?xs))"
    by (rule readIdeAuthToken_fallback [OF assms])
  show ?thesis
  proof (cases "first_token w (map ?g ?xs)")
    case None
    then have "\<forall>x \<in> set files. read_token w (?g x) = None"
      by (simp add: first_token_None)
    with r None show ?thesis by auto
  next
    case (Some t)
    have "sorted (map ?k ?xs)" by simp
    from first_token_sorted [OF this Some]
    obtain x where x: "x \<in> set files" "read_token w (?g x) = Some t"
      "\<forall>y \<in> set files. read_token w (?g y) \<noteq> None \<longrightarrow> ?k x \<le> ?k y"
      by auto
    obtain f m where fm: "x = (f, m)" by (cases x)
    have "\<forall>(f', m') \<in> set files. read_token w (lock_path home f') \<noteq> None \<longrightarrow> m' \<le> m"
      using x(3) by (auto simp: fm)
    with x(1,2) fm r Some show ?thesis by auto
  qed
qed

lemma readIdeAuthToken_unlistable:
  assumes "getenv w ''HOME'' = Some home"
      and "first_token w (port_lock_files w (ide_dir home)) = None"
      and "fs_readdir w (ide_dir home) = None"
  shows "readIdeAuthToken w = Return None"
  using assms by (simp add: readIdeAuthToken_def ide_dir_def [symmetric] newest_first_def Let_def)

lemma readIdeAuthToken_stat_failure:
  assumes "getenv w ''HOME'' = Some home"
      and "first_token w (port_lock_files w (ide_dir home)) = None"
      and "fs_readdir w (ide_dir home) = Some names"
      and "stat_all w (ide_dir home) (filter is_lock_name names) = None"
  shows "readIdeAuthToken w = Return None"
  using assms by (simp add: readIdeAuthToken_def ide_dir_def [symmetric] newest_first_def Let_def)

lemma ide_auth_token_none:
  assumes "truthy_opt (options ''allowIde'')" and "readIdeAuthToken w = Return None"
  shows "ide_auth_token w options home' claudeHome' projectDir p =
           Go (launch_script projectDir)
              (emit [Print (Err ''claudebox: --allow-ide specified but no IDE auth token found in ~/.claude/ide/'')] p)"
  using assms by (simp add: ide_auth_token_def)

text \<open>
  Claim C5, as amended.  With \<^verbatim>\<open>HOME\<close> set and the IDE directory a directory: a token in the
  lock file named after a numeric port hint is returned, and so is any token that the
  port-hinted files give.  When they give none, the directory can be listed and every lock file
  in it has a modification time, the token returned comes from a lock file that has one and
  whose modification time is greatest among the lock files that have one; no token is returned
  only if no lock file has one.  When the directory cannot be listed, no token is returned.
  With no token the launcher prints its warning and goes on to the plain script, and when
  the setup has succeeded and \<^verbatim>\<open>wrap\<close> returns, \<^verbatim>\<open>main\<close> prints the warning and spawns the
  child.
\<close>

theorem ide_token_selection:
  assumes "getenv w ''HOME'' = Some home" and "isDirectory w (ide_dir home)"
  shows "(getenv w ''CLAUDE_CODE_SSE_PORT'' = Some port \<and> all_digits port
          \<and> pathExists w (lock_path home (port @ ''.lock''))
          \<and> read_token w (lock_path home (port @ ''.lock'')) = Some t
          \<longrightarrow> readIdeAuthToken w = Return (Some t))
       \<and> (first_token w (port_lock_files w (ide_dir home)) = Some t
          \<longrightarrow> readIdeAuthToken w = Return (Some t))
       \<and> (first_token w (port_lock_files w (ide_dir home)) = None
          \<and> fs_readdir w (ide_dir home) = Some names
          \<and> stat_all w (ide_dir home) (filter is_lock_name names) = Some files
          \<longrightarrow> (\<exists>t. readIdeAuthToken w = Return (Some t)
                  \<and> (\<exists>(f, m) \<in> set files. read_token w (lock_path home f) = Some t
                        \<and> (\<forall>(f', m') \<in> set files.
                              read_token w (lock_path home f') \<noteq> None \<longrightarrow> m' \<le> m)))
              \<or> (readIdeAuthToken w = Return None
                  \<and> (\<forall>(f, m) \<in> set files. read_token w (lock_path home f) = None)))
       \<and> (first_token w (port_lock_files w (ide_dir home)) = None
          \<and> fs_readdir w (ide_dir home) = None
          \<longrightarrow> readIdeAuthToken w = Return None)
       \<and> (truthy_opt (options ''allowIde'') \<and> readIdeAuthToken w = Return None
          \<longrightarrow> ide_auth_token w options home claudeHome' projectDir p
                = Go (launch_script projectDir)
                     (p\<lparr>trace := trace p @
                        [Print (Err ''claudebox: --allow-ide specified but no IDE auth token found in ~/.claude/ide/'')]\<rparr>))
       \<and> (truthy_opt (options ''allowIde'') \<and> readIdeAuthToken w = Return None
          \<and> parseArgs_ide w argv = (printed, Return options)
          \<and> session_setup_ide w options
                \<lparr>session = None, listening = False, trace = map Print printed, status = None\<rparr>
                = Go (home, claudeHome', claudeConfig', claudeJson') p
          \<and> sandbox_setup_ide w options (getRepoRoot w (cwd w))
                (home, claudeHome', claudeConfig', claudeJson') p = Go sb p
          \<and> Sandbox_wrap_ide w sb (launch_script (cwd w)) = Return r
          \<longrightarrow> main_ide w argv =
                p\<lparr>trace := trace p @
                   [Print (Err ''claudebox: --allow-ide specified but no IDE auth token found in ~/.claude/ide/''),
                    Spawn r]\<rparr>)"
proof (intro conjI impI)
  assume "getenv w ''CLAUDE_CODE_SSE_PORT'' = Some port \<and> all_digits port
          \<and> pathExists w (lock_path home (port @ ''.lock''))
          \<and> read_token w (lock_path home (port @ ''.lock'')) = Some t"
  then show "readIdeAuthToken w = Return (Some t)"
    using readIdeAuthToken_hint [OF assms] by blast
next
  assume "first_token w (port_lock_files w (ide_dir home)) = Some t"
  then show "readIdeAuthToken w = Return (Some t)"
    by (rule readIdeAuthToken_port [OF assms])
next
  assume "first_token w (port_lock_files w (ide_dir home)) = None
          \<and> fs_readdir w (ide_dir home) = Some names
          \<and> stat_all w (ide_dir home) (filter is_lock_name names) = Some files"
  then have 1: "first_token w (port_lock_files w (ide_dir home)) = None"
    and 2: "fs_readdir w (ide_dir home) = Some names"
    and 3: "stat_all w (ide_dir home) (filter is_lock_name names) = Some files"
    by blast+
  show "(\<exists>t. readIdeAuthToken w = Return (Some t)
                  \<and> (\<exists>(f, m) \<in> set files. read_token w (lock_path home f) = Some t
                        \<and> (\<forall>(f', m') \<in> set files.
                              read_token w (lock_path home f') \<noteq> None \<longrightarrow> m' \<le> m)))
              \<or> (readIdeAuthToken w = Return None
                  \<and> (\<forall>(f, m) \<in> set files. read_token w (lock_path home f) = None))"
    by (rule readIdeAuthToken_newest [OF assms 1 2 3])
next
  assume "first_token w (port_lock_files w (ide_dir home)) = None
          \<and> fs_readdir w (ide_dir home) = None"
  then show "readIdeAuthToken w = Return None"
    using readIdeAuthToken_unlistable [OF assms(1)] by blast
next
  assume "truthy_opt (options ''allowIde'') \<and> readIdeAuthToken w = Return None"
  then show "ide_auth_token w options home claudeHome' projectDir p
                = Go (launch_script projectDir)
                     (p\<lparr>trace := trace p @
                        [Print (Err ''claudebox: --allow-ide specified but no IDE auth token found in ~/.claude/ide/'')]\<rparr>)"
    by (simp add: ide_auth_token_none emit_def)
next
  assume a: "truthy_opt (options ''allowIde'') \<and> readIdeAuthToken w = Return None
          \<and> parseArgs_ide w argv = (printed, Return options)
          \<and> session_setup_ide w options
                \<lparr>session = None, listening = False, trace = map Print printed, status = None\<rparr>
                = Go (home, claudeHome', claudeConfig', claudeJson') p
          \<and> sandbox_setup_ide w options (getRepoRoot w (cwd w))
                (home, claudeHome', claudeConfig', claudeJson') p = Go sb p
          \<and> Sandbox_wrap_ide w sb (launch_script (cwd w)) = Return r"
  have e: "emit (map Print printed) initial
             = \<lparr>session = None, listening = False, trace = map Print printed, status = None\<rparr>"
    by (simp add: emit_def initial_def)
  from a show "main_ide w argv =
                p\<lparr>trace := trace p @
                   [Print (Err ''claudebox: --allow-ide specified but no IDE auth token found in ~/.claude/ide/''),
                    Spawn r]\<rparr>"
    by (simp add: main_ide_def Let_def e ide_auth_token_none) (simp add: emit_def)
qed

lemma world_ide3_fields:
  "getenv world_ide3 ''HOME'' = Some ''/home/u''"
  "getenv world_ide3 ''CLAUDE_CODE_SSE_PORT'' = None"
  "fs_is_dir world_ide3 = (\<lambda>p. p = ''/home/u/.claude/ide'')"
  "fs_readdir world_ide3 ''/home/u/.claude/ide'' = Some [''222.lock'', ''333.lock'', ''notes.txt'', ''111.lock'']"
  "fs_mtime world_ide3 ''/home/u/.claude/ide/111.lock'' = Some 10"
  "fs_mtime world_ide3 ''/home/u/.claude/ide/222.lock'' = Some 20"
  "fs_mtime world_ide3 ''/home/u/.claude/ide/333.lock'' = Some 30"
  "fs_read_json world_ide3 ''/home/u/.claude/ide/111.lock'' = Parsed (JObj [(''authToken'', JStr ''a'')])"
  "fs_read_json world_ide3 ''/home/u/.claude/ide/222.lock'' = Parsed (JObj [(''authToken'', JStr ''b'')])"
  "fs_read_json world_ide3 ''/home/u/.claude/ide/333.lock'' = Parsed (JObj [(''authToken'', JStr ''c'')])"
  by (simp_all add: world_ide3_def world_linux_def host0_def getenv_def
        host.defs world.defs world_ide.defs)

lemma ide_dir_u: "ide_dir ''/home/u'' = ''/home/u/.claude/ide''"
  by (simp add: ide_dir_def path_join_def path_normalize_def)

lemma lock_path_u:
  "lock_path ''/home/u'' ''111.lock'' = ''/home/u/.claude/ide/111.lock''"
  "lock_path ''/home/u'' ''222.lock'' = ''/home/u/.claude/ide/222.lock''"
  "lock_path ''/home/u'' ''333.lock'' = ''/home/u/.claude/ide/333.lock''"
  by (simp_all add: lock_path_def ide_dir_u) (simp_all add: path_join_def path_normalize_def)

lemma read_token_world_ide3:
  "read_token world_ide3 ''/home/u/.claude/ide/111.lock'' = Some (JStr ''a'')"
  "read_token world_ide3 ''/home/u/.claude/ide/222.lock'' = Some (JStr ''b'')"
  "read_token world_ide3 ''/home/u/.claude/ide/333.lock'' = Some (JStr ''c'')"
  by (simp_all add: read_token_def world_ide3_fields)

lemma lock_names:
  "filter is_lock_name [''222.lock'', ''333.lock'', ''notes.txt'', ''111.lock'']
     = [''222.lock'', ''333.lock'', ''111.lock'']"
  by (simp add: is_lock_name_def all_digits_def suffix_to_prefix)

lemma stat_all_world_ide3:
  "stat_all world_ide3 ''/home/u/.claude/ide'' [''222.lock'', ''333.lock'', ''111.lock'']
     = Some [(''222.lock'', 20), (''333.lock'', 30), (''111.lock'', 10)]"
  using lock_path_u by (simp add: lock_path_def ide_dir_u world_ide3_fields)

lemma world_ide_unlistable_fields:
  "getenv world_ide_unlistable = getenv world_ide3"
  "fs_is_dir world_ide_unlistable = fs_is_dir world_ide3"
  "fs_read_json world_ide_unlistable = fs_read_json world_ide3"
  "fs_readdir world_ide_unlistable = (\<lambda>d. None)"
  by (simp_all add: world_ide_unlistable_def getenv_def fun_eq_iff)

lemma world_ide_unlistable_home:
  "getenv world_ide_unlistable ''HOME'' = Some ''/home/u''"
  "isDirectory world_ide_unlistable (ide_dir ''/home/u'')"
  by (simp_all add: world_ide_unlistable_fields world_ide3_fields isDirectory_def ide_dir_u)

lemma port_lock_files_world_ide_unlistable:
  "first_token world_ide_unlistable (port_lock_files world_ide_unlistable (ide_dir ''/home/u'')) = None"
  by (simp add: port_lock_files_def world_ide_unlistable_fields world_ide3_fields or_else_def)

lemma readIdeAuthToken_world_ide_unlistable:
  "readIdeAuthToken world_ide_unlistable = Return None"
  by (rule readIdeAuthToken_unlistable
        [OF world_ide_unlistable_home(1) port_lock_files_world_ide_unlistable])
     (simp add: world_ide_unlistable_fields)

theorem ide_token_selection_witness:
  "readIdeAuthToken world_ide3 = Return (Some (JStr ''c''))
   \<and> ide_auth_token world_ide_unlistable [''allowIde'' \<mapsto> JBool True]
         ''/home/u'' ''/tmp/claudebox-0123abcd'' ''/home/u/work/repo''
         \<lparr>session = None, listening = True, trace = [], status = None\<rparr>
       = Go (launch_script ''/home/u/work/repo'')
            \<lparr>session = None, listening = True,
               trace = [Print (Err ''claudebox: --allow-ide specified but no IDE auth token found in ~/.claude/ide/'')],
               status = None\<rparr>"
proof -
  have h: "getenv world_ide3 ''HOME'' = Some ''/home/u''" by (rule world_ide3_fields)
  have d: "isDirectory world_ide3 (ide_dir ''/home/u'')"
    by (simp add: isDirectory_def world_ide3_fields ide_dir_u)
  have p: "first_token world_ide3 (port_lock_files world_ide3 (ide_dir ''/home/u'')) = None"
    by (simp add: port_lock_files_def world_ide3_fields or_else_def)
  have l: "fs_readdir world_ide3 (ide_dir ''/home/u'')
             = Some [''222.lock'', ''333.lock'', ''notes.txt'', ''111.lock'']"
    by (simp add: ide_dir_u world_ide3_fields)
  have s: "stat_all world_ide3 (ide_dir ''/home/u'')
             (filter is_lock_name [''222.lock'', ''333.lock'', ''notes.txt'', ''111.lock''])
           = Some [(''222.lock'', 20), (''333.lock'', 30), (''111.lock'', 10)]"
    by (simp only: lock_names ide_dir_u stat_all_world_ide3)
  from ide_token_selection [OF h d, where names = "[''222.lock'', ''333.lock'', ''notes.txt'', ''111.lock'']"
      and files = "[(''222.lock'', 20), (''333.lock'', 30), (''111.lock'', 10)]"] p l s
  have "(\<exists>t. readIdeAuthToken world_ide3 = Return (Some t)
            \<and> (\<exists>(f, m) \<in> set [(''222.lock'', 20 :: real), (''333.lock'', 30), (''111.lock'', 10)].
                  read_token world_ide3 (lock_path ''/home/u'' f) = Some t
                  \<and> (\<forall>(f', m') \<in> set [(''222.lock'', 20 :: real), (''333.lock'', 30), (''111.lock'', 10)].
                        read_token world_ide3 (lock_path ''/home/u'' f') \<noteq> None \<longrightarrow> m' \<le> m)))
       \<or> (readIdeAuthToken world_ide3 = Return None
            \<and> (\<forall>(f, m) \<in> set [(''222.lock'', 20 :: real), (''333.lock'', 30), (''111.lock'', 10)].
                  read_token world_ide3 (lock_path ''/home/u'' f) = None))"
    by blast
  then have 1: "readIdeAuthToken world_ide3 = Return (Some (JStr ''c''))"
    by (auto simp: lock_path_u read_token_world_ide3)
  have t: "truthy_opt ([''allowIde'' \<mapsto> JBool True] ''allowIde'')"
    by (simp add: truthy_opt_def)
  from ide_token_selection [OF world_ide_unlistable_home,
      where options = "[''allowIde'' \<mapsto> JBool True]"
        and claudeHome' = "''/tmp/claudebox-0123abcd''" and projectDir = "''/home/u/work/repo''"
        and p = "\<lparr>session = None, listening = True, trace = [], status = None\<rparr>"]
    t readIdeAuthToken_world_ide_unlistable
  have 2: "ide_auth_token world_ide_unlistable [''allowIde'' \<mapsto> JBool True]
         ''/home/u'' ''/tmp/claudebox-0123abcd'' ''/home/u/work/repo''
         \<lparr>session = None, listening = True, trace = [], status = None\<rparr>
       = Go (launch_script ''/home/u/work/repo'')
            (\<lparr>session = None, listening = True, trace = [], status = None\<rparr>
               \<lparr>trace := trace \<lparr>session = None, listening = True, trace = [], status = None\<rparr> @
                  [Print (Err ''claudebox: --allow-ide specified but no IDE auth token found in ~/.claude/ide/'')]\<rparr>)"
    by blast
  from 1 2 show ?thesis by simp
qed

text \<open>The claim as stated fails for a directory that cannot be listed: a lock file with a
  token is there, and no token is returned.\<close>

theorem ide_token_unlistable_directory:
  "fs_readdir world_ide_unlistable (ide_dir ''/home/u'') = None
   \<and> isDirectory world_ide_unlistable (ide_dir ''/home/u'')
   \<and> is_lock_name ''333.lock''
   \<and> read_token world_ide_unlistable (lock_path ''/home/u'' ''333.lock'') = Some (JStr ''c'')
   \<and> readIdeAuthToken world_ide_unlistable = Return None"
proof -
  have r: "read_token world_ide_unlistable = read_token world_ide3"
    by (simp add: read_token_def world_ide_unlistable_fields fun_eq_iff)
  have "is_lock_name ''333.lock''"
    by (simp add: is_lock_name_def all_digits_def suffix_to_prefix)
  then show ?thesis
    using readIdeAuthToken_world_ide_unlistable world_ide_unlistable_home(2)
    by (simp add: world_ide_unlistable_fields r lock_path_u read_token_world_ide3)
qed

text \<open>In \<^verbatim>\<open>main\<close> of the variant with IDE integration, a missing token is a warning and
  the child is spawned with the plain script; and the \<^verbatim>\<open>close\<close> handler passes on the code
  of the child, or 0 when it has none.\<close>

lemma main_ide_proceeds_without_token:
  assumes "parseArgs_ide w argv = (printed, Return options)"
      and "session_setup_ide w options (emit (map Print printed) initial)
             = Go (home', claudeHome', claudeConfig', claudeJson') p"
      and "sandbox_setup_ide w options (getRepoRoot w (cwd w))
             (home', claudeHome', claudeConfig', claudeJson') p = Go sb p'"
      and "truthy_opt (options ''allowIde'')"
      and "readIdeAuthToken w = Return None"
      and "Sandbox_wrap_ide w sb (launch_script (cwd w)) = Return r"
  shows "main_ide w argv =
           emit [Print (Err ''claudebox: --allow-ide specified but no IDE auth token found in ~/.claude/ide/''),
                 Spawn r] p'"
  using assms
  by (simp add: main_ide_def Let_def ide_auth_token_none emit_def)

lemma on_close_status:
  "status (on_close code p) = Some (case code of None \<Rightarrow> 0 | Some c \<Rightarrow> c)"
  by (simp add: on_close_def)

end
